theory Spec2Isabelle
  imports Main "HOL-Library.AList" "HOL-Library.Product_Lexorder" "HOL-Library.Char_ord"
    "HOL-Library.List_Lexorder"
begin

section \<open>The platform: a file tree, a clock, injected I/O failures, a log\<close>

text \<open>
  The service works on three directories below \<^verbatim>\<open>process.cwd()\<close>. The file system is
  modelled as a tree rooted at that directory, on a POSIX platform; a path is the list of
  its segments below the root.

  \<^verbatim>\<open>path.join(dir, x)\<close> is modelled as appending \<open>x\<close> as one segment. This is what
  \<^verbatim>\<open>path.join\<close> does when \<open>x\<close> is a file name, a \<open>segment\<close>: not empty, not \<^verbatim>\<open>.\<close> or
  \<^verbatim>\<open>..\<close>, and without a separator or a null byte. For any other \<open>x\<close> Node normalises the
  joined path to another one (\<^verbatim>\<open>path.join(dir, '')\<close> is \<open>dir\<close>), so the properties of the
  run ids and project ids below are stated for segments. The entries that
  \<^verbatim>\<open>readdirSync\<close> lists are segments on every file system.

  File contents are kept up to JSON parsing: \<open>NotJson s\<close> is text that \<^verbatim>\<open>JSON.parse\<close>
  rejects (the HTML pages, a corrupted ledger), \<open>JArray es\<close> is what
  \<^verbatim>\<open>JSON.stringify\<close> writes for a list of index entries and \<open>JObject r\<close> what it writes
  for a raw result.
\<close>

type_synonym path = "string list"

definition segment :: "string \<Rightarrow> bool" where
  "segment x = (x \<noteq> [] \<and> x \<noteq> ''.'' \<and> x \<noteq> ''..'' \<and> CHR ''/'' \<notin> set x \<and> CHR 0x00 \<notin> set x)"

datatype exn = Error (message: string)

datatype level = LInfo | LWarn | LError

record ReportIndexEntry =
  entry_id :: string
  projectId :: string
  scriptId :: "string option"
  scriptName :: "string option"
  status :: "string option"
  startedAt :: "string option"
  completedAt :: "string option"
  reportUrl :: string
  createdAt :: string

record raw_result =
  uuid :: string
  testCaseId :: string
  fullName :: string
  name :: string
  historyId :: string
  result_status :: string
  stage :: string
  start :: int
  stop :: int
  steps :: "string list"

datatype fdata = NotJson string | JArray "ReportIndexEntry list" | JObject raw_result

record stats =
  mtimeMs :: int
  birthtime :: int

datatype node = File stats fdata | Dir stats "(string \<times> node) list"

text \<open>
  \<open>faults\<close> is the schedule of injected failures (permissions, a full disk, an I/O
  error): every call that can throw takes the head of the schedule, and throws it when it
  is \<open>Some e\<close>. An empty schedule injects nothing.
\<close>

record world =
  cwd :: path
  fs_root :: node
  clock :: int
  faults :: "exn option list"
  logs :: "(level \<times> string) list"

type_synonym 'a io = "world \<Rightarrow> (exn + 'a) \<times> world"

definition returnE :: "'a \<Rightarrow> 'a io" where
  "returnE x = (\<lambda>w. (Inr x, w))"

definition throwE :: "exn \<Rightarrow> 'a io" where
  "throwE e = (\<lambda>w. (Inl e, w))"

definition bindE :: "'a io \<Rightarrow> ('a \<Rightarrow> 'b io) \<Rightarrow> 'b io" where
  "bindE m f = (\<lambda>w. case m w of (Inl e, w') \<Rightarrow> (Inl e, w') | (Inr x, w') \<Rightarrow> f x w')"

text \<open>\<^verbatim>\<open>try { m } catch (e) { h e }\<close>\<close>

definition catchE :: "'a io \<Rightarrow> (exn \<Rightarrow> 'a io) \<Rightarrow> 'a io" where
  "catchE m h = (\<lambda>w. case m w of (Inl e, w') \<Rightarrow> h e w' | (Inr x, w') \<Rightarrow> (Inr x, w'))"

definition whenE :: "bool \<Rightarrow> unit io \<Rightarrow> unit io" where
  "whenE b m = (if b then m else returnE ())"

definition logger :: "level \<Rightarrow> string \<Rightarrow> unit io" where
  "logger l msg = (\<lambda>w. (Inr (), w\<lparr>logs := logs w @ [(l, msg)]\<rparr>))"

definition Date_now :: "int io" where
  "Date_now = (\<lambda>w. (Inr (clock w), w))"

definition inject :: "world \<Rightarrow> exn option \<times> world" where
  "inject w = (case faults w of [] \<Rightarrow> (None, w) | f # fs \<Rightarrow> (f, w\<lparr>faults := fs\<rparr>))"

text \<open>\<open>fallible f\<close>: a call that throws the injected failure, if there is one, and otherwise
  does what \<open>f\<close> says, in the working directory, at the current time, on the tree.\<close>

definition fallible :: "(path \<Rightarrow> int \<Rightarrow> node \<Rightarrow> exn + 'a \<times> node) \<Rightarrow> 'a io" where
  "fallible f = (\<lambda>w. case inject w of
       (Some e, w') \<Rightarrow> (Inl e, w')
     | (None, w') \<Rightarrow>
         (case f (cwd w') (clock w') (fs_root w') of
            Inl e \<Rightarrow> (Inl e, w')
          | Inr (x, t) \<Rightarrow> (Inr x, w'\<lparr>fs_root := t\<rparr>)))"

subsection \<open>The errors of \<^verbatim>\<open>fs\<close>\<close>

text \<open>
  A call of \<^verbatim>\<open>fs\<close> that fails on the tree throws the error Node builds from the error
  code of the system call: its message is the code and its description, the name of the
  system call, and the path, or the two paths, as they were given to the call, in single
  quotes. The paths the service gives are absolute.
\<close>

datatype errno = ENOENT | ENOTDIR | EISDIR | EEXIST | EBUSY | EINVAL | ENOTEMPTY | EACCES | EIO | ENOSPC

definition strerror :: "errno \<Rightarrow> string" where
  "strerror c =
     (case c of
        ENOENT \<Rightarrow> ''ENOENT: no such file or directory''
      | ENOTDIR \<Rightarrow> ''ENOTDIR: not a directory''
      | EISDIR \<Rightarrow> ''EISDIR: illegal operation on a directory''
      | EEXIST \<Rightarrow> ''EEXIST: file already exists''
      | EBUSY \<Rightarrow> ''EBUSY: resource busy or locked''
      | EINVAL \<Rightarrow> ''EINVAL: invalid argument''
      | ENOTEMPTY \<Rightarrow> ''ENOTEMPTY: directory not empty''
      | EACCES \<Rightarrow> ''EACCES: permission denied''
      | EIO \<Rightarrow> ''EIO: i/o error''
      | ENOSPC \<Rightarrow> ''ENOSPC: no space left on device'')"

definition quoted :: "string \<Rightarrow> string" where
  "quoted s = CHR 0x27 # s @ [CHR 0x27]"

fun path_string :: "path \<Rightarrow> string" where
  "path_string [] = ''/''"
| "path_string ps = concat (map (\<lambda>s. CHR ''/'' # s) ps)"

definition uvException :: "errno \<Rightarrow> string \<Rightarrow> path option \<Rightarrow> path option \<Rightarrow> exn" where
  "uvException c syscall p dest =
     Error (strerror c @ '', '' @ syscall
            @ (case p of None \<Rightarrow> [] | Some a \<Rightarrow> '' '' @ quoted (path_string a))
            @ (case dest of None \<Rightarrow> [] | Some b \<Rightarrow> '' -> '' @ quoted (path_string b)))"

subsection \<open>The tree\<close>

primrec get :: "path \<Rightarrow> node \<Rightarrow> node option" where
  "get [] n = Some n"
| "get (x # xs) n =
     (case n of
        File _ _ \<Rightarrow> None
      | Dir _ cs \<Rightarrow> (case map_of cs x of None \<Rightarrow> None | Some c \<Rightarrow> get xs c))"

text \<open>The error code of the system for a path that leads nowhere: a file on the way, or
  a name that is missing.\<close>

primrec miss :: "path \<Rightarrow> node \<Rightarrow> errno" where
  "miss [] n = ENOENT"
| "miss (x # xs) n =
     (case n of
        File _ _ \<Rightarrow> ENOTDIR
      | Dir _ cs \<Rightarrow> (case map_of cs x of None \<Rightarrow> ENOENT | Some c \<Rightarrow> miss xs c))"

text \<open>\<open>at_dir p f\<close> rewrites the directory at \<open>p\<close> with \<open>f\<close>; a path that does not lead to a
  directory leaves the tree as it is.\<close>

primrec at_dir :: "path \<Rightarrow> (stats \<Rightarrow> (string \<times> node) list \<Rightarrow> node) \<Rightarrow> node \<Rightarrow> node" where
  "at_dir [] f n = (case n of File _ _ \<Rightarrow> n | Dir st cs \<Rightarrow> f st cs)"
| "at_dir (x # xs) f n =
     (case n of
        File _ _ \<Rightarrow> n
      | Dir st cs \<Rightarrow>
          (case map_of cs x of
             None \<Rightarrow> n
           | Some c \<Rightarrow> Dir st (AList.update x (at_dir xs f c) cs)))"

text \<open>Adding or removing a directory entry sets the directory's modification time;
  replacing the contents of an entry does not.\<close>

definition link :: "int \<Rightarrow> string \<Rightarrow> node \<Rightarrow> stats \<Rightarrow> (string \<times> node) list \<Rightarrow> node" where
  "link t nm c st cs =
     Dir (if map_of cs nm = None then st\<lparr>mtimeMs := t\<rparr> else st) (AList.update nm c cs)"

definition unlink :: "int \<Rightarrow> string \<Rightarrow> stats \<Rightarrow> (string \<times> node) list \<Rightarrow> node" where
  "unlink t nm st cs =
     (if map_of cs nm = None then Dir st cs else Dir (st\<lparr>mtimeMs := t\<rparr>) (AList.delete nm cs))"

definition is_dir :: "node option \<Rightarrow> bool" where
  "is_dir n = (case n of Some (Dir _ _) \<Rightarrow> True | _ \<Rightarrow> False)"

definition node_stats :: "node \<Rightarrow> stats" where
  "node_stats n = (case n of File st _ \<Rightarrow> st | Dir st _ \<Rightarrow> st)"

definition fresh :: "int \<Rightarrow> stats" where
  "fresh t = \<lparr>mtimeMs = t, birthtime = t\<rparr>"

text \<open>\<^verbatim>\<open>mkdir -p\<close> on the tree: missing directories are created, a file on the way is an
  error, a directory that is there already is not.\<close>

primrec mkdirp :: "int \<Rightarrow> path \<Rightarrow> node \<Rightarrow> errno + node" where
  "mkdirp t [] n = (case n of File _ _ \<Rightarrow> Inl EEXIST | Dir _ _ \<Rightarrow> Inr n)"
| "mkdirp t (x # xs) n =
     (case n of
        File _ _ \<Rightarrow> Inl ENOTDIR
      | Dir st cs \<Rightarrow>
          (case map_of cs x of
             None \<Rightarrow>
               (case mkdirp t xs (Dir (fresh t) []) of
                  Inl e \<Rightarrow> Inl e
                | Inr c \<Rightarrow> Inr (link t x c st cs))
           | Some c \<Rightarrow>
               (case mkdirp t xs c of
                  Inl e \<Rightarrow> Inl e
                | Inr c' \<Rightarrow> Inr (Dir st (AList.update x c' cs)))))"

subsection \<open>The calls of \<^verbatim>\<open>fs\<close> the service makes\<close>

definition existsSync :: "path \<Rightarrow> bool io" where
  "existsSync p = (\<lambda>w. (Inr (get p (fs_root w) \<noteq> None), w))"

text \<open>Reading a directory fails in the system call \<^verbatim>\<open>read\<close>, which has no path.\<close>

definition readFileSync :: "path \<Rightarrow> fdata io" where
  "readFileSync p = fallible (\<lambda>cw now root.
     case get p root of
       None \<Rightarrow> Inl (uvException (miss p root) ''open'' (Some (cw @ p)) None)
     | Some (Dir _ _) \<Rightarrow> Inl (uvException EISDIR ''read'' None None)
     | Some (File _ d) \<Rightarrow> Inr (d, root))"

definition writeFileSync :: "path \<Rightarrow> fdata \<Rightarrow> unit io" where
  "writeFileSync p d = fallible (\<lambda>cw now root.
     if p = [] then Inl (uvException EISDIR ''open'' (Some (cw @ p)) None)
     else (case get (butlast p) root of
        Some (Dir _ cs) \<Rightarrow>
          (case map_of cs (last p) of
             Some (Dir _ _) \<Rightarrow> Inl (uvException EISDIR ''open'' (Some (cw @ p)) None)
           | Some (File st _) \<Rightarrow>
               Inr ((), at_dir (butlast p) (link now (last p) (File (st\<lparr>mtimeMs := now\<rparr>) d)) root)
           | None \<Rightarrow>
               Inr ((), at_dir (butlast p) (link now (last p) (File (fresh now) d)) root))
      | Some (File _ _) \<Rightarrow> Inl (uvException ENOTDIR ''open'' (Some (cw @ p)) None)
      | None \<Rightarrow> Inl (uvException (miss (butlast p) root) ''open'' (Some (cw @ p)) None)))"

text \<open>\<^verbatim>\<open>fs.mkdirSync(p, { recursive: true })\<close>\<close>

definition mkdirSync :: "path \<Rightarrow> unit io" where
  "mkdirSync p = fallible (\<lambda>cw now root.
     case mkdirp now p root of
       Inl c \<Rightarrow> Inl (uvException c ''mkdir'' (Some (cw @ p)) None)
     | Inr t \<Rightarrow> Inr ((), t))"

definition renameSync :: "path \<Rightarrow> path \<Rightarrow> unit io" where
  "renameSync a b = fallible (\<lambda>cw now root.
     if a = [] \<or> b = [] then Inl (uvException EBUSY ''rename'' (Some (cw @ a)) (Some (cw @ b)))
     else (case get a root of
        None \<Rightarrow> Inl (uvException (miss a root) ''rename'' (Some (cw @ a)) (Some (cw @ b)))
      | Some n \<Rightarrow>
          if a = b then Inr ((), root)
          else if take (length a) b = a
          then Inl (uvException EINVAL ''rename'' (Some (cw @ a)) (Some (cw @ b)))
          else if \<not> is_dir (get (butlast b) root)
          then Inl (uvException
                      (if get (butlast b) root = None then miss (butlast b) root else ENOTDIR)
                      ''rename'' (Some (cw @ a)) (Some (cw @ b)))
          else (case (n, get b root) of
             (File _ _, Some (Dir _ _)) \<Rightarrow>
               Inl (uvException EISDIR ''rename'' (Some (cw @ a)) (Some (cw @ b)))
           | (Dir _ _, Some (File _ _)) \<Rightarrow>
               Inl (uvException ENOTDIR ''rename'' (Some (cw @ a)) (Some (cw @ b)))
           | (Dir _ _, Some (Dir _ (c # cs))) \<Rightarrow>
               Inl (uvException ENOTEMPTY ''rename'' (Some (cw @ a)) (Some (cw @ b)))
           | _ \<Rightarrow>
               Inr ((), at_dir (butlast b) (link now (last b) n)
                          (at_dir (butlast a) (unlink now (last a)) root)))))"

text \<open>\<^verbatim>\<open>fs.readdirSync(p)\<close> lists the names in the order of their bytes, the order in which
  \<^verbatim>\<open>scandir\<close> hands them to Node.\<close>

definition readdirSync :: "path \<Rightarrow> string list io" where
  "readdirSync p = fallible (\<lambda>cw now root.
     case get p root of
       None \<Rightarrow> Inl (uvException (miss p root) ''scandir'' (Some (cw @ p)) None)
     | Some (File _ _) \<Rightarrow> Inl (uvException ENOTDIR ''scandir'' (Some (cw @ p)) None)
     | Some (Dir _ cs) \<Rightarrow> Inr (sort (map fst cs), root))"

definition statSync :: "path \<Rightarrow> stats io" where
  "statSync p = fallible (\<lambda>cw now root.
     case get p root of
       None \<Rightarrow> Inl (uvException (miss p root) ''stat'' (Some (cw @ p)) None)
     | Some n \<Rightarrow> Inr (node_stats n, root))"

text \<open>\<^verbatim>\<open>fs.rmSync(p, { recursive: true, force: true })\<close>: a missing path is not an error.\<close>

definition rmSync :: "path \<Rightarrow> unit io" where
  "rmSync p = fallible (\<lambda>cw now root.
     if p = [] then Inl (uvException EBUSY ''rm'' (Some (cw @ p)) None)
     else Inr ((), at_dir (butlast p) (unlink now (last p)) root))"

text \<open>\<^verbatim>\<open>JSON.parse\<close> throws a \<^verbatim>\<open>SyntaxError\<close> whose message quotes the text; the service
  catches it where it is thrown and reads no message of it.\<close>

definition JSON_parse :: "fdata \<Rightarrow> fdata io" where
  "JSON_parse d = (case d of NotJson s \<Rightarrow> throwE (Error ''Unexpected token in JSON'') | _ \<Rightarrow> returnE d)"

primrec mapE :: "('a \<Rightarrow> 'b io) \<Rightarrow> 'a list \<Rightarrow> 'b list io" where
  "mapE f [] = returnE []"
| "mapE f (x # xs) = bindE (f x) (\<lambda>y. bindE (mapE f xs) (\<lambda>ys. returnE (y # ys)))"

primrec forE :: "'a list \<Rightarrow> ('a \<Rightarrow> unit io) \<Rightarrow> unit io" where
  "forE [] f = returnE ()"
| "forE (x # xs) f = bindE (f x) (\<lambda>_. forE xs f)"

definition endsWith :: "string \<Rightarrow> string \<Rightarrow> bool" where
  "endsWith s suf = (length suf \<le> length s \<and> drop (length s - length suf) s = suf)"

text \<open>\<^verbatim>\<open>path.basename(f, ext)\<close> on a single segment.\<close>

definition basename :: "string \<Rightarrow> string \<Rightarrow> string" where
  "basename f ext = (if endsWith f ext then take (length f - length ext) f else f)"

text \<open>The lines of a template literal, joined by line feeds.\<close>

fun join_lines :: "string list \<Rightarrow> string" where
  "join_lines [] = []"
| "join_lines [l] = l"
| "join_lines (l # ls) = l @ CHR 0x0A # join_lines ls"

section \<open>AllureService\<close>

definition ALLURE_RESULTS_DIR :: path where
  "ALLURE_RESULTS_DIR = [''allure-results'']"

definition ALLURE_REPORTS_DIR :: path where
  "ALLURE_REPORTS_DIR = [''allure-reports'']"

definition ALLURE_INDEX_DIR :: path where
  "ALLURE_INDEX_DIR = ALLURE_REPORTS_DIR @ [''by-project'']"

definition ensureDirectories :: "unit io" where
  "ensureDirectories =
     bindE (existsSync ALLURE_RESULTS_DIR) (\<lambda>ex1.
     bindE (whenE (\<not> ex1) (mkdirSync ALLURE_RESULTS_DIR)) (\<lambda>_.
     bindE (existsSync ALLURE_REPORTS_DIR) (\<lambda>ex2.
     bindE (whenE (\<not> ex2) (mkdirSync ALLURE_REPORTS_DIR)) (\<lambda>_.
     bindE (existsSync ALLURE_INDEX_DIR) (\<lambda>ex3.
     whenE (\<not> ex3) (mkdirSync ALLURE_INDEX_DIR))))))"

definition getProjectIndexPath :: "string \<Rightarrow> path" where
  "getProjectIndexPath pid = ALLURE_INDEX_DIR @ [pid @ ''.json'']"

text \<open>\<^verbatim>\<open>`${filePath}.tmp`\<close>: the suffix goes on the last segment.\<close>

definition tmpPath :: "path \<Rightarrow> path" where
  "tmpPath filePath = butlast filePath @ [last filePath @ ''.tmp'']"

definition as_array :: "fdata \<Rightarrow> ReportIndexEntry list" where
  "as_array data = (case data of JArray es \<Rightarrow> es | _ \<Rightarrow> [])"

definition readProjectIndex :: "string \<Rightarrow> ReportIndexEntry list io" where
  "readProjectIndex pid =
     catchE
       (bindE (existsSync (getProjectIndexPath pid)) (\<lambda>ex.
          if \<not> ex then returnE []
          else bindE (readFileSync (getProjectIndexPath pid)) (\<lambda>raw.
               bindE (JSON_parse raw) (\<lambda>data. returnE (as_array data)))))
       (\<lambda>err. bindE (logger LWarn (''Failed to read index for project '' @ pid @ '':''))
                 (\<lambda>_. returnE []))"

text \<open>The inner \<^verbatim>\<open>try\<close> of \<^verbatim>\<open>appendProjectIndexEntry\<close>, which computes \<^verbatim>\<open>current\<close>.\<close>

definition readCurrent :: "string \<Rightarrow> ReportIndexEntry list io" where
  "readCurrent pid =
     bindE (existsSync (getProjectIndexPath pid)) (\<lambda>ex.
       if ex
       then catchE
              (bindE (readFileSync (getProjectIndexPath pid)) (\<lambda>raw.
               bindE (JSON_parse raw) (\<lambda>parsed. returnE (as_array parsed))))
              (\<lambda>e. bindE (logger LWarn (''Index parse error for project '' @ pid @ '', resetting:''))
                      (\<lambda>_. returnE []))
       else returnE [])"

definition appendProjectIndexEntry :: "string \<Rightarrow> ReportIndexEntry \<Rightarrow> unit io" where
  "appendProjectIndexEntry pid entry =
     catchE
       (bindE (readCurrent pid) (\<lambda>current.
        bindE (writeFileSync (tmpPath (getProjectIndexPath pid))
                 (JArray (entry # filter (\<lambda>r. entry_id r \<noteq> entry_id entry) current))) (\<lambda>_.
        renameSync (tmpPath (getProjectIndexPath pid)) (getProjectIndexPath pid))))
       (\<lambda>err. logger LError (''Failed to append index for project '' @ pid @ '':''))"

definition listAllProjectIndexes :: "(string \<times> ReportIndexEntry list) list io" where
  "listAllProjectIndexes =
     catchE
       (bindE (existsSync ALLURE_INDEX_DIR) (\<lambda>ex.
          if \<not> ex then returnE []
          else bindE (readdirSync ALLURE_INDEX_DIR) (\<lambda>fs.
               mapE (\<lambda>f. bindE (readProjectIndex (basename f ''.json''))
                            (\<lambda>entries. returnE (basename f ''.json'', entries)))
                    (filter (\<lambda>f. endsWith f ''.json'') fs))))
       (\<lambda>err. bindE (logger LWarn ''Failed to list project indexes:'') (\<lambda>_. returnE []))"

definition minimalResult :: "string \<Rightarrow> int \<Rightarrow> raw_result" where
  "minimalResult testRunId t =
     \<lparr>uuid = testRunId, testCaseId = testRunId,
      fullName = ''Test Run '' @ testRunId, name = ''Test Run '' @ testRunId,
      historyId = testRunId, result_status = ''passed'', stage = ''finished'',
      start = t, stop = t, steps = []\<rparr>"

definition basicHtml_lines :: "string \<Rightarrow> string list" where
  \<open>basicHtml_lines testRunId = [
     ''<!DOCTYPE html>'',
     ''<html>'',
     ''<head>'',
     ''  <title>Test Report - '' @ testRunId @ ''</title>'',
     ''  <style>'',
     ''    body { font-family: Arial, sans-serif; padding: 20px; background: #f5f5f5; }'',
     ''    .container { max-width: 800px; margin: 0 auto; background: white; padding: 30px; border-radius: 8px; box-shadow: 0 2px 4px rgba(0,0,0,0.1); }'',
     ''    .header { background: linear-gradient(135deg, #667eea 0%, #764ba2 100%); color: white; padding: 20px; border-radius: 5px; margin-bottom: 20px; }'',
     ''    .header h1 { margin: 0; }'',
     ''    .info { margin: 20px 0; }'',
     ''    .info p { margin: 10px 0; padding: 10px; background: #f9f9f9; border-left: 4px solid #667eea; }'',
     ''    .status { display: inline-block; padding: 5px 15px; background: #10b981; color: white; border-radius: 20px; font-weight: bold; }'',
     ''  </style>'',
     ''</head>'',
     ''<body>'',
     ''  <div class="container">'',
     ''    <div class="header">'',
     ''      <h1>Test Execution Report</h1>'',
     ''    </div>'',
     ''    <div class="info">'',
     ''      <p><span class="status">'' @ [CHR 0xC3, CHR 0xA2] @ [CHR 0xC5, CHR 0x93] @ [CHR 0xE2, CHR 0x80, CHR 0x9C] @ '' Generated</span></p>'',
     ''      <p><strong>Test Run ID:</strong> '' @ testRunId @ ''</p>'',
     ''      <p><strong>Report Type:</strong> Basic HTML Report</p>'',
     ''      <p><em>Note: Allure CLI is not available. Install allure-commandline for full Allure reports.</em></p>'',
     ''    </div>'',
     ''  </div>'',
     ''</body>'',
     ''</html>'']\<close>

definition basicHtml :: "string \<Rightarrow> string" where
  "basicHtml testRunId = join_lines (basicHtml_lines testRunId)"

definition errorHtml_lines :: "string \<Rightarrow> string \<Rightarrow> string list" where
  \<open>errorHtml_lines msg testRunId = [
     ''<!DOCTYPE html>'',
     ''<html>'',
     ''<head>'',
     ''  <title>Test Report - '' @ testRunId @ ''</title>'',
     ''  <style>'',
     ''    body { font-family: Arial, sans-serif; padding: 20px; }'',
     ''    .container { max-width: 800px; margin: 0 auto; background: white; padding: 30px; border-radius: 8px; }'',
     ''    .header { background: #667eea; color: white; padding: 20px; border-radius: 5px; }'',
     ''    .error { color: #ef4444; padding: 10px; background: #fee2e2; border-radius: 5px; }'',
     ''  </style>'',
     ''</head>'',
     ''<body>'',
     ''  <div class="container">'',
     ''    <div class="header">'',
     ''      <h1>Test Execution Report</h1>'',
     ''    </div>'',
     ''    <div class="error">'',
     ''      <p><strong>Error:</strong> '' @ msg @ ''</p>'',
     ''      <p><strong>Test Run ID:</strong> '' @ testRunId @ ''</p>'',
     ''    </div>'',
     ''  </div>'',
     ''</body>'',
     ''</html>'']\<close>

definition errorHtml :: "string \<Rightarrow> string \<Rightarrow> string" where
  "errorHtml msg testRunId = join_lines (errorHtml_lines msg testRunId)"

text \<open>
  The report-building tool is outside the repository: \<^verbatim>\<open>execSync(command)\<close> runs a
  \<open>tool\<close>, any function from the command line and the tree to an optional failure and the
  tree it leaves behind.
\<close>

type_synonym tool = "string \<Rightarrow> node \<Rightarrow> exn option \<times> node"

definition execSync :: "tool \<Rightarrow> string \<Rightarrow> unit io" where
  "execSync cli command = (\<lambda>w.
     case cli command (fs_root w) of
       (Some e, t) \<Rightarrow> (Inl e, w\<lparr>fs_root := t\<rparr>)
     | (None, t) \<Rightarrow> (Inr (), w\<lparr>fs_root := t\<rparr>))"

definition process_cwd :: "path io" where
  "process_cwd = (\<lambda>w. (Inr (cwd w), w))"

text \<open>\<^verbatim>\<open>a || b\<close> on strings: the empty string is falsy.\<close>

definition or_else :: "string \<Rightarrow> string \<Rightarrow> string" where
  "or_else a b = (if a \<noteq> [] then a else b)"

definition reportPath :: "string \<Rightarrow> path" where
  "reportPath testRunId = ALLURE_REPORTS_DIR @ [testRunId]"

text \<open>
  The body of the outer \<^verbatim>\<open>try\<close> of \<^verbatim>\<open>generateReport\<close>, paragraph by paragraph:
  \<^verbatim>\<open>// Check if allure results exist for this test run\<close>, the report directory,
  \<^verbatim>\<open>// Try to generate report using Allure CLI\<close> (which yields \<^verbatim>\<open>useBasicReport\<close>), and
  \<^verbatim>\<open>// If Allure CLI failed or for basic reports, create a simple HTML report\<close>.
\<close>

definition ensureResultFile :: "string \<Rightarrow> unit io" where
  "ensureResultFile testRunId =
     bindE (existsSync (ALLURE_RESULTS_DIR @ [testRunId @ ''-result.json''])) (\<lambda>ex.
     whenE (\<not> ex)
       (bindE (logger LWarn (''No Allure results found for test run: '' @ testRunId)) (\<lambda>_.
        bindE Date_now (\<lambda>t.
        writeFileSync (ALLURE_RESULTS_DIR @ [testRunId @ ''-result.json''])
          (JObject (minimalResult testRunId t))))))"

definition ensureReportDir :: "string \<Rightarrow> unit io" where
  "ensureReportDir testRunId =
     bindE (existsSync (reportPath testRunId)) (\<lambda>ex.
     whenE (\<not> ex) (mkdirSync (reportPath testRunId)))"

definition command :: "path \<Rightarrow> string \<Rightarrow> string" where
  \<open>command cw testRunId =
     ''npx allure generate "'' @ path_string (cw @ ALLURE_RESULTS_DIR)
     @ ''" -o "'' @ path_string (cw @ reportPath testRunId) @ ''" --clean''\<close>

definition runAllure :: "tool \<Rightarrow> path \<Rightarrow> string \<Rightarrow> bool io" where
  \<open>runAllure cli cw testRunId =
     catchE
       (bindE (execSync cli (command cw testRunId)) (\<lambda>_.
        bindE (logger LInfo (''Allure report generated successfully at: ''
                              @ path_string (cw @ reportPath testRunId))) (\<lambda>_.
        returnE False)))
       (\<lambda>execError.
          bindE (logger LWarn ''Allure CLI generate failed, using basic HTML report:'') (\<lambda>_.
          returnE True))\<close>

definition basicReport :: "path \<Rightarrow> string \<Rightarrow> bool \<Rightarrow> unit io" where
  "basicReport cw testRunId useBasicReport =
     bindE (existsSync (reportPath testRunId @ [''index.html''])) (\<lambda>ex.
     whenE (useBasicReport \<or> \<not> ex)
       (bindE (writeFileSync (reportPath testRunId @ [''index.html''])
                 (NotJson (basicHtml testRunId))) (\<lambda>_.
        logger LInfo (''Basic HTML report generated at: '' @ path_string (cw @ reportPath testRunId)))))"

definition generateReport_try :: "tool \<Rightarrow> string \<Rightarrow> string io" where
  "generateReport_try cli testRunId =
     bindE process_cwd (\<lambda>cw.
     bindE (ensureResultFile testRunId) (\<lambda>_.
     bindE (ensureReportDir testRunId) (\<lambda>_.
     bindE (runAllure cli cw testRunId) (\<lambda>useBasicReport.
     bindE (basicReport cw testRunId useBasicReport) (\<lambda>_.
     bindE (logger LInfo (''Report generated at: '' @ path_string (cw @ reportPath testRunId))) (\<lambda>_.
     returnE (path_string (cw @ reportPath testRunId))))))))"

text \<open>The body of the inner \<^verbatim>\<open>try\<close>, in the outer \<^verbatim>\<open>catch (error)\<close>.\<close>

definition generateReport_fallback :: "exn \<Rightarrow> string \<Rightarrow> string io" where
  "generateReport_fallback error testRunId =
     bindE process_cwd (\<lambda>cw.
     bindE (existsSync (reportPath testRunId)) (\<lambda>ex.
     bindE (whenE (\<not> ex) (mkdirSync (reportPath testRunId))) (\<lambda>_.
     bindE (writeFileSync (reportPath testRunId @ [''index.html''])
              (NotJson (errorHtml (or_else (message error) ''Failed to generate report'') testRunId))) (\<lambda>_.
     returnE (path_string (cw @ reportPath testRunId))))))"

definition generateReport :: "tool \<Rightarrow> string \<Rightarrow> string io" where
  "generateReport cli testRunId =
     catchE (generateReport_try cli testRunId)
       (\<lambda>error.
          bindE (logger LError ''Error generating Allure report:'') (\<lambda>_.
          catchE (generateReport_fallback error testRunId)
            (\<lambda>fallbackError.
               bindE (logger LError ''Even fallback report creation failed:'') (\<lambda>_.
               throwE (Error (or_else (message error) ''Failed to generate Allure report''))))))"

definition getReportUrl :: "string \<Rightarrow> string io" where
  "getReportUrl testRunId =
     bindE (existsSync (reportPath testRunId)) (\<lambda>ex.
       if ex then returnE (''/allure-reports/'' @ testRunId @ ''/index.html'')
       else returnE [])"

definition cleanupOldReports :: "int \<Rightarrow> unit io" where
  "cleanupOldReports daysToKeep =
     catchE
       (bindE Date_now (\<lambda>now.
        bindE (readdirSync ALLURE_REPORTS_DIR) (\<lambda>reports.
        forE reports (\<lambda>report.
          bindE (statSync (ALLURE_REPORTS_DIR @ [report])) (\<lambda>stats.
          whenE (now - mtimeMs stats > daysToKeep * 24 * 60 * 60 * 1000)
            (bindE (rmSync (ALLURE_REPORTS_DIR @ [report])) (\<lambda>_.
             logger LInfo (''Cleaned up old Allure report: '' @ report))))))))
       (\<lambda>error. logger LError ''Error cleaning up Allure reports:'')"

record report_info =
  info_id :: string
  info_path :: string
  info_createdAt :: int

definition getAllReports :: "report_info list io" where
  "getAllReports =
     catchE
       (bindE (readdirSync ALLURE_REPORTS_DIR) (\<lambda>reports.
        mapE (\<lambda>report.
                bindE (statSync (ALLURE_REPORTS_DIR @ [report])) (\<lambda>stats.
                returnE \<lparr>info_id = report,
                         info_path = ''/allure-reports/'' @ report @ ''/index.html'',
                         info_createdAt = birthtime stats\<rparr>))
             reports))
       (\<lambda>error. bindE (logger LError ''Error getting Allure reports:'') (\<lambda>_. returnE []))"

section \<open>The catalog: \<^verbatim>\<open>getReportsByProject\<close> of the controller\<close>




text \<open>A row of the result of the \<^verbatim>\<open>SELECT\<close>.\<close>

record row =
  r_id :: string
  r_status :: string
  r_startedAt :: int
  r_completedAt :: "int option"
  script_name :: string
  project_id :: "string option"


definition truthy :: "string option \<Rightarrow> bool" where
  "truthy s = (case s of Some x \<Rightarrow> x \<noteq> [] | None \<Rightarrow> False)"



datatype stamp = Iso string | Millis int

record report_item =
  item_id :: string
  item_scriptName :: "string option"
  item_status :: "string option"
  item_startedAt :: "stamp option"
  item_completedAt :: "stamp option"
  item_reportUrl :: string



definition item_of_row :: "row \<Rightarrow> string \<Rightarrow> report_item" where
  "item_of_row r url =
     \<lparr>item_id = r_id r, item_scriptName = Some (script_name r), item_status = Some (r_status r),
      item_startedAt = Some (Millis (r_startedAt r)),
      item_completedAt = map_option Millis (r_completedAt r),
      item_reportUrl = url\<rparr>"

text \<open>The loop of the fallback path: \<^verbatim>\<open>for (const r of rows)\<close>.\<close>

primrec collect :: "row list \<Rightarrow> report_item list io" where
  "collect [] = returnE []"
| "collect (r # rows) =
     bindE (getReportUrl (r_id r)) (\<lambda>url.
     bindE (collect rows) (\<lambda>results.
     returnE (if url \<noteq> [] then item_of_row r url # results else results)))"



section \<open>The dashboard: \<^verbatim>\<open>handleImportScriptAndGenerateReport\<close>\<close>

text \<open>
  The handler talks to the backend over HTTP. \<open>api\<close> holds what the backend answers to
  each request the handler can make (\<open>Inl\<close>: the request is rejected); the handler's result
  is the list of the requests, pauses and state updates it performed, and the error it
  threw, if it threw one. \<open>api_run_status a k\<close> answers the status request number \<open>k\<close>.
\<close>

record TestRun =
  run_id :: string
  run_startedAt :: int
  executionReportUrl :: "string option"

datatype ActiveView = Overview | Scripts | Runs | Testdata | Apitesting | Allure | Analytics | Settings

datatype event =
    GetScript string
  | GetTestRuns string "string option"
  | PostStart string
  | Timeout nat
  | GetTestRun string
  | PostGenerate string
  | SetSelectedReport string
  | SetSelectedProjectId string
  | SetActiveView ActiveView
  | LoadData

record api =
  api_script :: "exn + (string option) option"
  api_test_runs :: "exn + TestRun list"
  api_start :: "exn + string"
  api_run_status :: "nat \<Rightarrow> exn + string"
  api_generate :: "string \<Rightarrow> exn + string option"

type_synonym outcome = "exn option \<times> event list"

definition maxAttempts :: nat where
  "maxAttempts = 30"

definition terminal :: "string \<Rightarrow> bool" where
  "terminal st = (st = ''passed'' \<or> st = ''failed'' \<or> st = ''completed'')"

text \<open>The polling loop, from \<^verbatim>\<open>attempts\<close> on: the events it performs and the error of a
  rejected status request.\<close>

function waitForRun :: "api \<Rightarrow> string \<Rightarrow> nat \<Rightarrow> outcome" where
  "waitForRun a testRunId attempts =
     (if attempts < maxAttempts
      then (case api_run_status a attempts of
              Inl e \<Rightarrow> (Some e, [Timeout 1000, GetTestRun testRunId])
            | Inr st \<Rightarrow>
                if terminal st then (None, [Timeout 1000, GetTestRun testRunId])
                else (case waitForRun a testRunId (attempts + 1) of
                        (r, evs) \<Rightarrow> (r, Timeout 1000 # GetTestRun testRunId # evs)))
      else (None, []))"
  by pat_completeness auto
termination
  by (relation "measure (\<lambda>(a, testRunId, attempts). maxAttempts - attempts)") auto

text \<open>The tail of the handler, from \<^verbatim>\<open>// Generate Allure report\<close> on.\<close>

definition generateAndShow :: "api \<Rightarrow> string option \<Rightarrow> string \<Rightarrow> outcome" where
  "generateAndShow a scriptProjectId testRunId =
     (case api_generate a testRunId of
        Inl e \<Rightarrow> (Some e, [PostGenerate testRunId])
      | Inr url \<Rightarrow>
          (None,
           [PostGenerate testRunId]
           @ (if truthy scriptProjectId then [SetSelectedProjectId (the scriptProjectId)] else [])
           @ [LoadData]
           @ (if truthy url then [SetSelectedReport (the url), SetActiveView Allure]
              else [SetActiveView Runs])))"

definition rethrow :: "exn \<Rightarrow> exn" where
  "rethrow error = Error (or_else (message error) ''Failed to generate report'')"

definition handleImportScriptAndGenerateReport :: "api \<Rightarrow> string \<Rightarrow> string option \<Rightarrow> outcome" where
  "handleImportScriptAndGenerateReport a scriptId' projectId' =
     (case api_script a of
        Inl e \<Rightarrow> (Some (rethrow e), [GetScript scriptId'])
      | Inr scr \<Rightarrow>
          if \<not> truthy projectId' \<and> scr = None
          then (Some (rethrow (Error (''Cannot read properties of undefined (reading ''
                                       @ quoted ''projectId'' @ '')''))), [GetScript scriptId'])
          else
            (let scriptProjectId = (if truthy projectId' then projectId' else the scr) in
             case api_test_runs a of
               Inl e \<Rightarrow> (Some (rethrow e), [GetScript scriptId', GetTestRuns scriptId' scriptProjectId])
             | Inr existingRuns \<Rightarrow>
                 if length existingRuns > 0
                 then
                   (let mostRecentRun = hd (sort_key (\<lambda>r. - run_startedAt r) existingRuns) in
                    if truthy (executionReportUrl mostRecentRun)
                    then (None,
                          [GetScript scriptId', GetTestRuns scriptId' scriptProjectId,
                           SetSelectedReport (the (executionReportUrl mostRecentRun))]
                          @ (if truthy scriptProjectId then [SetSelectedProjectId (the scriptProjectId)] else [])
                          @ [SetActiveView Allure, LoadData])
                    else (case generateAndShow a scriptProjectId (run_id mostRecentRun) of
                            (r, evs) \<Rightarrow>
                              (map_option rethrow r,
                               [GetScript scriptId', GetTestRuns scriptId' scriptProjectId] @ evs)))
                 else
                   (case api_start a of
                      Inl e \<Rightarrow>
                        (Some (rethrow e),
                         [GetScript scriptId', GetTestRuns scriptId' scriptProjectId, PostStart scriptId'])
                    | Inr testRunId \<Rightarrow>
                        (case waitForRun a testRunId 0 of
                           (Some e, evs) \<Rightarrow>
                             (Some (rethrow e),
                              [GetScript scriptId', GetTestRuns scriptId' scriptProjectId, PostStart scriptId'] @ evs)
                         | (None, evs) \<Rightarrow>
                             (case generateAndShow a scriptProjectId testRunId of
                                (r, evs') \<Rightarrow>
                                  (map_option rethrow r,
                                   [GetScript scriptId', GetTestRuns scriptId' scriptProjectId, PostStart scriptId']
                                   @ evs @ evs'))))))"

section \<open>Observations used to state the properties\<close>

text \<open>The list a project's ledger holds: what \<^verbatim>\<open>readProjectIndex\<close> returns when the
  read itself does not fail (lemma \<open>read_is_ledger\<close>).\<close>

definition ledger :: "world \<Rightarrow> string \<Rightarrow> ReportIndexEntry list" where
  "ledger w pid =
     (case get (getProjectIndexPath pid) (fs_root w) of
        Some (File _ d) \<Rightarrow> as_array d
      | _ \<Rightarrow> [])"

text \<open>No failure is injected into the next \<open>n\<close> calls of \<^verbatim>\<open>fs\<close> that can throw.\<close>

definition fs_ok :: "world \<Rightarrow> nat \<Rightarrow> bool" where
  "fs_ok w n = (set (take n (faults w)) \<subseteq> {None})"

text \<open>The levels of the log lines written so far.\<close>

definition levels :: "world \<Rightarrow> level list" where
  "levels w = map fst (logs w)"

text \<open>The artifact's entry resource: the text of \<^verbatim>\<open>index.html\<close> in the run's directory.\<close>

definition entry_resource :: "world \<Rightarrow> string \<Rightarrow> string option" where
  "entry_resource w testRunId =
     (case get (reportPath testRunId @ [''index.html'']) (fs_root w) of
        Some (File _ (NotJson html)) \<Rightarrow> Some html
      | _ \<Rightarrow> None)"

text \<open>The artifact directory of a run cannot be created or written on a tree: a file is on
  the way to it, or it is a file itself, or its \<^verbatim>\<open>index.html\<close> is a directory.\<close>

definition blocked :: "node \<Rightarrow> string \<Rightarrow> bool" where
  "blocked t testRunId =
     (case get (reportPath testRunId) t of
        None \<Rightarrow> (case mkdirp 0 (reportPath testRunId) t of Inl _ \<Rightarrow> True | Inr _ \<Rightarrow> False)
      | Some (File _ _) \<Rightarrow> True
      | Some (Dir _ _) \<Rightarrow> is_dir (get (reportPath testRunId @ [''index.html'']) t))"

text \<open>The statements of \<^verbatim>\<open>generateReport\<close> before the tool is invoked, and what the tool
  answers when \<^verbatim>\<open>generateReport\<close> invokes it: the failure, if it fails, and the tree it
  leaves; \<open>None\<close> when \<^verbatim>\<open>generateReport\<close> does not get as far as invoking it.\<close>

definition prepare :: "string \<Rightarrow> unit io" where
  "prepare testRunId = bindE (ensureResultFile testRunId) (\<lambda>_. ensureReportDir testRunId)"

definition invocation :: "tool \<Rightarrow> string \<Rightarrow> world \<Rightarrow> (exn option \<times> node) option" where
  "invocation cli testRunId w =
     (case prepare testRunId w of
        (Inr _, w2) \<Rightarrow> Some (cli (command (cwd w) testRunId) (fs_root w2))
      | (Inl _, _) \<Rightarrow> None)"

text \<open>The state in which the basic page is written after the tool has failed and left the
  tree \<open>t\<close>.\<close>

definition after_failure :: "string \<Rightarrow> world \<Rightarrow> node \<Rightarrow> world" where
  "after_failure testRunId w t =
     (snd (prepare testRunId w))\<lparr>fs_root := t,
        logs := logs (snd (prepare testRunId w))
                @ [(LWarn, ''Allure CLI generate failed, using basic HTML report:'')]\<rparr>"


text \<open>The stats \<^verbatim>\<open>writeFileSync\<close> leaves on the file it wrote.\<close>

definition wstats :: "int \<Rightarrow> node option \<Rightarrow> stats" where
  "wstats t n = (case n of Some (File st _) \<Rightarrow> st\<lparr>mtimeMs := t\<rparr> | _ \<Rightarrow> fresh t)"

text \<open>An operation that leaves \<^verbatim>\<open>process.cwd()\<close> and the clock alone.\<close>

definition steady :: "'a io \<Rightarrow> bool" where
  "steady m = (\<forall>w r w'. m w = (r, w') \<longrightarrow> cwd w' = cwd w \<and> clock w' = clock w)"

text \<open>The record \<^verbatim>\<open>getAllReports\<close> builds for the entry \<open>nm\<close> of the reports root.\<close>

definition report_of :: "node \<Rightarrow> string \<Rightarrow> report_info" where
  "report_of t nm =
     \<lparr>info_id = nm, info_path = ''/allure-reports/'' @ nm @ ''/index.html'',
      info_createdAt = birthtime (node_stats (the (get (ALLURE_REPORTS_DIR @ [nm]) t)))\<rparr>"

text \<open>\<open>polls n\<close>: \<open>n\<close> rounds of the polling loop, each a one-second pause followed by a
  status request; and the kinds of event the selection flow is about.\<close>

definition polls :: "nat \<Rightarrow> string \<Rightarrow> event list" where
  "polls n testRunId = concat (replicate n [Timeout 1000, GetTestRun testRunId])"

definition is_start :: "event \<Rightarrow> bool" where
  "is_start ev = (case ev of PostStart _ \<Rightarrow> True | _ \<Rightarrow> False)"

definition is_wait :: "event \<Rightarrow> bool" where
  "is_wait ev = (case ev of Timeout _ \<Rightarrow> True | GetTestRun _ \<Rightarrow> True | _ \<Rightarrow> False)"

definition is_generate :: "event \<Rightarrow> bool" where
  "is_generate ev = (case ev of PostGenerate _ \<Rightarrow> True | _ \<Rightarrow> False)"


section \<open>Example states\<close>

definition entry_of :: "string \<Rightarrow> string \<Rightarrow> ReportIndexEntry" where
  "entry_of rid t =
     \<lparr>entry_id = rid, projectId = ''p1'', scriptId = Some ''s1'', scriptName = Some ''login'',
      status = Some ''passed'', startedAt = None, completedAt = None,
      reportUrl = ''/allure-reports/'' @ rid @ ''/index.html'', createdAt = t\<rparr>"

definition tree_with_ledger :: "fdata \<Rightarrow> node" where
  "tree_with_ledger d =
     Dir (fresh 0)
       [(''allure-results'', Dir (fresh 0) []),
        (''allure-reports'', Dir (fresh 0)
           [(''by-project'', Dir (fresh 0) [(''p1.json'', File (fresh 0) d)])])]"

definition world_of :: "node \<Rightarrow> world" where
  "world_of t = \<lparr>cwd = [''srv'', ''app''], fs_root = t, clock = 1000, faults = [], logs = []\<rparr>"

definition tree_ready :: node where
  "tree_ready =
     Dir (fresh 0)
       [(''allure-results'', Dir (fresh 0) []),
        (''allure-reports'', Dir (fresh 0) [(''by-project'', Dir (fresh 0) [])])]"

definition tree_blocked :: node where
  "tree_blocked =
     Dir (fresh 0)
       [(''allure-results'', Dir (fresh 0) []),
        (''allure-reports'', File (fresh 0) (NotJson ''not a directory''))]"

definition cli_unavailable :: tool where
  "cli_unavailable = (\<lambda>command t. (Some (Error ''spawnSync /bin/sh ENOENT''), t))"

definition cli_silent :: tool where
  "cli_silent = (\<lambda>command t. (None, t))"

text \<open>A reports root eight days after the last report was generated: \<open>run-old\<close> and the
  index directory were last modified at time 0, \<open>run-new\<close> one day ago.\<close>

definition day :: int where
  "day = 24 * 60 * 60 * 1000"

definition tree_aged :: node where
  "tree_aged =
     Dir (fresh 0)
       [(''allure-results'', Dir (fresh 0) []),
        (''allure-reports'', Dir (fresh 0)
           [(''by-project'', Dir (fresh 0)
               [(''p1.json'', File (fresh 0) (JArray [entry_of ''run-old'' ''t0'']))]),
            (''run-old'', Dir (fresh 0) [(''index.html'', File (fresh 0) (NotJson ''old''))]),
            (''run-new'', Dir (fresh (7 * day)) [(''index.html'', File (fresh (7 * day)) (NotJson ''new''))])])]"

definition world_at :: "int \<Rightarrow> node \<Rightarrow> world" where
  "world_at t n = \<lparr>cwd = [''srv'', ''app''], fs_root = n, clock = t, faults = [], logs = []\<rparr>"

text \<open>A backend on which a new run passes at the third status request, and one on which
  it keeps running.\<close>

definition api_passing :: api where
  "api_passing =
     \<lparr>api_script = Inr (Some (Some ''p1'')), api_test_runs = Inr [], api_start = Inr ''run-9'',
      api_run_status = (\<lambda>k. Inr (if k < 2 then ''running'' else ''passed'')),
      api_generate = (\<lambda>testRunId. Inr (Some (''/allure-reports/'' @ testRunId @ ''/index.html'')))\<rparr>"

definition api_slow :: api where
  "api_slow = api_passing\<lparr>api_run_status := (\<lambda>k. Inr ''running'')\<rparr>"

definition run_of :: "string \<Rightarrow> int \<Rightarrow> string option \<Rightarrow> TestRun" where
  "run_of i t u = \<lparr>run_id = i, run_startedAt = t, executionReportUrl = u\<rparr>"

text \<open>A backend that knows two runs of the script: one whose most recent run has a report
  already, one whose most recent run has none.\<close>

definition api_cached :: api where
  "api_cached = api_passing\<lparr>api_test_runs :=
     Inr [run_of ''run-1'' 10 None, run_of ''run-2'' 20 (Some ''/allure-reports/run-2/index.html'')]\<rparr>"

definition api_pending :: api where
  "api_pending = api_passing\<lparr>api_test_runs :=
     Inr [run_of ''run-1'' 10 (Some ''/allure-reports/run-1/index.html''), run_of ''run-2'' 20 None]\<rparr>"



text \<open>Injected failures: a read that fails on the device, a write on a full disk, and a
  schedule of failures put before a state.\<close>

definition disk_error :: exn where
  "disk_error = uvException EIO ''read'' None None"

definition no_space :: exn where
  "no_space = uvException ENOSPC ''write'' None None"

definition failing :: "exn option list \<Rightarrow> world \<Rightarrow> world" where
  "failing fs w = w\<lparr>faults := fs\<rparr>"



definition cli_wiping :: tool where
  "cli_wiping = (\<lambda>command t.
     (Some (Error ''Command failed: npx allure generate''),
      at_dir [''allure-reports''] (unlink 1000 ''run-1'') t))"

section \<open>Lemmas\<close>

lemma get_append: "get (d @ p) t = (case get d t of None \<Rightarrow> None | Some n \<Rightarrow> get p n)"
  by (induction d arbitrary: t) (auto split: node.splits option.splits)

lemma get_at_dir:
  "get (d @ p) (at_dir d f t) =
     (case get d t of Some (Dir st cs) \<Rightarrow> get p (f st cs) | _ \<Rightarrow> get (d @ p) t)"
  by (induction d arbitrary: t) (auto split: node.splits option.splits simp: update_conv')

lemma get_snoc_parent: "get (d @ [n]) t \<noteq> None \<Longrightarrow> is_dir (get d t)"
  by (auto simp: get_append is_dir_def split: option.splits node.splits)

lemma catchE_Inr:
  assumes "\<And>e w. \<exists>x w'. h e w = (Inr x, w')"
  shows "\<exists>x w'. catchE m h w = (Inr x, w')"
proof (cases "m w")
  case (Pair r w1)
  show ?thesis
  proof (cases r)
    case (Inl e)
    with Pair assms[of e w1] show ?thesis by (auto simp: catchE_def)
  next
    case (Inr x)
    with Pair show ?thesis by (auto simp: catchE_def)
  qed
qed

lemma read_total: "\<exists>es w'. readProjectIndex pid w = (Inr es, w')"
  unfolding readProjectIndex_def
  by (rule catchE_Inr) (simp add: bindE_def logger_def returnE_def)

lemma append_total: "\<exists>u w'. appendProjectIndexEntry pid e w = (Inr u, w')"
  unfolding appendProjectIndexEntry_def
  by (rule catchE_Inr) (simp add: logger_def)

lemma listAll_total: "\<exists>r w'. listAllProjectIndexes w = (Inr r, w')"
  unfolding listAllProjectIndexes_def
  by (rule catchE_Inr) (simp add: bindE_def logger_def returnE_def)

lemma getAll_total: "\<exists>r w'. getAllReports w = (Inr r, w')"
  unfolding getAllReports_def
  by (rule catchE_Inr) (simp add: bindE_def logger_def returnE_def)



lemma fallible_result:
  assumes "fallible f w = (r, w')"
  shows "logs w' = logs w \<and> clock w' = clock w \<and> cwd w' = cwd w \<and>
         (case r of Inl e \<Rightarrow> fs_root w' = fs_root w
          | Inr x \<Rightarrow> f (cwd w) (clock w) (fs_root w) = Inr (x, fs_root w'))"
  using assms
  by (cases "faults w"; cases "f (cwd w) (clock w) (fs_root w)")
     (auto simp: fallible_def inject_def split: prod.splits option.splits)

lemma readFileSync_result:
  assumes "readFileSync p w = (r, w')"
  shows "logs w' = logs w \<and> clock w' = clock w \<and> fs_root w' = fs_root w \<and>
         (case r of Inl e \<Rightarrow> True | Inr d \<Rightarrow> \<exists>st. get p (fs_root w) = Some (File st d))"
  using fallible_result[OF assms[unfolded readFileSync_def]]
  by (auto split: option.splits node.splits sum.splits)

lemma writeFileSync_result:
  assumes "writeFileSync (d @ [nm]) dat w = (r, w')"
  shows "logs w' = logs w \<and> clock w' = clock w \<and>
         (case r of Inl e \<Rightarrow> fs_root w' = fs_root w
          | Inr u \<Rightarrow> is_dir (get d (fs_root w)) \<and> \<not> is_dir (get (d @ [nm]) (fs_root w)) \<and>
              fs_root w' = at_dir d (link (clock w) nm
                 (File (wstats (clock w) (get (d @ [nm]) (fs_root w))) dat)) (fs_root w))"
  using fallible_result[OF assms[unfolded writeFileSync_def]]
  by (auto simp: is_dir_def get_append wstats_def split: option.splits node.splits sum.splits if_splits)

lemma renameSync_sibling_result:
  assumes "renameSync (d @ [x]) (d @ [y]) w = (r, w')" "x \<noteq> y"
  shows "logs w' = logs w \<and> clock w' = clock w \<and>
         (case r of Inl e \<Rightarrow> fs_root w' = fs_root w
          | Inr u \<Rightarrow> get (d @ [x]) (fs_root w) \<noteq> None \<and>
              fs_root w' = at_dir d (link (clock w) y (the (get (d @ [x]) (fs_root w))))
                             (at_dir d (unlink (clock w) x) (fs_root w)))"
  using fallible_result[OF assms(1)[unfolded renameSync_def]] assms(2)
  by (auto simp: is_dir_def split: option.splits node.splits sum.splits if_splits list.splits)



lemma is_dir_at_dir_link: "is_dir (get d t) \<Longrightarrow> is_dir (get d (at_dir d (link c nm n) t))"
  using get_at_dir[of d "[]" "link c nm n" t]
  by (auto simp: is_dir_def link_def split: option.splits node.splits)

lemma is_dir_at_dir_unlink: "is_dir (get d t) \<Longrightarrow> is_dir (get d (at_dir d (unlink c nm) t))"
  using get_at_dir[of d "[]" "unlink c nm" t]
  by (auto simp: is_dir_def unlink_def split: option.splits node.splits)

lemma get_link_child: "is_dir (get d t) \<Longrightarrow> get (d @ [nm]) (at_dir d (link c nm n) t) = Some n"
  by (auto simp: get_at_dir is_dir_def link_def update_conv' split: option.splits node.splits)

lemma get_link_other: "nm' \<noteq> nm \<Longrightarrow> get (d @ [nm']) (at_dir d (link c nm n) t) = get (d @ [nm']) t"
  by (auto simp: get_at_dir get_append[of d "[nm']" t] link_def update_conv' split: option.splits node.splits)

lemma get_unlink_other: "nm' \<noteq> nm \<Longrightarrow> get (d @ [nm']) (at_dir d (unlink c nm) t) = get (d @ [nm']) t"
  by (auto simp: get_at_dir get_append[of d "[nm']" t] unlink_def delete_conv' split: option.splits node.splits)

lemma tmpPath_index: "tmpPath (getProjectIndexPath pid) = ALLURE_INDEX_DIR @ [pid @ ''.json.tmp'']"
  by (simp add: tmpPath_def getProjectIndexPath_def)

lemma readCurrent_result:
  assumes "readCurrent pid w = (r, w1)"
  shows "fs_root w1 = fs_root w \<and> clock w1 = clock w \<and>
         ((r = Inr (ledger w pid) \<and> logs w1 = logs w) \<or>
          (r = Inr [] \<and> logs w1 = logs w @ [(LWarn, ''Index parse error for project '' @ pid @ '', resetting:'')]))"
proof (cases "get (getProjectIndexPath pid) (fs_root w) = None")
  case True
  with assms show ?thesis
    by (auto simp: readCurrent_def bindE_def existsSync_def returnE_def ledger_def)
next
  case False
  obtain r0 w0 where rd: "readFileSync (getProjectIndexPath pid) w = (r0, w0)"
    by (cases "readFileSync (getProjectIndexPath pid) w")
  note rr = readFileSync_result[OF rd]
  show ?thesis
  proof (cases r0)
    case (Inl e)
    with assms False rd rr show ?thesis
      by (auto simp: readCurrent_def bindE_def existsSync_def returnE_def catchE_def logger_def)
  next
    case (Inr d)
    with rr obtain st where g: "get (getProjectIndexPath pid) (fs_root w) = Some (File st d)" by auto
    from assms False rd rr Inr g show ?thesis
      by (cases d)
         (auto simp: readCurrent_def bindE_def existsSync_def returnE_def catchE_def logger_def
                     JSON_parse_def throwE_def ledger_def as_array_def)
  qed
qed



lemma ledger_cong: "get (getProjectIndexPath pid) (fs_root w') = get (getProjectIndexPath pid) (fs_root w)
   \<Longrightarrow> ledger w' pid = ledger w pid"
  by (simp add: ledger_def)

lemma append_core:
  assumes "appendProjectIndexEntry pid entry w = (r, w')" "readCurrent pid w = (r1, w1)"
  shows "r = Inr () \<and> (\<exists>cur. r1 = Inr cur \<and>
    ((levels w' = levels w1 \<and> ledger w' pid = entry # filter (\<lambda>r. entry_id r \<noteq> entry_id entry) cur) \<or>
     (levels w' = levels w1 @ [LError] \<and> ledger w' pid = ledger w pid)))"
proof -
  let ?D = ALLURE_INDEX_DIR
  let ?y = "pid @ ''.json''"
  let ?x = "pid @ ''.json.tmp''"
  have P: "getProjectIndexPath pid = ?D @ [?y]" by (simp add: getProjectIndexPath_def)
  have T: "tmpPath (getProjectIndexPath pid) = ?D @ [?x]" by (rule tmpPath_index)
  have T': "tmpPath (?D @ [?y]) = ?D @ [?x]" using T by (simp add: P)
  have xy: "?x \<noteq> ?y" "?y \<noteq> ?x" by auto
  note rc = assms(2)
  note c = readCurrent_result[OF rc]
  then obtain cur where r1: "r1 = Inr cur" by auto
  let ?new = "JArray (entry # filter (\<lambda>r. entry_id r \<noteq> entry_id entry) cur)"
  obtain r2 w2 where wr: "writeFileSync (?D @ [?x]) ?new w1 = (r2, w2)"
    by (cases "writeFileSync (?D @ [?x]) ?new w1")
  note wres = writeFileSync_result[OF wr]
  show ?thesis
  proof (cases r2)
    case (Inl e)
    with wres c have "get (getProjectIndexPath pid) (fs_root w2) = get (getProjectIndexPath pid) (fs_root w)"
      by simp
    then have l: "ledger (w2\<lparr>logs := logs w2 @ [(LError, ''Failed to append index for project '' @ pid @ '':'')]\<rparr>) pid = ledger w pid"
      by (simp add: ledger_def)
    from assms(1) rc r1 wr Inl have "r = Inr ()" "w' = w2\<lparr>logs := logs w2 @ [(LError, ''Failed to append index for project '' @ pid @ '':'')]\<rparr>"
      by (auto simp: appendProjectIndexEntry_def catchE_def bindE_def P T' logger_def)
    with l wres r1 show ?thesis by (auto simp: levels_def)
  next
    case (Inr u)
    define st where "st = wstats (clock w1) (get (?D @ [?x]) (fs_root w1))"
    from Inr wres have
      dir1: "is_dir (get ?D (fs_root w1))" and
      fs2: "fs_root w2 = at_dir ?D (link (clock w1) ?x (File st ?new)) (fs_root w1)"
      by (auto simp: st_def)
    have getT2: "get (?D @ [?x]) (fs_root w2) = Some (File st ?new)"
      unfolding fs2 by (rule get_link_child[OF dir1])
    have getP2: "get (?D @ [?y]) (fs_root w2) = get (?D @ [?y]) (fs_root w)"
      unfolding fs2 using c by (simp add: get_link_other[OF xy(2)])
    have dir2: "is_dir (get ?D (fs_root w2))"
      unfolding fs2 by (rule is_dir_at_dir_link[OF dir1])
    obtain r3 w3 where rn: "renameSync (?D @ [?x]) (?D @ [?y]) w2 = (r3, w3)"
      by (cases "renameSync (?D @ [?x]) (?D @ [?y]) w2")
    note rres = renameSync_sibling_result[OF rn xy(1)]
    show ?thesis
    proof (cases r3)
      case (Inl e)
      with rres getP2 have "get (getProjectIndexPath pid) (fs_root w3) = get (getProjectIndexPath pid) (fs_root w)"
        by (simp add: P)
      then have l: "ledger (w3\<lparr>logs := logs w3 @ [(LError, ''Failed to append index for project '' @ pid @ '':'')]\<rparr>) pid = ledger w pid"
        by (simp add: ledger_def)
      from assms(1) rc r1 wr \<open>r2 = Inr u\<close> rn Inl
      have "r = Inr ()" "w' = w3\<lparr>logs := logs w3 @ [(LError, ''Failed to append index for project '' @ pid @ '':'')]\<rparr>"
        by (auto simp: appendProjectIndexEntry_def catchE_def bindE_def P T' logger_def)
      with l wres rres r1 show ?thesis by (auto simp: levels_def)
    next
      case (Inr u')
      with rres getT2 have fs3: "fs_root w3 =
         at_dir ?D (link (clock w2) ?y (File st ?new)) (at_dir ?D (unlink (clock w2) ?x) (fs_root w2))"
        by auto
      have "get (?D @ [?y]) (fs_root w3) = Some (File st ?new)"
        unfolding fs3 by (rule get_link_child[OF is_dir_at_dir_unlink[OF dir2]])
      then have l: "ledger w3 pid = entry # filter (\<lambda>r. entry_id r \<noteq> entry_id entry) cur"
        by (simp add: ledger_def P as_array_def)
      from assms(1) rc r1 wr \<open>r2 = Inr u\<close> rn Inr
      have "r = Inr ()" "w' = w3"
        by (auto simp: appendProjectIndexEntry_def catchE_def bindE_def P T')
      with l wres rres r1 show ?thesis by (auto simp: levels_def)
    qed
  qed
qed

lemma append_result:
  assumes "appendProjectIndexEntry pid entry w = (r, w')"
  shows "r = Inr () \<and>
    ((levels w' = levels w \<and> ledger w' pid = entry # filter (\<lambda>r. entry_id r \<noteq> entry_id entry) (ledger w pid)) \<or>
     (levels w' = levels w @ [LWarn] \<and> ledger w' pid = [entry]) \<or>
     (levels w' \<in> {levels w @ [LError], levels w @ [LWarn, LError]} \<and> ledger w' pid = ledger w pid))"
proof -
  obtain r1 w1 where rc: "readCurrent pid w = (r1, w1)" by (cases "readCurrent pid w")
  from append_core[OF assms rc] readCurrent_result[OF rc] show ?thesis
    by (auto simp: levels_def)
qed

lemma readCurrent_notjson:
  assumes "readCurrent pid w = (r, w1)" "get (getProjectIndexPath pid) (fs_root w) = Some (File st (NotJson s))"
  shows "r = Inr [] \<and> levels w1 = levels w @ [LWarn]"
proof -
  obtain r0 w0 where rd: "readFileSync (getProjectIndexPath pid) w = (r0, w0)"
    by (cases "readFileSync (getProjectIndexPath pid) w")
  note rr = readFileSync_result[OF rd]
  show ?thesis
  proof (cases r0)
    case (Inl e)
    with assms rd rr show ?thesis
      by (auto simp: readCurrent_def bindE_def existsSync_def returnE_def catchE_def logger_def levels_def)
  next
    case (Inr d)
    with rr assms(2) have "d = NotJson s" by auto
    with assms rd rr Inr show ?thesis
      by (auto simp: readCurrent_def bindE_def existsSync_def returnE_def catchE_def logger_def
                     JSON_parse_def throwE_def levels_def)
  qed
qed

lemma append_notjson:
  assumes "appendProjectIndexEntry pid entry w = (r, w')"
    "get (getProjectIndexPath pid) (fs_root w) = Some (File st (NotJson s))"
  shows "(levels w' = levels w @ [LWarn] \<and> ledger w' pid = [entry]) \<or>
         (levels w' = levels w @ [LWarn, LError] \<and> ledger w' pid = ledger w pid)"
proof -
  obtain r1 w1 where rc: "readCurrent pid w = (r1, w1)" by (cases "readCurrent pid w")
  from append_core[OF assms(1) rc] readCurrent_notjson[OF rc assms(2)] show ?thesis
    by auto
qed

lemma readProjectIndex_result:
  assumes "readProjectIndex pid w = (r, w')"
  shows "fs_root w' = fs_root w \<and>
         ((r = Inr (ledger w pid) \<and> levels w' = levels w) \<or>
          (r = Inr [] \<and> levels w' = levels w @ [LWarn]))"
proof (cases "get (getProjectIndexPath pid) (fs_root w) = None")
  case True
  with assms show ?thesis
    by (auto simp: readProjectIndex_def bindE_def existsSync_def returnE_def ledger_def catchE_def)
next
  case False
  obtain r0 w0 where rd: "readFileSync (getProjectIndexPath pid) w = (r0, w0)"
    by (cases "readFileSync (getProjectIndexPath pid) w")
  note rr = readFileSync_result[OF rd]
  show ?thesis
  proof (cases r0)
    case (Inl e)
    with assms False rd rr show ?thesis
      by (auto simp: readProjectIndex_def bindE_def existsSync_def returnE_def catchE_def logger_def levels_def)
  next
    case (Inr d)
    with rr obtain st where g: "get (getProjectIndexPath pid) (fs_root w) = Some (File st d)" by auto
    from assms False rd rr Inr g show ?thesis
      by (cases d)
         (auto simp: readProjectIndex_def bindE_def existsSync_def returnE_def catchE_def logger_def
                     JSON_parse_def throwE_def ledger_def as_array_def levels_def)
  qed
qed

lemma read_is_ledger: "faults w = [] \<Longrightarrow> fst (readProjectIndex pid w) = Inr (ledger w pid)"
  by (auto simp: readProjectIndex_def bindE_def existsSync_def returnE_def catchE_def logger_def
                 JSON_parse_def throwE_def ledger_def as_array_def readFileSync_def fallible_def inject_def
           split: option.splits node.splits fdata.splits)

lemma bindE_Inr_iff:
  "bindE m f w = (Inr y, w') \<longleftrightarrow> (\<exists>x w1. m w = (Inr x, w1) \<and> f x w1 = (Inr y, w'))"
  by (cases "m w"; cases "fst (m w)") (auto simp: bindE_def)

lemma bindE_Inl_iff:
  "bindE m f w = (Inl e, w') \<longleftrightarrow>
     (m w = (Inl e, w') \<or> (\<exists>x w1. m w = (Inr x, w1) \<and> f x w1 = (Inl e, w')))"
  by (cases "m w"; cases "fst (m w)") (auto simp: bindE_def)

lemma catchE_Inr_iff:
  "catchE m h w = (Inr y, w') \<longleftrightarrow>
     (m w = (Inr y, w') \<or> (\<exists>e w1. m w = (Inl e, w1) \<and> h e w1 = (Inr y, w')))"
  by (cases "m w"; cases "fst (m w)") (auto simp: catchE_def)

lemma catchE_Inl_iff:
  "catchE m h w = (Inl e', w') \<longleftrightarrow> (\<exists>e w1. m w = (Inl e, w1) \<and> h e w1 = (Inl e', w'))"
  by (cases "m w"; cases "fst (m w)") (auto simp: catchE_def)

lemma existsSync_iff: "existsSync p w = (r, w') \<longleftrightarrow> r = Inr (get p (fs_root w) \<noteq> None) \<and> w' = w"
  by (auto simp: existsSync_def)

lemma logger_iff: "logger l m w = (r, w') \<longleftrightarrow> r = Inr () \<and> w' = w\<lparr>logs := logs w @ [(l, m)]\<rparr>"
  by (auto simp: logger_def)

lemma returnE_iff: "returnE x w = (r, w') \<longleftrightarrow> r = Inr x \<and> w' = w"
  by (auto simp: returnE_def)

lemma throwE_iff: "throwE e w = (r, w') \<longleftrightarrow> r = Inl e \<and> w' = w"
  by (auto simp: throwE_def)

lemma process_cwd_iff: "process_cwd w = (r, w') \<longleftrightarrow> r = Inr (cwd w) \<and> w' = w"
  by (auto simp: process_cwd_def)

lemma Date_now_iff: "Date_now w = (r, w') \<longleftrightarrow> r = Inr (clock w) \<and> w' = w"
  by (auto simp: Date_now_def)

lemmas io_iffs = bindE_Inr_iff bindE_Inl_iff catchE_Inr_iff catchE_Inl_iff existsSync_iff logger_iff
  returnE_iff throwE_iff process_cwd_iff Date_now_iff

lemma steady_returnE: "steady (returnE x)" by (simp add: steady_def returnE_def)
lemma steady_throwE: "steady (throwE e)" by (simp add: steady_def throwE_def)
lemma steady_logger: "steady (logger l m)" by (simp add: steady_def logger_def)
lemma steady_existsSync: "steady (existsSync p)" by (simp add: steady_def existsSync_def)
lemma steady_process_cwd: "steady process_cwd" by (simp add: steady_def process_cwd_def)
lemma steady_Date_now: "steady Date_now" by (simp add: steady_def Date_now_def)
lemma steady_execSync: "steady (execSync cli c)"
  by (auto simp: steady_def execSync_def split: prod.splits option.splits)
lemma steady_fallible: "steady (fallible f)"
  unfolding steady_def using fallible_result by blast
lemma steady_bindE: "steady m \<Longrightarrow> (\<And>x. steady (f x)) \<Longrightarrow> steady (bindE m f)"
  unfolding steady_def bindE_def by (auto split: prod.splits sum.splits)
lemma steady_catchE: "steady m \<Longrightarrow> (\<And>e. steady (h e)) \<Longrightarrow> steady (catchE m h)"
  unfolding steady_def catchE_def by (auto split: prod.splits sum.splits)
lemma steady_whenE: "steady m \<Longrightarrow> steady (whenE b m)"
  by (simp add: whenE_def steady_returnE)

lemmas steady_intros = steady_returnE steady_throwE steady_logger steady_existsSync steady_process_cwd
  steady_Date_now steady_execSync steady_fallible steady_bindE steady_catchE steady_whenE

lemma steady_writeFileSync: "steady (writeFileSync p d)"
  unfolding writeFileSync_def by (rule steady_fallible)
lemma steady_mkdirSync: "steady (mkdirSync p)"
  unfolding mkdirSync_def by (rule steady_fallible)

lemma steady_try: "steady (generateReport_try cli rid)"
  unfolding generateReport_try_def ensureResultFile_def ensureReportDir_def runAllure_def basicReport_def
  by (intro steady_intros steady_writeFileSync steady_mkdirSync)

lemma steady_fallback: "steady (generateReport_fallback e rid)"
  unfolding generateReport_fallback_def
  by (intro steady_intros steady_writeFileSync steady_mkdirSync)

lemma path_string_nonempty: "ps \<noteq> [] \<Longrightarrow> path_string ps \<noteq> []"
  by (cases ps) auto

lemma write_entry:
  assumes "writeFileSync (d @ [nm]) dat w = (Inr u, w')"
  shows "is_dir (get d (fs_root w')) \<and> (\<exists>st. get (d @ [nm]) (fs_root w') = Some (File st dat))"
  using writeFileSync_result[OF assms] get_link_child is_dir_at_dir_link by auto

lemma basicReport_Inr:
  assumes "basicReport cw rid ub w = (Inr u, w')"
  shows "is_dir (get (reportPath rid) (fs_root w')) \<and> cwd w' = cwd w \<and>
         (ub \<longrightarrow> entry_resource w' rid = Some (basicHtml rid)) \<and>
         (entry_resource w' rid = Some (basicHtml rid) \<or> fs_root w' = fs_root w)"
proof (cases "ub \<or> get (reportPath rid @ [''index.html'']) (fs_root w) = None")
  case True
  with assms obtain w1 where wr: "writeFileSync (reportPath rid @ [''index.html'']) (NotJson (basicHtml rid)) w = (Inr (), w1)"
    and w': "w' = w1\<lparr>logs := logs w1 @ [(LInfo, ''Basic HTML report generated at: '' @ path_string (cw @ reportPath rid))]\<rparr>"
    by (auto simp: basicReport_def io_iffs whenE_def)
  from write_entry[OF wr] writeFileSync_result[OF wr] steady_writeFileSync wr w' show ?thesis
    by (auto simp: entry_resource_def steady_def)
next
  case False
  with assms have "w' = w" by (auto simp: basicReport_def io_iffs whenE_def)
  with False get_snoc_parent[of "reportPath rid" "''index.html''" "fs_root w"] show ?thesis by auto
qed

lemma basicReport_Inl:
  assumes "basicReport cw rid ub w = (Inl e, w')"
  shows "writeFileSync (reportPath rid @ [''index.html'']) (NotJson (basicHtml rid)) w = (Inl e, w')"
  using assms by (auto simp: basicReport_def io_iffs whenE_def split: if_splits)

lemma execSync_Inr: "execSync cli c w = (Inr u, w') \<Longrightarrow> fst (cli c (fs_root w)) = None"
  by (cases "cli c (fs_root w)"; cases "fst (cli c (fs_root w))") (auto simp: execSync_def)

lemma runAllure_result:
  assumes "runAllure cli cw rid w = (r, w')"
  shows "cwd w' = cwd w \<and> (\<exists>ub. r = Inr ub \<and> ((\<forall>c t. fst (cli c t) \<noteq> None) \<longrightarrow> ub))"
proof -
  have "steady (runAllure cli cw rid)" unfolding runAllure_def by (intro steady_intros)
  with assms have c: "cwd w' = cwd w" by (auto simp: steady_def)
  define cmd where "cmd = command cw rid"
  obtain r0 w0 where ex: "execSync cli cmd w = (r0, w0)" by (cases "execSync cli cmd w")
  have unf: "runAllure cli cw rid w =
     (case execSync cli cmd w of
        (Inl e, w1) \<Rightarrow> (Inr True, w1\<lparr>logs := logs w1 @ [(LWarn, ''Allure CLI generate failed, using basic HTML report:'')]\<rparr>)
      | (Inr x, w1) \<Rightarrow> (Inr False, w1\<lparr>logs := logs w1 @ [(LInfo, ''Allure report generated successfully at: '' @ path_string (cw @ reportPath rid))]\<rparr>))"
    unfolding runAllure_def cmd_def catchE_def bindE_def logger_def returnE_def
    by (simp split: prod.splits sum.splits)
  show ?thesis
  proof (cases r0)
    case (Inl e)
    with assms ex unf have "r = Inr True" by simp
    with c show ?thesis by blast
  next
    case (Inr u)
    with ex have "fst (cli cmd (fs_root w)) = None" using execSync_Inr by blast
    then have n: "\<not> (\<forall>c t. fst (cli c t) \<noteq> None)" by blast
    from Inr assms ex unf have "r = Inr False" by simp
    with c n show ?thesis by blast
  qed
qed

lemma ensureResultFile_Inl:
  assumes "ensureResultFile rid w = (Inl e, w')"
  shows "\<exists>p d w3. writeFileSync p d w3 = (Inl e, w')"
  using assms by (auto simp: ensureResultFile_def io_iffs whenE_def split: if_splits)

lemma ensureReportDir_Inl:
  assumes "ensureReportDir rid w = (Inl e, w')"
  shows "get (reportPath rid) (fs_root w) = None \<and> mkdirSync (reportPath rid) w = (Inl e, w')"
  using assms by (auto simp: ensureReportDir_def io_iffs whenE_def split: if_splits)


lemma try_Inr:
  assumes "generateReport_try cli rid w = (Inr p, w')"
  shows "p = path_string (cwd w @ reportPath rid) \<and> is_dir (get (reportPath rid) (fs_root w')) \<and>
         ((\<forall>c t. fst (cli c t) \<noteq> None) \<longrightarrow> entry_resource w' rid = Some (basicHtml rid))"
proof -
  from assms obtain w1 w2 w3 w4 ub where
    a: "ensureResultFile rid w = (Inr (), w1)" and
    b: "ensureReportDir rid w1 = (Inr (), w2)" and
    c: "runAllure cli (cwd w) rid w2 = (Inr ub, w3)" and
    d: "basicReport (cwd w) rid ub w3 = (Inr (), w4)" and
    e: "w' = w4\<lparr>logs := logs w4 @ [(LInfo, ''Report generated at: '' @ path_string (cwd w @ reportPath rid))]\<rparr>" and
    p: "p = path_string (cwd w @ reportPath rid)"
    unfolding generateReport_try_def
    by (auto simp: bindE_Inr_iff process_cwd_iff logger_iff returnE_iff)
  from basicReport_Inr[OF d] runAllure_result[OF c] e p show ?thesis
    by (auto simp: entry_resource_def)
qed

lemma fallback_Inr:
  assumes "generateReport_fallback e rid w = (Inr p, w')"
  shows "p = path_string (cwd w @ reportPath rid) \<and> is_dir (get (reportPath rid) (fs_root w')) \<and>
         entry_resource w' rid = Some (errorHtml (or_else (message e) ''Failed to generate report'') rid)"
proof -
  from assms obtain w1 w2 where
    a: "whenE (get (reportPath rid) (fs_root w) = None) (mkdirSync (reportPath rid)) w = (Inr (), w1)" and
    b: "writeFileSync (reportPath rid @ [''index.html''])
          (NotJson (errorHtml (or_else (message e) ''Failed to generate report'') rid)) w1 = (Inr (), w2)" and
    c: "w' = w2" "p = path_string (cwd w @ reportPath rid)"
    unfolding generateReport_fallback_def
    by (auto simp: bindE_Inr_iff process_cwd_iff existsSync_iff returnE_iff)
  from write_entry[OF b] c show ?thesis by (auto simp: entry_resource_def)
qed

lemma fallback_Inl:
  assumes "generateReport_fallback e rid w = (Inl e1, w')"
  shows "(get (reportPath rid) (fs_root w) = None \<and> mkdirSync (reportPath rid) w = (Inl e1, w')) \<or>
         (\<exists>w3. writeFileSync (reportPath rid @ [''index.html''])
                  (NotJson (errorHtml (or_else (message e) ''Failed to generate report'') rid)) w3 = (Inl e1, w'))"
  using assms unfolding generateReport_fallback_def
  by (auto simp: bindE_Inl_iff process_cwd_iff existsSync_iff returnE_iff whenE_def split: if_splits)

lemma try_Inl:
  assumes "generateReport_try cli rid w = (Inl e0, w1)"
  shows "(\<exists>p d w3. writeFileSync p d w3 = (Inl e0, w1)) \<or> (\<exists>w3. mkdirSync (reportPath rid) w3 = (Inl e0, w1))"
proof -
  from assms consider
      (a) "ensureResultFile rid w = (Inl e0, w1)"
    | (b) w2 where "ensureReportDir rid w2 = (Inl e0, w1)"
    | (c) w2 cw where "runAllure cli cw rid w2 = (Inl e0, w1)"
    | (d) w2 cw ub where "basicReport cw rid ub w2 = (Inl e0, w1)"
    unfolding generateReport_try_def
    by (auto simp: bindE_Inl_iff process_cwd_iff logger_iff returnE_iff)
  then show ?thesis
  proof cases
    case a then show ?thesis using ensureResultFile_Inl by blast
  next
    case b then show ?thesis using ensureReportDir_Inl by blast
  next
    case c then show ?thesis using runAllure_result by blast
  next
    case d then show ?thesis using basicReport_Inl by blast
  qed
qed

lemma generateReport_Inr:
  assumes "generateReport cli rid w = (Inr p, w')"
  shows "p = path_string (cwd w @ reportPath rid) \<and> p \<noteq> [] \<and> is_dir (get (reportPath rid) (fs_root w'))"
proof -
  have ne: "path_string (cwd w @ reportPath rid) \<noteq> []"
    by (rule path_string_nonempty) (simp add: reportPath_def)
  from assms consider
      (main) "generateReport_try cli rid w = (Inr p, w')"
    | (fb) e0 w1 where "generateReport_try cli rid w = (Inl e0, w1)"
        "generateReport_fallback e0 rid (w1\<lparr>logs := logs w1 @ [(LError, ''Error generating Allure report:'')]\<rparr>) = (Inr p, w')"
    unfolding generateReport_def
    by (auto simp: catchE_Inr_iff bindE_Inr_iff logger_iff throwE_iff)
  then show ?thesis
  proof cases
    case main
    from try_Inr[OF main] ne show ?thesis by simp
  next
    case fb
    from steady_try fb(1) have "cwd w1 = cwd w" by (auto simp: steady_def)
    with fallback_Inr[OF fb(2)] ne show ?thesis by simp
  qed
qed














lemma steady_generateReport: "steady (generateReport cli rid)"
  unfolding generateReport_def
  by (intro steady_intros steady_try steady_fallback)

lemma getReportUrl_eq:
  "getReportUrl rid w =
     (Inr (if get (reportPath rid) (fs_root w) \<noteq> None
           then ''/allure-reports/'' @ rid @ ''/index.html'' else []), w)"
  by (simp add: getReportUrl_def bindE_def existsSync_def returnE_def)

lemma is_dir_exists: "is_dir n \<Longrightarrow> n \<noteq> None"
  by (auto simp: is_dir_def split: option.splits)


lemma try_to_generateReport:
  "generateReport_try cli rid w = (Inr p, w') \<Longrightarrow> generateReport cli rid w = (Inr p, w')"
  by (simp add: generateReport_def catchE_def)

lemma statSync_result:
  assumes "statSync p w = (r, w')"
  shows "logs w' = logs w \<and> fs_root w' = fs_root w \<and>
         (case r of Inl e \<Rightarrow> True
          | Inr st \<Rightarrow> (\<exists>n. get p (fs_root w) = Some n \<and> st = node_stats n))"
  using fallible_result[OF assms[unfolded statSync_def]]
  by (auto split: option.splits sum.splits)

lemma readdirSync_result:
  assumes "readdirSync p w = (r, w')"
  shows "logs w' = logs w \<and> fs_root w' = fs_root w \<and>
         (case r of Inl e \<Rightarrow> True
          | Inr names \<Rightarrow> (\<exists>st cs. get p (fs_root w) = Some (Dir st cs) \<and> names = sort (map fst cs)))"
  using fallible_result[OF assms[unfolded readdirSync_def]]
  by (auto split: option.splits sum.splits node.splits)

lemma mapE_stat:
  assumes "mapE (\<lambda>report.
                bindE (statSync (ALLURE_REPORTS_DIR @ [report])) (\<lambda>stats.
                returnE \<lparr>info_id = report,
                         info_path = ''/allure-reports/'' @ report @ ''/index.html'',
                         info_createdAt = birthtime stats\<rparr>)) names w = (r, w')"
  shows "logs w' = logs w \<and> fs_root w' = fs_root w \<and>
         (case r of Inl e \<Rightarrow> True | Inr rs \<Rightarrow> rs = map (report_of (fs_root w)) names)"
  using assms
proof (induction names arbitrary: w r w')
  case Nil
  then show ?case by (auto simp: returnE_def)
next
  case (Cons nm names)
  obtain r1 w1 where st: "statSync (ALLURE_REPORTS_DIR @ [nm]) w = (r1, w1)"
    by (cases "statSync (ALLURE_REPORTS_DIR @ [nm]) w")
  note sr = statSync_result[OF st]
  show ?case
  proof (cases r1)
    case (Inl e)
    with Cons.prems st sr show ?thesis by (auto simp: bindE_def)
  next
    case (Inr stt)
    let ?f = "\<lambda>report.
                bindE (statSync (ALLURE_REPORTS_DIR @ [report])) (\<lambda>stats.
                returnE \<lparr>info_id = report,
                         info_path = ''/allure-reports/'' @ report @ ''/index.html'',
                         info_createdAt = birthtime stats\<rparr>)"
    obtain r2 w2 where rest: "mapE ?f names w1 = (r2, w2)" by (cases "mapE ?f names w1")
    note ih = Cons.IH[OF rest]
    from Inr sr have hd: "\<lparr>info_id = nm, info_path = ''/allure-reports/'' @ nm @ ''/index.html'',
                         info_createdAt = birthtime stt\<rparr> = report_of (fs_root w) nm"
      by (auto simp: report_of_def)
    from Cons.prems st Inr rest
    have "(r, w') = (case r2 of Inl e \<Rightarrow> (Inl e, w2)
                     | Inr ys \<Rightarrow> (Inr (\<lparr>info_id = nm, info_path = ''/allure-reports/'' @ nm @ ''/index.html'',
                         info_createdAt = birthtime stt\<rparr> # ys), w2))"
      by (cases r2) (auto simp: bindE_def returnE_def)
    with ih sr hd show ?thesis by (cases r2) auto
  qed
qed

lemma getAllReports_result:
  assumes "getAllReports w = (r, w')"
  shows "fs_root w' = fs_root w \<and>
    ((\<exists>st cs. get ALLURE_REPORTS_DIR (fs_root w) = Some (Dir st cs) \<and>
         r = Inr (map (report_of (fs_root w)) (sort (map fst cs))) \<and> levels w' = levels w) \<or>
     (r = Inr [] \<and> levels w' = levels w @ [LError]))"
proof -
  let ?f = "\<lambda>report.
                bindE (statSync (ALLURE_REPORTS_DIR @ [report])) (\<lambda>stats.
                returnE \<lparr>info_id = report,
                         info_path = ''/allure-reports/'' @ report @ ''/index.html'',
                         info_createdAt = birthtime stats\<rparr>)"
  obtain r1 w1 where rd: "readdirSync ALLURE_REPORTS_DIR w = (r1, w1)"
    by (cases "readdirSync ALLURE_REPORTS_DIR w")
  note rr = readdirSync_result[OF rd]
  show ?thesis
  proof (cases r1)
    case (Inl e)
    with assms rd rr show ?thesis
      by (auto simp: getAllReports_def catchE_def bindE_def logger_def returnE_def levels_def)
  next
    case (Inr names)
    obtain r2 w2 where mp: "mapE ?f names w1 = (r2, w2)" by (cases "mapE ?f names w1")
    note mr = mapE_stat[OF mp]
    show ?thesis
    proof (cases r2)
      case (Inl e)
      with assms rd \<open>r1 = Inr names\<close> mp rr mr show ?thesis
        by (auto simp: getAllReports_def catchE_def bindE_def logger_def returnE_def levels_def)
    next
      case (Inr rs)
      with assms rd \<open>r1 = Inr names\<close> mp rr mr show ?thesis
        by (auto simp: getAllReports_def catchE_def bindE_def logger_def returnE_def levels_def)
    qed
  qed
qed

declare waitForRun.simps [simp del]

lemma polls_0: "polls 0 rid = []"
  by (simp add: polls_def)

lemma polls_Suc: "polls (Suc n) rid = Timeout 1000 # GetTestRun rid # polls n rid"
  by (simp add: polls_def)

lemma wait_polls: "\<exists>n \<le> maxAttempts - k. snd (waitForRun a rid k) = polls n rid"
proof (induction a rid k rule: waitForRun.induct)
  case (1 a rid k)
  show ?case
  proof (cases "k < maxAttempts")
    case False
    then have "snd (waitForRun a rid k) = polls 0 rid"
      by (subst waitForRun.simps) (simp add: polls_0)
    then show ?thesis by blast
  next
    case True
    then have one: "Suc 0 \<le> maxAttempts - k" by simp
    show ?thesis
    proof (cases "api_run_status a k")
      case (Inl e)
      with True have "snd (waitForRun a rid k) = polls (Suc 0) rid"
        by (subst waitForRun.simps) (simp add: polls_Suc polls_0)
      with one show ?thesis by blast
    next
      case (Inr st)
      show ?thesis
      proof (cases "terminal st")
        case t: True
        with True Inr have "snd (waitForRun a rid k) = polls (Suc 0) rid"
          by (subst waitForRun.simps) (simp add: polls_Suc polls_0)
        with one show ?thesis by blast
      next
        case f: False
        from "1.IH"[OF True Inr f] obtain n where
          n: "n \<le> maxAttempts - (k + 1)" "snd (waitForRun a rid (k + 1)) = polls n rid" by blast
        from True Inr f n(2) have "snd (waitForRun a rid k) = polls (Suc n) rid"
          by (subst waitForRun.simps) (auto simp: polls_Suc split: prod.splits)
        moreover from n(1) True have "Suc n \<le> maxAttempts - k" by simp
        ultimately show ?thesis by blast
      qed
    qed
  qed
qed

lemma wait_stops:
  assumes "k \<le> j" "j < maxAttempts"
    "\<forall>i. k \<le> i \<and> i < j \<longrightarrow> (\<exists>s. api_run_status a i = Inr s \<and> \<not> terminal s)"
    "api_run_status a j = Inr s" "terminal s"
  shows "waitForRun a rid k = (None, polls (Suc (j - k)) rid)"
  using assms
proof (induction "j - k" arbitrary: k)
  case 0
  then have "k = j" by simp
  with 0 show ?case by (subst waitForRun.simps) (simp add: polls_Suc polls_0)
next
  case (Suc d)
  then have kj: "k < j" "k < maxAttempts" by simp_all
  with Suc.prems obtain s' where s': "api_run_status a k = Inr s'" "\<not> terminal s'" by auto
  from Suc have "d = j - (k + 1)" "k + 1 \<le> j" by simp_all
  from Suc.hyps(1)[OF this(1) this(2) Suc.prems(2) _ Suc.prems(4) Suc.prems(5)] Suc.prems(3)
  have ih: "waitForRun a rid (k + 1) = (None, polls (Suc (j - (k + 1))) rid)" by simp
  from kj have "Suc (j - (k + 1)) = j - k" by simp
  then have pk: "polls (Suc (j - k)) rid =
      Timeout 1000 # GetTestRun rid # polls (Suc (j - (k + 1))) rid"
    by (metis polls_Suc)
  with ih kj s' show ?case
    by (subst waitForRun.simps) simp
qed

lemma wait_ceiling:
  assumes "\<forall>i. k \<le> i \<and> i < maxAttempts \<longrightarrow> (\<exists>s. api_run_status a i = Inr s \<and> \<not> terminal s)"
  shows "waitForRun a rid k = (None, polls (maxAttempts - k) rid)"
  using assms
proof (induction "maxAttempts - k" arbitrary: k)
  case 0
  then show ?case by (subst waitForRun.simps) (simp add: polls_0)
next
  case (Suc d)
  then have k: "k < maxAttempts" by simp
  with Suc.prems obtain s' where s': "api_run_status a k = Inr s'" "\<not> terminal s'" by auto
  from Suc have "d = maxAttempts - (k + 1)" by simp
  from Suc.hyps(1)[OF this] Suc.prems
  have ih: "waitForRun a rid (k + 1) = (None, polls (maxAttempts - (k + 1)) rid)" by simp
  from k have "Suc (maxAttempts - (k + 1)) = maxAttempts - k" by simp
  then have pk: "polls (maxAttempts - k) rid =
      Timeout 1000 # GetTestRun rid # polls (maxAttempts - (k + 1)) rid"
    by (metis polls_Suc)
  with ih k s' show ?case
    by (subst waitForRun.simps) simp
qed

lemma wait_rejected:
  assumes "k \<le> j" "j < maxAttempts"
    "\<forall>i. k \<le> i \<and> i < j \<longrightarrow> (\<exists>s. api_run_status a i = Inr s \<and> \<not> terminal s)"
    "api_run_status a j = Inl e"
  shows "waitForRun a rid k = (Some e, polls (Suc (j - k)) rid)"
  using assms
proof (induction "j - k" arbitrary: k)
  case 0
  then have "k = j" by simp
  with 0 show ?case by (subst waitForRun.simps) (simp add: polls_Suc polls_0)
next
  case (Suc d)
  then have kj: "k < j" "k < maxAttempts" by simp_all
  with Suc.prems obtain s' where s': "api_run_status a k = Inr s'" "\<not> terminal s'" by auto
  from Suc have "d = j - (k + 1)" "k + 1 \<le> j" by simp_all
  from Suc.hyps(1)[OF this(1) this(2) Suc.prems(2) _ Suc.prems(4)] Suc.prems(3)
  have ih: "waitForRun a rid (k + 1) = (Some e, polls (Suc (j - (k + 1))) rid)" by simp
  from kj have "Suc (j - (k + 1)) = j - k" by simp
  then have pk: "polls (Suc (j - k)) rid =
      Timeout 1000 # GetTestRun rid # polls (Suc (j - (k + 1))) rid"
    by (metis polls_Suc)
  with ih kj s' show ?case
    by (subst waitForRun.simps) simp
qed

lemma generateAndShow_hd: "\<exists>evs. snd (generateAndShow a spid rid) = PostGenerate rid # evs"
  by (cases "api_generate a rid") (auto simp: generateAndShow_def)

lemma most_recent:
  assumes "runs \<noteq> []"
  shows "hd (sort_key (\<lambda>r. - run_startedAt r) runs) \<in> set runs \<and>
         (\<forall>r \<in> set runs. run_startedAt r \<le> run_startedAt (hd (sort_key (\<lambda>r. - run_startedAt r) runs)))"
proof -
  let ?f = "\<lambda>r. - run_startedAt r"
  let ?s = "sort_key ?f runs"
  from assms have ne: "?s \<noteq> []" by (metis length_0_conv length_sort)
  then obtain m rest where s: "?s = m # rest" by (cases ?s) auto
  have "sorted (map ?f ?s)" by (rule sorted_sort_key)
  with s have le: "\<forall>y \<in> set rest. ?f m \<le> ?f y" by simp
  have "set ?s = set runs" by simp
  with s have mem: "m \<in> set runs" "set runs = insert m (set rest)" by auto
  from le mem s show ?thesis by auto
qed

lemma no_start_polls: "filter is_start (polls n rid) = []"
  by (induction n) (simp_all add: polls_0 polls_Suc is_start_def)

lemma no_generate_polls: "filter is_generate (polls n rid) = []"
  by (induction n) (simp_all add: polls_0 polls_Suc is_generate_def)

lemma no_start_wait: "filter is_start (snd (waitForRun a rid k)) = []"
  using wait_polls[of k a rid] no_start_polls by auto

lemma no_start_generate: "filter is_start (snd (generateAndShow a spid rid)) = []"
  by (cases "api_generate a rid") (auto simp: generateAndShow_def is_start_def)

lemma no_wait_generate: "filter is_wait (snd (generateAndShow a spid rid)) = []"
  by (cases "api_generate a rid") (auto simp: generateAndShow_def is_wait_def)

lemma one_generate: "filter is_generate (snd (generateAndShow a spid rid)) = [PostGenerate rid]"
  by (cases "api_generate a rid") (auto simp: generateAndShow_def is_generate_def)

lemma starts_le_1: "length (filter is_start (snd (handleImportScriptAndGenerateReport a sid pid))) \<le> 1"
proof -
  have g: "filter is_start (snd (generateAndShow a x y)) = []" for x y by (rule no_start_generate)
  have w: "filter is_start (snd (waitForRun a y 0)) = []" for y by (rule no_start_wait)
  have g': "generateAndShow a x y = (r, evs) \<Longrightarrow> filter is_start evs = []" for x y r evs
    using g[of x y] by simp
  have w': "waitForRun a y 0 = (r, evs) \<Longrightarrow> filter is_start evs = []" for y r evs
    using w[of y] by simp
  show ?thesis
    unfolding handleImportScriptAndGenerateReport_def Let_def
    by (auto simp: is_start_def g' w' split: sum.splits prod.splits option.splits
             dest!: g' w')
qed








lemma fs_ok_0: "fs_ok w 0" by (simp add: fs_ok_def)


lemma fs_ok_mono: "fs_ok w n \<Longrightarrow> m \<le> n \<Longrightarrow> fs_ok w m"
  unfolding fs_ok_def using set_take_subset_set_take by fastforce

lemma fs_ok_tl: "fs_ok w (Suc n) \<Longrightarrow> faults w' = tl (faults w) \<Longrightarrow> fs_ok w' n"
  by (cases "faults w") (auto simp: fs_ok_def)

lemma fs_ok_cong: "faults w' = faults w \<Longrightarrow> fs_ok w' n = fs_ok w n"
  by (simp add: fs_ok_def)

lemma fallible_faults: "fallible f w = (r, w') \<Longrightarrow> faults w' = tl (faults w)"
  by (cases "faults w"; cases "f (cwd w) (clock w) (fs_root w)")
     (auto simp: fallible_def inject_def split: prod.splits option.splits)

lemma fallible_Inl:
  "fallible f w = (Inl e, w') \<Longrightarrow> \<not> fs_ok w 1 \<or> (\<exists>fs. f (cwd w) (clock w) (fs_root w) = Inl e)"
  by (cases "faults w"; cases "f (cwd w) (clock w) (fs_root w)")
     (auto simp: fallible_def inject_def fs_ok_def split: prod.splits option.splits)

lemma fallible_injected:
  "faults w = Some e # fs \<Longrightarrow> fallible f w = (Inl e, w\<lparr>faults := fs\<rparr>)"
  by (simp add: fallible_def inject_def)

lemma fallible_ok:
  "fs_ok w (Suc n) \<Longrightarrow>
   fallible f w =
     (case f (cwd w) (clock w) (fs_root w) of
        Inl e \<Rightarrow> (Inl e, w\<lparr>faults := tl (faults w)\<rparr>)
      | Inr (x, t) \<Rightarrow> (Inr x, w\<lparr>faults := tl (faults w), fs_root := t\<rparr>))"
  by (cases "faults w"; cases "f (cwd w) (clock w) (fs_root w)")
     (auto simp: fallible_def inject_def fs_ok_def split: prod.splits option.splits)

lemma fs_ok_Suc:
  "fs_ok w (Suc n) \<longleftrightarrow> (faults w = [] \<or> (hd (faults w) = None \<and> fs_ok (w\<lparr>faults := tl (faults w)\<rparr>) n))"
  by (cases "faults w") (auto simp: fs_ok_def)

lemma fallible_bad:
  "\<not> fs_ok w 1 \<Longrightarrow> \<exists>e. fallible f w = (Inl e, w\<lparr>faults := tl (faults w)\<rparr>)"
  by (cases "faults w"; cases "hd (faults w)") (auto simp: fallible_def inject_def fs_ok_def)

lemma fallible_Inr_ok: "fallible f w = (Inr x, w') \<Longrightarrow> fs_ok w 1"
  by (cases "faults w"; cases "hd (faults w)") (auto simp: fallible_def inject_def fs_ok_def)

lemma statSync_ok:
  assumes "fs_ok w (Suc n)" "get p (fs_root w) = Some nd"
  shows "statSync p w = (Inr (node_stats nd), w\<lparr>faults := tl (faults w)\<rparr>)"
  using assms by (simp add: statSync_def fallible_ok)

lemma mapE_stat_ok:
  assumes "fs_ok w (length names)" "\<forall>nm \<in> set names. get (ALLURE_REPORTS_DIR @ [nm]) (fs_root w) \<noteq> None"
  shows "mapE (\<lambda>report.
                bindE (statSync (ALLURE_REPORTS_DIR @ [report])) (\<lambda>stats.
                returnE \<lparr>info_id = report,
                         info_path = ''/allure-reports/'' @ report @ ''/index.html'',
                         info_createdAt = birthtime stats\<rparr>)) names w
         = (Inr (map (report_of (fs_root w)) names), w\<lparr>faults := drop (length names) (faults w)\<rparr>)"
  using assms
proof (induction names arbitrary: w)
  case Nil
  then show ?case by (simp add: returnE_def)
next
  case (Cons nm names)
  let ?w1 = "w\<lparr>faults := tl (faults w)\<rparr>"
  from Cons.prems(2) obtain nd where nd: "get (ALLURE_REPORTS_DIR @ [nm]) (fs_root w) = Some nd" by auto
  from Cons.prems(1) have ok: "fs_ok w (Suc (length names))" by simp
  have ok1: "fs_ok ?w1 (length names)" by (rule fs_ok_tl[OF ok]) simp
  have ex1: "\<forall>nm \<in> set names. get (ALLURE_REPORTS_DIR @ [nm]) (fs_root ?w1) \<noteq> None"
    using Cons.prems(2) by simp
  note ih = Cons.IH[OF ok1 ex1]
  have d: "drop (length names) (tl (faults w)) = drop (Suc (length names)) (faults w)"
    by (simp add: drop_Suc)
  show ?case
    using statSync_ok[OF ok nd] ih nd
    by (simp add: bindE_def returnE_def report_of_def d)
qed

lemma mapE_stat_bad:
  assumes "\<not> fs_ok w (length names)"
  shows "\<exists>e w'. mapE (\<lambda>report.
                bindE (statSync (ALLURE_REPORTS_DIR @ [report])) (\<lambda>stats.
                returnE \<lparr>info_id = report,
                         info_path = ''/allure-reports/'' @ report @ ''/index.html'',
                         info_createdAt = birthtime stats\<rparr>)) names w = (Inl e, w')"
  using assms
proof (induction names arbitrary: w)
  case Nil
  then show ?case by (simp add: fs_ok_0)
next
  case (Cons nm names)
  let ?f = "\<lambda>report.
                bindE (statSync (ALLURE_REPORTS_DIR @ [report])) (\<lambda>stats.
                returnE \<lparr>info_id = report,
                         info_path = ''/allure-reports/'' @ report @ ''/index.html'',
                         info_createdAt = birthtime stats\<rparr>)"
  obtain r1 w1 where st: "statSync (ALLURE_REPORTS_DIR @ [nm]) w = (r1, w1)"
    by (cases "statSync (ALLURE_REPORTS_DIR @ [nm]) w")
  show ?case
  proof (cases r1)
    case (Inl e)
    with st show ?thesis by (simp add: bindE_def)
  next
    case (Inr s)
    from st have f1: "faults w1 = tl (faults w)" unfolding statSync_def by (rule fallible_faults)
    have "fs_ok w 1" using st Inr unfolding statSync_def by (auto dest: fallible_Inr_ok)
    with Cons.prems f1 have "\<not> fs_ok w1 (length names)"
      by (cases "faults w") (auto simp: fs_ok_def)
    from Cons.IH[OF this] obtain e w' where "mapE ?f names w1 = (Inl e, w')" by blast
    with st Inr show ?thesis by (simp add: bindE_def returnE_def)
  qed
qed

lemma readdirSync_ok:
  assumes "fs_ok w (Suc n)" "get p (fs_root w) = Some (Dir st cs)"
  shows "readdirSync p w = (Inr (sort (map fst cs)), w\<lparr>faults := tl (faults w)\<rparr>)"
  using assms by (simp add: readdirSync_def fallible_ok)

lemma readdirSync_bad:
  assumes "\<not> is_dir (get p (fs_root w))"
  shows "\<exists>e w'. readdirSync p w = (Inl e, w')"
proof -
  obtain r w' where rd: "readdirSync p w = (r, w')" by (cases "readdirSync p w")
  from readdirSync_result[OF rd] assms rd show ?thesis
    by (cases r) (auto simp: is_dir_def)
qed

lemma child_exists:
  assumes "get d t = Some (Dir st cs)" "nm \<in> set (map fst cs)"
  shows "get (d @ [nm]) t \<noteq> None"
proof -
  from assms(2) have "map_of cs nm \<noteq> None" by (simp add: map_of_eq_None_iff)
  with assms(1) show ?thesis by (auto simp: get_append split: option.splits)
qed

lemma getAllReports_ok:
  assumes "get ALLURE_REPORTS_DIR (fs_root w) = Some (Dir st cs)" "fs_ok w (Suc (length cs))"
  shows "getAllReports w =
     (Inr (map (report_of (fs_root w)) (sort (map fst cs))), w\<lparr>faults := drop (Suc (length cs)) (faults w)\<rparr>)"
proof -
  let ?w1 = "w\<lparr>faults := tl (faults w)\<rparr>"
  have ok1: "fs_ok ?w1 (length (sort (map fst cs)))"
    using fs_ok_tl[OF assms(2), of ?w1] by simp
  have ex: "\<forall>nm \<in> set (sort (map fst cs)). get (ALLURE_REPORTS_DIR @ [nm]) (fs_root ?w1) \<noteq> None"
    using child_exists[OF assms(1)] by simp
  have d: "drop (length cs) (tl (faults w)) = drop (Suc (length cs)) (faults w)"
    by (simp add: drop_Suc)
  show ?thesis
    unfolding getAllReports_def
    using readdirSync_ok[OF assms(2) assms(1)] mapE_stat_ok[OF ok1 ex]
    by (simp add: catchE_def bindE_def d)
qed

lemma getAllReports_bad:
  assumes "\<not> is_dir (get ALLURE_REPORTS_DIR (fs_root w)) \<or>
           (\<exists>st cs. get ALLURE_REPORTS_DIR (fs_root w) = Some (Dir st cs) \<and> \<not> fs_ok w (Suc (length cs)))"
  shows "\<exists>w'. getAllReports w = (Inr [], w') \<and> levels w' = levels w @ [LError] \<and> fs_root w' = fs_root w"
proof -
  let ?f = "\<lambda>report.
                bindE (statSync (ALLURE_REPORTS_DIR @ [report])) (\<lambda>stats.
                returnE \<lparr>info_id = report,
                         info_path = ''/allure-reports/'' @ report @ ''/index.html'',
                         info_createdAt = birthtime stats\<rparr>)"
  obtain r1 w1 where rd: "readdirSync ALLURE_REPORTS_DIR w = (r1, w1)"
    by (cases "readdirSync ALLURE_REPORTS_DIR w")
  note rr = readdirSync_result[OF rd]
  have inner: "\<exists>e w2. bindE (readdirSync ALLURE_REPORTS_DIR) (mapE ?f) w = (Inl e, w2) \<and>
                  logs w2 = logs w \<and> fs_root w2 = fs_root w"
  proof (cases r1)
    case (Inl e)
    with rd rr show ?thesis by (auto simp: bindE_def)
  next
    case (Inr names)
    with rr obtain st cs where g: "get ALLURE_REPORTS_DIR (fs_root w) = Some (Dir st cs)"
      and n: "names = sort (map fst cs)" by auto
    from g assms have bad: "\<not> fs_ok w (Suc (length cs))" by (auto simp: is_dir_def)
    have "fs_ok w 1" using rd Inr unfolding readdirSync_def by (auto dest: fallible_Inr_ok)
    moreover from rd have "faults w1 = tl (faults w)" unfolding readdirSync_def by (rule fallible_faults)
    ultimately have "\<not> fs_ok w1 (length names)" using bad n
      by (cases "faults w") (auto simp: fs_ok_def)
    from mapE_stat_bad[OF this] obtain e w2 where m: "mapE ?f names w1 = (Inl e, w2)" by blast
    from mapE_stat[OF m] rr rd Inr m show ?thesis by (auto simp: bindE_def)
  qed
  then show ?thesis
    unfolding getAllReports_def
    by (auto simp: catchE_def bindE_def logger_def returnE_def levels_def)
qed

lemma writeFileSync_faults: "writeFileSync p d w = (r, w') \<Longrightarrow> faults w' = tl (faults w)"
  unfolding writeFileSync_def by (rule fallible_faults)

lemma renameSync_faults: "renameSync a b w = (r, w') \<Longrightarrow> faults w' = tl (faults w)"
  unfolding renameSync_def by (rule fallible_faults)

lemma mkdirSync_faults: "mkdirSync p w = (r, w') \<Longrightarrow> faults w' = tl (faults w)"
  unfolding mkdirSync_def by (rule fallible_faults)


lemma writeFileSync_Inl:
  assumes "writeFileSync (d @ [nm]) dat w = (Inl e, w')"
  shows "\<not> fs_ok w 1 \<or> \<not> is_dir (get d (fs_root w)) \<or> is_dir (get (d @ [nm]) (fs_root w))"
  using fallible_Inl[OF assms[unfolded writeFileSync_def]]
  by (auto simp: is_dir_def get_append split: option.splits node.splits if_splits)





lemma ledger_fs: "fs_root w' = fs_root w \<Longrightarrow> ledger w' pid = ledger w pid"
  by (simp add: ledger_def)






lemma collect_fs:
  "collect rows w =
     (Inr (map (\<lambda>r. item_of_row r (''/allure-reports/'' @ r_id r @ ''/index.html''))
            (filter (\<lambda>r. get (reportPath (r_id r)) (fs_root w) \<noteq> None) rows)), w)"
  by (induction rows) (auto simp: returnE_def bindE_def getReportUrl_eq)





lemma runAllure_eq:
  "runAllure cli cw rid w =
     (case cli (command cw rid) (fs_root w) of
        (Some e, t) \<Rightarrow> (Inr True, w\<lparr>fs_root := t,
            logs := logs w @ [(LWarn, ''Allure CLI generate failed, using basic HTML report:'')]\<rparr>)
      | (None, t) \<Rightarrow> (Inr False, w\<lparr>fs_root := t,
            logs := logs w @ [(LInfo, ''Allure report generated successfully at: '' @ path_string (cw @ reportPath rid))]\<rparr>))"
  unfolding runAllure_def catchE_def bindE_def logger_def returnE_def execSync_def
  by (simp split: prod.splits sum.splits option.splits)

lemma try_unfold:
  "generateReport_try cli rid w =
     (case prepare rid w of
        (Inl e, w1) \<Rightarrow> (Inl e, w1)
      | (Inr u, wb) \<Rightarrow>
          (case runAllure cli (cwd w) rid wb of
             (Inl e, w1) \<Rightarrow> (Inl e, w1)
           | (Inr ub, wc) \<Rightarrow>
               (case basicReport (cwd w) rid ub wc of
                  (Inl e, w1) \<Rightarrow> (Inl e, w1)
                | (Inr u', w4) \<Rightarrow>
                    (Inr (path_string (cwd w @ reportPath rid)),
                     w4\<lparr>logs := logs w4 @ [(LInfo, ''Report generated at: '' @ path_string (cwd w @ reportPath rid))]\<rparr>))))"
  unfolding generateReport_try_def prepare_def bindE_def process_cwd_def logger_def returnE_def
  by (simp split: prod.splits sum.splits)

lemma ensureResultFile_faults:
  "ensureResultFile rid w = (r, w') \<Longrightarrow> faults w' = faults w \<or> faults w' = tl (faults w)"
  by (auto simp: ensureResultFile_def bindE_def existsSync_def whenE_def returnE_def logger_def Date_now_def
           split: if_splits dest!: writeFileSync_faults)

lemma ensureReportDir_faults:
  "ensureReportDir rid w = (r, w') \<Longrightarrow> faults w' = faults w \<or> faults w' = tl (faults w)"
  by (auto simp: ensureReportDir_def bindE_def existsSync_def whenE_def returnE_def
           split: if_splits dest!: mkdirSync_faults)

lemma fs_ok_step:
  "fs_ok w (Suc n) \<Longrightarrow> faults w' = faults w \<or> faults w' = tl (faults w) \<Longrightarrow> fs_ok w' n"
  using fs_ok_tl[of w n w'] fs_ok_mono[of w "Suc n" n] fs_ok_cong[of w' w n] by auto

lemma prepare_ok:
  assumes "prepare rid w = (r, wb)" "fs_ok w (Suc (Suc n))"
  shows "fs_ok wb n"
proof -
  obtain r1 w1 where a: "ensureResultFile rid w = (r1, w1)" by (cases "ensureResultFile rid w")
  note o1 = fs_ok_step[OF assms(2) ensureResultFile_faults[OF a]]
  show ?thesis
  proof (cases r1)
    case (Inl e)
    with a assms(1) have "wb = w1" by (simp add: prepare_def bindE_def)
    with o1 show ?thesis using fs_ok_mono[of w1 "Suc n" n] by simp
  next
    case (Inr u)
    with a assms(1) have "ensureReportDir rid w1 = (r, wb)" by (simp add: prepare_def bindE_def)
    from fs_ok_step[OF o1 ensureReportDir_faults[OF this]] show ?thesis .
  qed
qed

lemma steady_prepare: "steady (prepare rid)"
  unfolding prepare_def ensureResultFile_def ensureReportDir_def
  by (intro steady_intros steady_writeFileSync steady_mkdirSync)

lemma basicReport_ok:
  assumes "fs_ok w 1" "is_dir (get (reportPath rid) (fs_root w))"
    "\<not> is_dir (get (reportPath rid @ [''index.html'']) (fs_root w))"
  shows "\<exists>w'. basicReport cw rid ub w = (Inr (), w') \<and>
           (ub \<or> get (reportPath rid @ [''index.html'']) (fs_root w) = None \<longrightarrow>
              entry_resource w' rid = Some (basicHtml rid)) \<and>
           is_dir (get (reportPath rid) (fs_root w'))"
proof -
  obtain r w' where b: "basicReport cw rid ub w = (r, w')" by (cases "basicReport cw rid ub w")
  show ?thesis
  proof (cases r)
    case (Inl e)
    from writeFileSync_Inl[OF basicReport_Inl[OF b[unfolded Inl]]] assms show ?thesis by simp
  next
    case (Inr u)
    with b have b': "basicReport cw rid ub w = (Inr (), w')" by simp
    from basicReport_Inr[OF b'] have 1: "is_dir (get (reportPath rid) (fs_root w'))"
      and 2: "ub \<longrightarrow> entry_resource w' rid = Some (basicHtml rid)" by simp_all
    have 3: "get (reportPath rid @ [''index.html'']) (fs_root w) = None \<Longrightarrow>
              entry_resource w' rid = Some (basicHtml rid)"
    proof -
      assume n: "get (reportPath rid @ [''index.html'']) (fs_root w) = None"
      with b' obtain w1 where wr: "writeFileSync (reportPath rid @ [''index.html'']) (NotJson (basicHtml rid)) w = (Inr (), w1)"
        and w': "w' = w1\<lparr>logs := logs w1 @ [(LInfo, ''Basic HTML report generated at: '' @ path_string (cw @ reportPath rid))]\<rparr>"
        by (auto simp: basicReport_def io_iffs whenE_def)
      from write_entry[OF wr] w' show ?thesis by (auto simp: entry_resource_def)
    qed
    show ?thesis
      by (rule exI[of _ w']) (use b' 1 2 3 in auto)
  qed
qed

lemma mkdirp_fresh: "mkdirp c xs (Dir (fresh c) []) = Inr n \<Longrightarrow> get xs n = Some (Dir (fresh c) [])"
proof (induction xs arbitrary: n)
  case Nil
  then show ?case by simp
next
  case (Cons x xs)
  then show ?case
    by (cases "mkdirp c xs (Dir (fresh c) [])") (auto simp: link_def update_conv')
qed

lemma mkdirp_new:
  "get p t = None \<Longrightarrow> mkdirp c p t = Inr t' \<Longrightarrow> get p t' = Some (Dir (fresh c) [])"
proof (induction p arbitrary: t t')
  case Nil
  then show ?case by simp
next
  case (Cons x xs)
  then obtain st cs where t: "t = Dir st cs" by (cases t) auto
  show ?case
  proof (cases "map_of cs x")
    case None
    with Cons.prems t obtain n where n: "mkdirp c xs (Dir (fresh c) []) = Inr n" "t' = link c x n st cs"
      by (cases "mkdirp c xs (Dir (fresh c) [])") auto
    from mkdirp_fresh[OF n(1)] n(2) show ?thesis by (simp add: link_def update_conv')
  next
    case (Some c0)
    with Cons.prems t obtain n where n: "mkdirp c xs c0 = Inr n" "t' = Dir st (AList.update x n cs)"
      by (cases "mkdirp c xs c0") auto
    from Cons.prems(1) t Some have "get xs c0 = None" by simp
    from Cons.IH[OF this n(1)] n(2) show ?thesis by (simp add: update_conv')
  qed
qed

lemma mkdirSync_ok:
  assumes "fs_ok w (Suc n)" "mkdirp (clock w) p (fs_root w) = Inr t"
  shows "mkdirSync p w = (Inr (), w\<lparr>faults := tl (faults w), fs_root := t\<rparr>)"
  using assms by (simp add: mkdirSync_def fallible_ok)

lemma mkdirp_time: "isl (mkdirp c p t) = isl (mkdirp c' p t)"
proof (induction p arbitrary: t)
  case Nil
  then show ?case by (cases t) auto
next
  case (Cons x xs)
  show ?case
  proof (cases t)
    case (File a b)
    then show ?thesis by simp
  next
    case (Dir st cs)
    show ?thesis
    proof (cases "map_of cs x")
      case None
      have "isl (mkdirp c xs (Dir (fresh c) [])) = isl (mkdirp c' xs (Dir (fresh c') []))"
      proof (induction xs)
        case Nil
        then show ?case by simp
      next
        case (Cons y ys)
        then show ?case
          by (cases "mkdirp c ys (Dir (fresh c) [])"; cases "mkdirp c' ys (Dir (fresh c') [])") auto
      qed
      with Dir None show ?thesis
        by (cases "mkdirp c xs (Dir (fresh c) [])"; cases "mkdirp c' xs (Dir (fresh c') [])") auto
    next
      case (Some c0)
      with Dir Cons.IH[of c0] show ?thesis
        by (cases "mkdirp c xs c0"; cases "mkdirp c' xs c0") auto
    qed
  qed
qed

lemma writeFileSync_ok:
  assumes "fs_ok w 1" "is_dir (get d (fs_root w))" "\<not> is_dir (get (d @ [nm]) (fs_root w))"
  shows "\<exists>w'. writeFileSync (d @ [nm]) dat w = (Inr (), w') \<and> faults w' = tl (faults w) \<and>
           cwd w' = cwd w \<and> is_dir (get d (fs_root w')) \<and>
           (\<exists>st. get (d @ [nm]) (fs_root w') = Some (File st dat))"
proof -
  obtain r w' where wr: "writeFileSync (d @ [nm]) dat w = (r, w')"
    by (cases "writeFileSync (d @ [nm]) dat w")
  show ?thesis
  proof (cases r)
    case (Inl e)
    from writeFileSync_Inl[OF wr[unfolded Inl]] assms show ?thesis by simp
  next
    case (Inr u)
    with wr have wr': "writeFileSync (d @ [nm]) dat w = (Inr (), w')" by simp
    from steady_writeFileSync wr' have "cwd w' = cwd w" by (auto simp: steady_def)
    with write_entry[OF wr'] writeFileSync_faults[OF wr'] wr' show ?thesis by blast
  qed
qed

lemma fallback_ok:
  assumes "fs_ok w 2" "\<not> blocked (fs_root w) rid"
  shows "\<exists>w'. generateReport_fallback e rid w = (Inr (path_string (cwd w @ reportPath rid)), w') \<and>
           entry_resource w' rid = Some (errorHtml (or_else (message e) ''Failed to generate report'') rid) \<and>
           is_dir (get (reportPath rid) (fs_root w'))"
proof -
  let ?P = "reportPath rid"
  let ?I = "reportPath rid @ [''index.html'']"
  let ?page = "NotJson (errorHtml (or_else (message e) ''Failed to generate report'') rid)"
  have ok1: "fs_ok w 1" using assms(1) fs_ok_mono[of w 2 1] by simp
  have "\<exists>w1. whenE (get ?P (fs_root w) = None) (mkdirSync ?P) w = (Inr (), w1) \<and> cwd w1 = cwd w \<and>
          fs_ok w1 1 \<and> is_dir (get ?P (fs_root w1)) \<and> \<not> is_dir (get ?I (fs_root w1))"
  proof (cases "get ?P (fs_root w)")
    case None
    with assms(2) have "\<not> isl (mkdirp 0 ?P (fs_root w))"
      by (auto simp: blocked_def split: sum.splits)
    then have "\<not> isl (mkdirp (clock w) ?P (fs_root w))" using mkdirp_time by blast
    then obtain t where t: "mkdirp (clock w) ?P (fs_root w) = Inr t"
      by (cases "mkdirp (clock w) ?P (fs_root w)") auto
    from mkdirp_new[OF None t] have g: "get ?P t = Some (Dir (fresh (clock w)) [])" .
    have ok: "fs_ok w (Suc 1)" using assms(1) by (simp add: numeral_2_eq_2)
    let ?w1 = "w\<lparr>faults := tl (faults w), fs_root := t\<rparr>"
    from mkdirSync_ok[OF ok t] have m: "mkdirSync ?P w = (Inr (), ?w1)" .
    have o1: "fs_ok ?w1 1" using fs_ok_tl[OF ok, of ?w1] by simp
    from g have "is_dir (get ?P (fs_root ?w1))" "\<not> is_dir (get ?I (fs_root ?w1))"
      by (simp_all add: is_dir_def get_append)
    with m o1 None show ?thesis by (auto simp: whenE_def)
  next
    case (Some n)
    with assms(2) obtain st cs where n: "n = Dir st cs" and i: "\<not> is_dir (get ?I (fs_root w))"
      by (cases n) (auto simp: blocked_def)
    with Some ok1 show ?thesis by (auto simp: whenE_def returnE_def is_dir_def)
  qed
  then obtain w1 where m: "whenE (get ?P (fs_root w) = None) (mkdirSync ?P) w = (Inr (), w1)"
    and c1: "cwd w1 = cwd w" and o1: "fs_ok w1 1" and d1: "is_dir (get ?P (fs_root w1))"
    and i1: "\<not> is_dir (get ?I (fs_root w1))" by blast
  from writeFileSync_ok[OF o1 d1 i1, of ?page] obtain w' where
    wr: "writeFileSync ?I ?page w1 = (Inr (), w')" and d2: "is_dir (get ?P (fs_root w'))"
    and g2: "\<exists>st. get ?I (fs_root w') = Some (File st ?page)" by blast
  from m wr have "generateReport_fallback e rid w = (Inr (path_string (cwd w @ ?P)), w')"
    unfolding generateReport_fallback_def
    by (simp add: bindE_def process_cwd_def existsSync_def returnE_def)
  with d2 g2 show ?thesis by (auto simp: entry_resource_def)
qed

lemma fallback_blocked:
  assumes "generateReport_fallback e rid w = (Inl e1, w')"
  shows "\<not> fs_ok w 2 \<or> blocked (fs_root w) rid"
  using fallback_ok[of w rid e] assms by auto

lemma fs_ok_logs: "fs_ok (w\<lparr>logs := l\<rparr>) n = fs_ok w n"
  by (simp add: fs_ok_def)

lemma generateReport_converts:
  assumes "generateReport_try cli rid w = (Inl e0, w1)" "fs_ok w1 2" "\<not> blocked (fs_root w1) rid"
  shows "\<exists>w'. generateReport cli rid w = (Inr (path_string (cwd w @ reportPath rid)), w') \<and>
           entry_resource w' rid = Some (errorHtml (or_else (message e0) ''Failed to generate report'') rid) \<and>
           is_dir (get (reportPath rid) (fs_root w'))"
proof -
  let ?w1 = "w1\<lparr>logs := logs w1 @ [(LError, ''Error generating Allure report:'')]\<rparr>"
  from steady_try assms(1) have c: "cwd w1 = cwd w" by (auto simp: steady_def)
  have "fs_ok ?w1 2" "\<not> blocked (fs_root ?w1) rid" using assms(2,3) by (simp_all add: fs_ok_logs)
  from fallback_ok[OF this, of e0] obtain w' where
    f: "generateReport_fallback e0 rid ?w1 = (Inr (path_string (cwd ?w1 @ reportPath rid)), w')"
    and r: "entry_resource w' rid = Some (errorHtml (or_else (message e0) ''Failed to generate report'') rid)"
      "is_dir (get (reportPath rid) (fs_root w'))" by blast
  from assms(1) f c have "generateReport cli rid w = (Inr (path_string (cwd w @ reportPath rid)), w')"
    unfolding generateReport_def by (simp add: catchE_def bindE_def logger_def)
  with r show ?thesis by blast
qed

lemma generateReport_throws:
  assumes "generateReport cli rid w = (Inl e, w')"
  shows "\<exists>e0 w1 e1.
           generateReport_try cli rid w = (Inl e0, w1) \<and>
           fst (generateReport_fallback e0 rid
                  (w1\<lparr>logs := logs w1 @ [(LError, ''Error generating Allure report:'')]\<rparr>)) = Inl e1 \<and>
           (\<not> fs_ok w1 2 \<or> blocked (fs_root w1) rid) \<and>
           e = Error (or_else (message e0) ''Failed to generate Allure report'')"
proof -
  from assms obtain e0 w1 e1 w4 where
    t: "generateReport_try cli rid w = (Inl e0, w1)" and
    f: "generateReport_fallback e0 rid (w1\<lparr>logs := logs w1 @ [(LError, ''Error generating Allure report:'')]\<rparr>) = (Inl e1, w4)" and
    e: "e = Error (or_else (message e0) ''Failed to generate Allure report'')"
    unfolding generateReport_def
    by (auto simp: catchE_Inl_iff bindE_Inl_iff logger_iff throwE_iff)
  from fallback_blocked[OF f] have "\<not> fs_ok w1 2 \<or> blocked (fs_root w1) rid"
    by (simp add: fs_ok_logs)
  with t f e show ?thesis by force
qed

lemma mkdirSync_Inl_root: "mkdirSync p w = (Inl e, w') \<Longrightarrow> fs_root w' = fs_root w"
  using fallible_result[of _ w "Inl e" w'] by (auto simp: mkdirSync_def)

lemma runAllure_total: "\<exists>ub wc. runAllure cli cw rid w = (Inr ub, wc)"
  by (cases "cli (command cw rid) (fs_root w)"; cases "fst (cli (command cw rid) (fs_root w))")
     (auto simp: runAllure_eq)

lemma ensureResultFile_Inl_at:
  assumes "ensureResultFile rid w = (Inl e0, w1)"
  shows "get (ALLURE_RESULTS_DIR @ [rid @ ''-result.json'']) (fs_root w) = None \<and>
          writeFileSync (ALLURE_RESULTS_DIR @ [rid @ ''-result.json''])
            (JObject (minimalResult rid (clock w)))
            (w\<lparr>logs := logs w @ [(LWarn, ''No Allure results found for test run: '' @ rid)]\<rparr>) = (Inl e0, w1)"
proof (cases "get (ALLURE_RESULTS_DIR @ [rid @ ''-result.json'']) (fs_root w) = None")
  case True
  with assms show ?thesis
    by (simp add: ensureResultFile_def bindE_def existsSync_def whenE_def logger_def Date_now_def)
next
  case False
  with assms show ?thesis
    by (simp add: ensureResultFile_def bindE_def existsSync_def whenE_def returnE_def)
qed

lemma try_fails:
  assumes "generateReport_try cli rid w = (Inl e0, w1)"
  shows "(get (ALLURE_RESULTS_DIR @ [rid @ ''-result.json'']) (fs_root w) = None \<and>
          writeFileSync (ALLURE_RESULTS_DIR @ [rid @ ''-result.json''])
            (JObject (minimalResult rid (clock w)))
            (w\<lparr>logs := logs w @ [(LWarn, ''No Allure results found for test run: '' @ rid)]\<rparr>) = (Inl e0, w1))
       \<or> (\<exists>wa. ensureResultFile rid w = (Inr (), wa) \<and> get (reportPath rid) (fs_root wa) = None \<and>
                mkdirSync (reportPath rid) wa = (Inl e0, w1))
       \<or> (\<exists>wb ub wc. prepare rid w = (Inr (), wb) \<and> runAllure cli (cwd w) rid wb = (Inr ub, wc) \<and>
                writeFileSync (reportPath rid @ [''index.html'']) (NotJson (basicHtml rid)) wc = (Inl e0, w1))"
proof -
  obtain r1 wa where a: "ensureResultFile rid w = (r1, wa)" by (cases "ensureResultFile rid w")
  show ?thesis
  proof (cases r1)
    case (Inl e)
    with a have p: "prepare rid w = (Inl e, wa)" by (simp add: prepare_def bindE_def)
    with assms have "e = e0" "wa = w1" by (simp_all add: try_unfold)
    with a Inl have "ensureResultFile rid w = (Inl e0, w1)" by simp
    from ensureResultFile_Inl_at[OF this] show ?thesis by blast
  next
    case (Inr u)
    then have a': "ensureResultFile rid w = (Inr (), wa)" using a by simp
    obtain r2 wb where b: "ensureReportDir rid wa = (r2, wb)" by (cases "ensureReportDir rid wa")
    show ?thesis
    proof (cases r2)
      case (Inl e)
      with a' b have p: "prepare rid w = (Inl e, wb)" by (simp add: prepare_def bindE_def)
      with assms have "e = e0" "wb = w1" by (simp_all add: try_unfold)
      with b Inl have "ensureReportDir rid wa = (Inl e0, w1)" by simp
      from ensureReportDir_Inl[OF this] a' show ?thesis by blast
    next
      case (Inr u')
      with a' b have p: "prepare rid w = (Inr (), wb)" by (simp add: prepare_def bindE_def)
      from runAllure_total obtain ub wc where c: "runAllure cli (cwd w) rid wb = (Inr ub, wc)" by blast
      obtain r4 w4 where d: "basicReport (cwd w) rid ub wc = (r4, w4)"
        by (cases "basicReport (cwd w) rid ub wc")
      from assms p c d have "r4 = Inl e0 \<and> w4 = w1"
        by (cases r4) (simp_all add: try_unfold)
      with d have "basicReport (cwd w) rid ub wc = (Inl e0, w1)" by simp
      from basicReport_Inl[OF this] p c show ?thesis by blast
    qed
  qed
qed

lemma basicReport_writes:
  assumes "basicReport cw rid ub w = (Inr u, w')" "ub \<or> get (reportPath rid @ [''index.html'']) (fs_root w) = None"
  shows "entry_resource w' rid = Some (basicHtml rid)"
proof -
  from assms obtain w1 where wr: "writeFileSync (reportPath rid @ [''index.html'']) (NotJson (basicHtml rid)) w = (Inr (), w1)"
    and w': "w' = w1\<lparr>logs := logs w1 @ [(LInfo, ''Basic HTML report generated at: '' @ path_string (cw @ reportPath rid))]\<rparr>"
    by (auto simp: basicReport_def io_iffs whenE_def)
  from write_entry[OF wr] w' show ?thesis by (auto simp: entry_resource_def)
qed

lemma basicReport_logs:
  assumes "basicReport cw rid ub w = (r, w')"
  shows "set (logs w) \<subseteq> set (logs w')"
proof (cases "ub \<or> get (reportPath rid @ [''index.html'']) (fs_root w) = None")
  case True
  obtain r1 w1 where wr: "writeFileSync (reportPath rid @ [''index.html'']) (NotJson (basicHtml rid)) w = (r1, w1)"
    by (cases "writeFileSync (reportPath rid @ [''index.html'']) (NotJson (basicHtml rid)) w")
  from writeFileSync_result[OF wr] have "logs w1 = logs w" by simp
  with assms True wr show ?thesis
    by (cases r1) (auto simp: basicReport_def bindE_def existsSync_def whenE_def logger_def)
next
  case False
  with assms show ?thesis by (auto simp: basicReport_def bindE_def existsSync_def whenE_def returnE_def)
qed

lemma invocation_prepare:
  assumes "invocation cli rid w = Some (x, t)"
  shows "prepare rid w = (Inr (), snd (prepare rid w)) \<and>
         cli (command (cwd w) rid) (fs_root (snd (prepare rid w))) = (x, t)"
  using assms
  by (cases "prepare rid w"; cases "fst (prepare rid w)") (auto simp: invocation_def)

lemma try_after_failure:
  assumes "invocation cli rid w = Some (Some err, t)"
  shows "generateReport_try cli rid w =
           (case basicReport (cwd w) rid True (after_failure rid w t) of
              (Inl e, w1) \<Rightarrow> (Inl e, w1)
            | (Inr u', w4) \<Rightarrow>
                (Inr (path_string (cwd w @ reportPath rid)),
                 w4\<lparr>logs := logs w4 @ [(LInfo, ''Report generated at: '' @ path_string (cwd w @ reportPath rid))]\<rparr>))"
proof -
  define wb where "wb = snd (prepare rid w)"
  from invocation_prepare[OF assms] have p: "prepare rid w = (Inr (), wb)"
    and c: "cli (command (cwd w) rid) (fs_root wb) = (Some err, t)" by (simp_all add: wb_def)
  have r: "runAllure cli (cwd w) rid wb = (Inr True, after_failure rid w t)"
    using c by (simp add: runAllure_eq after_failure_def wb_def)
  show ?thesis by (simp add: try_unfold p r)
qed

lemma mkdirp_isl_other:
  assumes "x \<noteq> y"
  shows "isl (mkdirp c (y # ys) (at_dir [x] f t)) = isl (mkdirp c (y # ys) t)"
proof (cases t)
  case (File a b)
  then show ?thesis by simp
next
  case (Dir st cs)
  show ?thesis
  proof (cases "map_of cs x")
    case None
    with Dir show ?thesis by simp
  next
    case (Some n)
    with Dir assms show ?thesis
      by (cases "map_of cs y";
          cases "mkdirp c ys (Dir (fresh c) [])"; cases "mkdirp c ys (the (map_of cs y))")
         (auto simp: update_conv')
  qed
qed

lemma get_other_top:
  assumes "x \<noteq> y"
  shows "get (y # ys) (at_dir [x] f t) = get (y # ys) t"
proof (cases t)
  case (File a b)
  then show ?thesis by simp
next
  case (Dir st cs)
  with assms show ?thesis by (cases "map_of cs x") (auto simp: update_conv')
qed

lemma blocked_other:
  "blocked (at_dir ALLURE_RESULTS_DIR f t) rid = blocked t rid"
proof -
  have ne: "''allure-results'' \<noteq> ''allure-reports''" by simp
  have g1: "get (reportPath rid) (at_dir ALLURE_RESULTS_DIR f t) = get (reportPath rid) t"
    unfolding reportPath_def ALLURE_REPORTS_DIR_def ALLURE_RESULTS_DIR_def
    using get_other_top[OF ne, of "[rid]" f t] by simp
  have g2: "get (reportPath rid @ [''index.html'']) (at_dir ALLURE_RESULTS_DIR f t)
              = get (reportPath rid @ [''index.html'']) t"
    unfolding reportPath_def ALLURE_REPORTS_DIR_def ALLURE_RESULTS_DIR_def
    using get_other_top[OF ne, of "[rid, ''index.html'']" f t] by simp
  have m: "isl (mkdirp 0 (reportPath rid) (at_dir ALLURE_RESULTS_DIR f t)) = isl (mkdirp 0 (reportPath rid) t)"
    unfolding reportPath_def ALLURE_REPORTS_DIR_def ALLURE_RESULTS_DIR_def
    using mkdirp_isl_other[OF ne, of 0 "[rid]" f t] by simp
  have b: "blocked u rid =
     (case get (reportPath rid) u of
        None \<Rightarrow> isl (mkdirp 0 (reportPath rid) u)
      | Some (File _ _) \<Rightarrow> True
      | Some (Dir _ _) \<Rightarrow> is_dir (get (reportPath rid @ [''index.html'']) u))" for u
    by (auto simp: blocked_def split: option.splits node.splits sum.splits)
  show ?thesis unfolding b g1 g2 m ..
qed

lemma ensureResultFile_blocked:
  assumes "ensureResultFile rid w = (r, w')"
  shows "blocked (fs_root w') rid' = blocked (fs_root w) rid'"
proof (cases "get (ALLURE_RESULTS_DIR @ [rid @ ''-result.json'']) (fs_root w) = None")
  case False
  with assms have "w' = w"
    by (simp add: ensureResultFile_def bindE_def existsSync_def whenE_def returnE_def)
  then show ?thesis by simp
next
  case True
  let ?w0 = "w\<lparr>logs := logs w @ [(LWarn, ''No Allure results found for test run: '' @ rid)]\<rparr>"
  from True assms have wr: "writeFileSync (ALLURE_RESULTS_DIR @ [rid @ ''-result.json''])
            (JObject (minimalResult rid (clock w))) ?w0 = (r, w')"
    by (simp add: ensureResultFile_def bindE_def existsSync_def whenE_def logger_def Date_now_def)
  from writeFileSync_result[OF wr] show ?thesis
    by (cases r) (auto simp: blocked_other)
qed

lemma generateReport_total:
  assumes "fs_ok w 5" "\<not> blocked (fs_root w) rid"
    "\<forall>x t. invocation cli rid w = Some (x, t) \<longrightarrow> \<not> blocked t rid"
  shows "\<exists>w'. generateReport cli rid w = (Inr (path_string (cwd w @ reportPath rid)), w') \<and>
           is_dir (get (reportPath rid) (fs_root w'))"
proof -
  obtain r w1 where t: "generateReport_try cli rid w = (r, w1)" by (cases "generateReport_try cli rid w")
  show ?thesis
  proof (cases r)
    case (Inr p)
    with t have t': "generateReport_try cli rid w = (Inr p, w1)" by simp
    from try_Inr[OF t'] try_to_generateReport[OF t'] show ?thesis by auto
  next
    case (Inl e0)
    with t have t': "generateReport_try cli rid w = (Inl e0, w1)" by simp
    have o4: "fs_ok w 4" "fs_ok w 3" using assms(1) fs_ok_mono[of w 5 4] fs_ok_mono[of w 5 3] by simp_all
    from try_fails[OF t'] have "fs_ok w1 2 \<and> \<not> blocked (fs_root w1) rid"
    proof (elim disjE exE conjE)
      let ?w0 = "w\<lparr>logs := logs w @ [(LWarn, ''No Allure results found for test run: '' @ rid)]\<rparr>"
      assume wr: "writeFileSync (ALLURE_RESULTS_DIR @ [rid @ ''-result.json''])
            (JObject (minimalResult rid (clock w))) ?w0 = (Inl e0, w1)"
      from writeFileSync_faults[OF wr] have "faults w1 = tl (faults w)" by simp
      with fs_ok_tl[of w 2 w1] o4(2) have "fs_ok w1 2" by (simp add: numeral_3_eq_3 numeral_2_eq_2)
      moreover from writeFileSync_result[OF wr] assms(2) have "\<not> blocked (fs_root w1) rid" by simp
      ultimately show ?thesis by simp
    next
      fix wa
      assume a: "ensureResultFile rid w = (Inr (), wa)" and m: "mkdirSync (reportPath rid) wa = (Inl e0, w1)"
      have "fs_ok w (Suc 3)" using o4(1) by (simp add: eval_nat_numeral)
      from fs_ok_step[OF this ensureResultFile_faults[OF a]] have "fs_ok wa 3" .
      then have "fs_ok wa (Suc 2)" by (simp add: eval_nat_numeral)
      from fs_ok_tl[OF this mkdirSync_faults[OF m]] have "fs_ok w1 2" .
      moreover from mkdirSync_Inl_root[OF m] ensureResultFile_blocked[OF a] assms(2)
      have "\<not> blocked (fs_root w1) rid" by simp
      ultimately show ?thesis by simp
    next
      fix wb ub wc
      assume p: "prepare rid w = (Inr (), wb)" and c: "runAllure cli (cwd w) rid wb = (Inr ub, wc)"
        and wr: "writeFileSync (reportPath rid @ [''index.html'']) (NotJson (basicHtml rid)) wc = (Inl e0, w1)"
      have "fs_ok w (Suc (Suc 3))" using assms(1) by (simp add: eval_nat_numeral)
      from prepare_ok[OF p this] have ob: "fs_ok wb 3" .
      obtain x t' where cl: "cli (command (cwd w) rid) (fs_root wb) = (x, t')"
        by (cases "cli (command (cwd w) rid) (fs_root wb)")
      with c have wc: "faults wc = faults wb" "fs_root wc = t'"
        by (cases x; simp add: runAllure_eq; fastforce)+
      from p cl have "invocation cli rid w = Some (x, t')" by (simp add: invocation_def)
      with assms(3) have nb: "\<not> blocked t' rid" by blast
      from ob wc(1) have "fs_ok wc (Suc 2)" by (simp add: fs_ok_def eval_nat_numeral)
      from fs_ok_tl[OF this writeFileSync_faults[OF wr]] have "fs_ok w1 2" .
      moreover from writeFileSync_result[OF wr] wc(2) nb have "\<not> blocked (fs_root w1) rid" by simp
      ultimately show ?thesis by simp
    qed
    then have "fs_ok w1 2" "\<not> blocked (fs_root w1) rid" by simp_all
    from generateReport_converts[OF t' this] show ?thesis by blast
  qed
qed

lemma entry_resource_logs: "entry_resource (w\<lparr>logs := l\<rparr>) rid = entry_resource w rid"
  by (simp add: entry_resource_def)

lemma tool_failure_pages:
  assumes "invocation cli rid w = Some (Some err, t)"
  shows "(generateReport_try cli rid w = (Inr p, w') \<longrightarrow>
            p = path_string (cwd w @ reportPath rid) \<and>
            entry_resource w' rid = Some (basicHtml rid) \<and>
            (LWarn, ''Allure CLI generate failed, using basic HTML report:'') \<in> set (logs w'))
       \<and> (generateReport_try cli rid w = (Inl e0, w1) \<longrightarrow>
            writeFileSync (reportPath rid @ [''index.html'']) (NotJson (basicHtml rid))
              (after_failure rid w t) = (Inl e0, w1))"
proof -
  let ?A = "after_failure rid w t"
  obtain r4 w4 where b: "basicReport (cwd w) rid True ?A = (r4, w4)"
    by (cases "basicReport (cwd w) rid True ?A")
  have warn: "(LWarn, ''Allure CLI generate failed, using basic HTML report:'') \<in> set (logs ?A)"
    by (simp add: after_failure_def)
  note u = try_after_failure[OF assms]
  show ?thesis
  proof (cases r4)
    case (Inl e)
    with b have b': "basicReport (cwd w) rid True ?A = (Inl e, w4)" by simp
    from u b' have "generateReport_try cli rid w = (Inl e, w4)" by simp
    with basicReport_Inl[OF b'] show ?thesis by auto
  next
    case (Inr x)
    with b have b': "basicReport (cwd w) rid True ?A = (Inr x, w4)" by simp
    from u b' have eq: "generateReport_try cli rid w =
        (Inr (path_string (cwd w @ reportPath rid)),
         w4\<lparr>logs := logs w4 @ [(LInfo, ''Report generated at: '' @ path_string (cwd w @ reportPath rid))]\<rparr>)"
      by simp
    from basicReport_writes[OF b'] have "entry_resource w4 rid = Some (basicHtml rid)" by simp
    moreover from basicReport_logs[OF b'] warn
    have "(LWarn, ''Allure CLI generate failed, using basic HTML report:'') \<in> set (logs w4)" by blast
    ultimately show ?thesis using eq by (auto simp: entry_resource_logs)
  qed
qed

lemma tool_failure_main:
  assumes "invocation cli rid w = Some (Some err, t)" "fs_ok w 3"
    "is_dir (get (reportPath rid) t)" "\<not> is_dir (get (reportPath rid @ [''index.html'']) t)"
  shows "\<exists>w'. generateReport cli rid w = (Inr (path_string (cwd w @ reportPath rid)), w') \<and>
           entry_resource w' rid = Some (basicHtml rid) \<and>
           (LWarn, ''Allure CLI generate failed, using basic HTML report:'') \<in> set (logs w')"
proof -
  let ?A = "after_failure rid w t"
  have "fs_ok w (Suc (Suc 1))" using assms(2) by (simp add: eval_nat_numeral)
  from prepare_ok[OF prod.collapse[symmetric] this] have "fs_ok (snd (prepare rid w)) 1" .
  then have o: "fs_ok ?A 1" by (simp add: fs_ok_def after_failure_def)
  have r: "fs_root ?A = t" by (simp add: after_failure_def)
  from basicReport_ok[of ?A rid "cwd w" True] o r assms(3,4) obtain w4 where
    b: "basicReport (cwd w) rid True ?A = (Inr (), w4)" by auto
  from try_after_failure[OF assms(1)] b have eq: "generateReport_try cli rid w =
        (Inr (path_string (cwd w @ reportPath rid)),
         w4\<lparr>logs := logs w4 @ [(LInfo, ''Report generated at: '' @ path_string (cwd w @ reportPath rid))]\<rparr>)"
    by simp
  from tool_failure_pages[OF assms(1), THEN conjunct1, rule_format, OF eq] try_to_generateReport[OF eq]
  show ?thesis by blast
qed





section \<open>The project index\<close>




text \<open>
  C6. No operation of the project index throws: \<^verbatim>\<open>readProjectIndex\<close>,
  \<^verbatim>\<open>appendProjectIndexEntry\<close> and \<^verbatim>\<open>listAllProjectIndexes\<close> return in every state
  and under every injected failure. A read returns the stored list, or the empty list
  with a warning logged. An append either updates the ledger, or resets it to the new
  entry with a warning logged, or leaves it as it was with an error logged; on a ledger
  that does not parse it logs the warning and goes on from the empty list, and a failed
  write after that is only logged.
\<close>

theorem C6_index_never_throws:
  "(\<exists>es w'. readProjectIndex pid w = (Inr es, w') \<and> fs_root w' = fs_root w \<and>
       ((es = ledger w pid \<and> levels w' = levels w) \<or> (es = [] \<and> levels w' = levels w @ [LWarn])))
   \<and> (\<exists>w'. appendProjectIndexEntry pid entry w = (Inr (), w') \<and>
        ((levels w' = levels w \<and>
            ledger w' pid = entry # filter (\<lambda>r. entry_id r \<noteq> entry_id entry) (ledger w pid)) \<or>
         (levels w' = levels w @ [LWarn] \<and> ledger w' pid = [entry]) \<or>
         (levels w' = levels w @ [LError] \<and> ledger w' pid = ledger w pid) \<or>
         (levels w' = levels w @ [LWarn, LError] \<and> ledger w' pid = ledger w pid)) \<and>
        ((\<exists>st s. get (getProjectIndexPath pid) (fs_root w) = Some (File st (NotJson s))) \<longrightarrow>
           (levels w' = levels w @ [LWarn] \<and> ledger w' pid = [entry]) \<or>
           (levels w' = levels w @ [LWarn, LError] \<and> ledger w' pid = ledger w pid)))
   \<and> (\<exists>r w'. listAllProjectIndexes w = (Inr r, w'))"
proof (intro conjI)
  obtain r w' where rd: "readProjectIndex pid w = (r, w')" by (cases "readProjectIndex pid w")
  from readProjectIndex_result[OF rd] rd
  show "\<exists>es w'. readProjectIndex pid w = (Inr es, w') \<and> fs_root w' = fs_root w \<and>
       ((es = ledger w pid \<and> levels w' = levels w) \<or> (es = [] \<and> levels w' = levels w @ [LWarn]))"
    by auto
next
  obtain r w' where ap: "appendProjectIndexEntry pid entry w = (r, w')"
    by (cases "appendProjectIndexEntry pid entry w")
  from append_result[OF ap] have r: "r = Inr ()" by simp
  have nj: "(\<exists>st s. get (getProjectIndexPath pid) (fs_root w) = Some (File st (NotJson s))) \<longrightarrow>
           (levels w' = levels w @ [LWarn] \<and> ledger w' pid = [entry]) \<or>
           (levels w' = levels w @ [LWarn, LError] \<and> ledger w' pid = ledger w pid)"
    using append_notjson[OF ap] by blast
  from append_result[OF ap] nj ap r
  show "\<exists>w'. appendProjectIndexEntry pid entry w = (Inr (), w') \<and>
        ((levels w' = levels w \<and>
            ledger w' pid = entry # filter (\<lambda>r. entry_id r \<noteq> entry_id entry) (ledger w pid)) \<or>
         (levels w' = levels w @ [LWarn] \<and> ledger w' pid = [entry]) \<or>
         (levels w' = levels w @ [LError] \<and> ledger w' pid = ledger w pid) \<or>
         (levels w' = levels w @ [LWarn, LError] \<and> ledger w' pid = ledger w pid)) \<and>
        ((\<exists>st s. get (getProjectIndexPath pid) (fs_root w) = Some (File st (NotJson s))) \<longrightarrow>
           (levels w' = levels w @ [LWarn] \<and> ledger w' pid = [entry]) \<or>
           (levels w' = levels w @ [LWarn, LError] \<and> ledger w' pid = ledger w pid))"
    by (intro exI[of _ w']) auto
next
  show "\<exists>r w'. listAllProjectIndexes w = (Inr r, w')" by (rule listAll_total)
qed

theorem C6_index_never_throws_witness:
  "get (getProjectIndexPath ''p1'') (fs_root (world_of (tree_with_ledger (NotJson ''{not json''))))
     = Some (File (fresh 0) (NotJson ''{not json''))
   \<and> appendProjectIndexEntry ''p1'' (entry_of ''run-1'' ''t1'') (world_of (tree_with_ledger (NotJson ''{not json'')))
       = (Inr (), snd (appendProjectIndexEntry ''p1'' (entry_of ''run-1'' ''t1'')
                        (world_of (tree_with_ledger (NotJson ''{not json'')))))
   \<and> levels (snd (appendProjectIndexEntry ''p1'' (entry_of ''run-1'' ''t1'')
                        (world_of (tree_with_ledger (NotJson ''{not json''))))) = [LWarn]
   \<and> ledger (snd (appendProjectIndexEntry ''p1'' (entry_of ''run-1'' ''t1'')
                        (world_of (tree_with_ledger (NotJson ''{not json''))))) ''p1''
       = [entry_of ''run-1'' ''t1'']"
proof -
  let ?w = "world_of (tree_with_ledger (NotJson ''{not json''))"
  let ?e = "entry_of ''run-1'' ''t1''"
  have g: "get (getProjectIndexPath ''p1'') (fs_root ?w) = Some (File (fresh 0) (NotJson ''{not json''))"
    by code_simp
  have lv0: "levels ?w = []" by code_simp
  have noerr: "levels (snd (appendProjectIndexEntry ''p1'' ?e ?w)) \<noteq> [LWarn, LError]"
    by code_simp
  from C6_index_never_throws[where pid="''p1''" and entry="?e" and w="?w"] g
  obtain w' where ap: "appendProjectIndexEntry ''p1'' ?e ?w = (Inr (), w')"
    and d: "(levels w' = levels ?w @ [LWarn] \<and> ledger w' ''p1'' = [?e]) \<or>
            (levels w' = levels ?w @ [LWarn, LError] \<and> ledger w' ''p1'' = ledger ?w ''p1'')"
    by blast
  from ap have s: "snd (appendProjectIndexEntry ''p1'' ?e ?w) = w'" by simp
  from d noerr s lv0 have "levels w' = [LWarn] \<and> ledger w' ''p1'' = [?e]" by auto
  with g ap s show ?thesis by simp
qed

section \<open>The report generator\<close>

text \<open>
  C1. For every run id that is a segment.

  A \<^verbatim>\<open>generateReport\<close> that returns returns the path of the run's artifact directory,
  which is not empty, and the directory exists. It returns whenever no failure is injected
  into its calls of \<^verbatim>\<open>fs\<close> and the artifact directory is not blocked, neither before the
  call nor on the tree the tool leaves: whatever else the tool does and whether it fails or
  not.

  The invocation of the tool never throws out of its \<^verbatim>\<open>try\<close>: that step returns the flag
  \<^verbatim>\<open>useBasicReport\<close>, set and with a warning logged when the tool fails, and calls nothing
  of \<^verbatim>\<open>fs\<close>. When the tool fails and the basic page can be written, the basic page is the
  entry resource and the path is returned.

  The main path throws only where a \<^verbatim>\<open>writeFileSync\<close> or the \<^verbatim>\<open>mkdirSync\<close> throws, in
  the state it has reached: the write of the raw result, the creation of the artifact
  directory, or the write of the basic page. Such an error is converted as well: when after
  it no failure is injected and the artifact directory is not blocked, the error page is
  written and the path is returned.

  An error reaches the caller only when the main path threw and the fallback threw too,
  which it does only when a failure is injected into its calls of \<^verbatim>\<open>fs\<close> or the artifact
  directory is blocked; the error thrown carries the message of the first failure.
\<close>

theorem C1_generateReport_path:
  assumes "segment rid"
  shows "(generateReport cli rid w = (Inr p, w') \<longrightarrow>
            p = path_string (cwd w @ reportPath rid) \<and> p \<noteq> [] \<and>
            is_dir (get (reportPath rid) (fs_root w')))
       \<and> (fs_ok w 5 \<and> \<not> blocked (fs_root w) rid \<and>
          (\<forall>x t. invocation cli rid w = Some (x, t) \<longrightarrow> \<not> blocked t rid) \<longrightarrow>
            (\<exists>w'. generateReport cli rid w = (Inr (path_string (cwd w @ reportPath rid)), w')))
       \<and> (\<exists>ub w2. runAllure cli cw rid w = (Inr ub, w2) \<and> faults w2 = faults w \<and>
            (fst (cli (command cw rid) (fs_root w)) \<noteq> None \<longrightarrow>
               ub \<and> logs w2 = logs w @ [(LWarn, ''Allure CLI generate failed, using basic HTML report:'')]))
       \<and> (invocation cli rid w = Some (Some err, t) \<and> fs_ok w 3 \<and> is_dir (get (reportPath rid) t) \<and>
          \<not> is_dir (get (reportPath rid @ [''index.html'']) t) \<longrightarrow>
            (\<exists>w'. generateReport cli rid w = (Inr (path_string (cwd w @ reportPath rid)), w') \<and>
                  entry_resource w' rid = Some (basicHtml rid)))
       \<and> (generateReport_try cli rid w = (Inl e0, w1) \<longrightarrow>
            (get (ALLURE_RESULTS_DIR @ [rid @ ''-result.json'']) (fs_root w) = None \<and>
             writeFileSync (ALLURE_RESULTS_DIR @ [rid @ ''-result.json''])
               (JObject (minimalResult rid (clock w)))
               (w\<lparr>logs := logs w @ [(LWarn, ''No Allure results found for test run: '' @ rid)]\<rparr>) = (Inl e0, w1))
          \<or> (\<exists>wa. ensureResultFile rid w = (Inr (), wa) \<and> get (reportPath rid) (fs_root wa) = None \<and>
                   mkdirSync (reportPath rid) wa = (Inl e0, w1))
          \<or> (\<exists>wb ub wc. prepare rid w = (Inr (), wb) \<and> runAllure cli (cwd w) rid wb = (Inr ub, wc) \<and>
                   writeFileSync (reportPath rid @ [''index.html'']) (NotJson (basicHtml rid)) wc = (Inl e0, w1)))
       \<and> (generateReport_try cli rid w = (Inl e0, w1) \<and> fs_ok w1 2 \<and> \<not> blocked (fs_root w1) rid \<longrightarrow>
            (\<exists>w'. generateReport cli rid w = (Inr (path_string (cwd w @ reportPath rid)), w') \<and>
                  entry_resource w' rid =
                    Some (errorHtml (or_else (message e0) ''Failed to generate report'') rid)))
       \<and> (generateReport cli rid w = (Inl e, w') \<longrightarrow>
            (\<exists>e0 w1 e1.
               generateReport_try cli rid w = (Inl e0, w1) \<and>
               fst (generateReport_fallback e0 rid
                      (w1\<lparr>logs := logs w1 @ [(LError, ''Error generating Allure report:'')]\<rparr>)) = Inl e1 \<and>
               (\<not> fs_ok w1 2 \<or> blocked (fs_root w1) rid) \<and>
               e = Error (or_else (message e0) ''Failed to generate Allure report'')))"
proof (intro conjI impI)
  assume "generateReport cli rid w = (Inr p, w')"
  from generateReport_Inr[OF this]
  show "p = path_string (cwd w @ reportPath rid)" "p \<noteq> []" "is_dir (get (reportPath rid) (fs_root w'))"
    by blast+
next
  assume "fs_ok w 5 \<and> \<not> blocked (fs_root w) rid \<and>
          (\<forall>x t. invocation cli rid w = Some (x, t) \<longrightarrow> \<not> blocked t rid)"
  then have h: "fs_ok w 5" "\<not> blocked (fs_root w) rid"
    "\<forall>x t. invocation cli rid w = Some (x, t) \<longrightarrow> \<not> blocked t rid"
    by blast+
  from generateReport_total[OF h]
  have "\<exists>w'. generateReport cli rid w = (Inr (path_string (cwd w @ reportPath rid)), w') \<and>
           is_dir (get (reportPath rid) (fs_root w'))" .
  then show "\<exists>w'. generateReport cli rid w = (Inr (path_string (cwd w @ reportPath rid)), w')" by blast
next
  obtain x t' where c: "cli (command cw rid) (fs_root w) = (x, t')"
    by (cases "cli (command cw rid) (fs_root w)")
  show "\<exists>ub w2. runAllure cli cw rid w = (Inr ub, w2) \<and> faults w2 = faults w \<and>
            (fst (cli (command cw rid) (fs_root w)) \<noteq> None \<longrightarrow>
               ub \<and> logs w2 = logs w @ [(LWarn, ''Allure CLI generate failed, using basic HTML report:'')])"
    using c by (cases x) (auto simp: runAllure_eq)
next
  assume "invocation cli rid w = Some (Some err, t) \<and> fs_ok w 3 \<and> is_dir (get (reportPath rid) t) \<and>
          \<not> is_dir (get (reportPath rid @ [''index.html'']) t)"
  then have h: "invocation cli rid w = Some (Some err, t)" "fs_ok w 3" "is_dir (get (reportPath rid) t)"
    "\<not> is_dir (get (reportPath rid @ [''index.html'']) t)"
    by blast+
  from tool_failure_main[OF h]
  have "\<exists>w'. generateReport cli rid w = (Inr (path_string (cwd w @ reportPath rid)), w') \<and>
           entry_resource w' rid = Some (basicHtml rid) \<and>
           (LWarn, ''Allure CLI generate failed, using basic HTML report:'') \<in> set (logs w')" .
  then show "\<exists>w'. generateReport cli rid w = (Inr (path_string (cwd w @ reportPath rid)), w') \<and>
                  entry_resource w' rid = Some (basicHtml rid)"
    by blast
next
  assume "generateReport_try cli rid w = (Inl e0, w1)"
  then show "(get (ALLURE_RESULTS_DIR @ [rid @ ''-result.json'']) (fs_root w) = None \<and>
             writeFileSync (ALLURE_RESULTS_DIR @ [rid @ ''-result.json''])
               (JObject (minimalResult rid (clock w)))
               (w\<lparr>logs := logs w @ [(LWarn, ''No Allure results found for test run: '' @ rid)]\<rparr>) = (Inl e0, w1))
          \<or> (\<exists>wa. ensureResultFile rid w = (Inr (), wa) \<and> get (reportPath rid) (fs_root wa) = None \<and>
                   mkdirSync (reportPath rid) wa = (Inl e0, w1))
          \<or> (\<exists>wb ub wc. prepare rid w = (Inr (), wb) \<and> runAllure cli (cwd w) rid wb = (Inr ub, wc) \<and>
                   writeFileSync (reportPath rid @ [''index.html'']) (NotJson (basicHtml rid)) wc = (Inl e0, w1))"
    by (rule try_fails)
next
  assume "generateReport_try cli rid w = (Inl e0, w1) \<and> fs_ok w1 2 \<and> \<not> blocked (fs_root w1) rid"
  then have h: "generateReport_try cli rid w = (Inl e0, w1)" "fs_ok w1 2" "\<not> blocked (fs_root w1) rid"
    by blast+
  from generateReport_converts[OF h]
  have "\<exists>w'. generateReport cli rid w = (Inr (path_string (cwd w @ reportPath rid)), w') \<and>
           entry_resource w' rid = Some (errorHtml (or_else (message e0) ''Failed to generate report'') rid) \<and>
           is_dir (get (reportPath rid) (fs_root w'))" .
  then show "\<exists>w'. generateReport cli rid w = (Inr (path_string (cwd w @ reportPath rid)), w') \<and>
                  entry_resource w' rid =
                    Some (errorHtml (or_else (message e0) ''Failed to generate report'') rid)"
    by blast
next
  assume "generateReport cli rid w = (Inl e, w')"
  then show "\<exists>e0 w1 e1.
               generateReport_try cli rid w = (Inl e0, w1) \<and>
               fst (generateReport_fallback e0 rid
                      (w1\<lparr>logs := logs w1 @ [(LError, ''Error generating Allure report:'')]\<rparr>)) = Inl e1 \<and>
               (\<not> fs_ok w1 2 \<or> blocked (fs_root w1) rid) \<and>
               e = Error (or_else (message e0) ''Failed to generate Allure report'')"
    by (rule generateReport_throws)
qed

theorem C1_generateReport_path_witness:
  "segment ''run-1''
   \<and> fs_ok (world_of tree_ready) 5 \<and> \<not> blocked (fs_root (world_of tree_ready)) ''run-1''
   \<and> invocation cli_unavailable ''run-1'' (world_of tree_ready)
       = Some (Some (Error ''spawnSync /bin/sh ENOENT''), fs_root (snd (prepare ''run-1'' (world_of tree_ready))))
   \<and> \<not> blocked (fs_root (snd (prepare ''run-1'' (world_of tree_ready)))) ''run-1''
   \<and> fst (generateReport cli_unavailable ''run-1'' (world_of tree_ready)) = Inr ''/srv/app/allure-reports/run-1''
   \<and> generateReport_try cli_wiping ''run-1'' (world_of tree_ready)
       = (Inl (uvException ENOENT ''open'' (Some [''srv'', ''app'', ''allure-reports'', ''run-1'', ''index.html'']) None),
          snd (generateReport_try cli_wiping ''run-1'' (world_of tree_ready)))
   \<and> fs_ok (snd (generateReport_try cli_wiping ''run-1'' (world_of tree_ready))) 2
   \<and> \<not> blocked (fs_root (snd (generateReport_try cli_wiping ''run-1'' (world_of tree_ready)))) ''run-1''
   \<and> fst (generateReport cli_wiping ''run-1'' (world_of tree_ready)) = Inr ''/srv/app/allure-reports/run-1''
   \<and> entry_resource (snd (generateReport cli_wiping ''run-1'' (world_of tree_ready))) ''run-1''
       = Some (errorHtml (message (uvException ENOENT ''open''
                  (Some [''srv'', ''app'', ''allure-reports'', ''run-1'', ''index.html'']) None)) ''run-1'')
   \<and> generateReport cli_unavailable ''run-1'' (failing [Some no_space, Some no_space] (world_of tree_ready))
       = (Inl no_space,
          snd (generateReport cli_unavailable ''run-1'' (failing [Some no_space, Some no_space] (world_of tree_ready))))
   \<and> \<not> fs_ok (snd (generateReport_try cli_unavailable ''run-1''
                      (failing [Some no_space, Some no_space] (world_of tree_ready)))) 2
   \<and> generateReport cli_unavailable ''run-1'' (world_of tree_blocked)
       = (Inl (uvException ENOTDIR ''mkdir'' (Some [''srv'', ''app'', ''allure-reports'', ''run-1'']) None),
          snd (generateReport cli_unavailable ''run-1'' (world_of tree_blocked)))
   \<and> blocked (fs_root (snd (generateReport_try cli_unavailable ''run-1'' (world_of tree_blocked)))) ''run-1''"
proof -
  let ?w = "world_of tree_ready"
  let ?t = "fs_root (snd (prepare ''run-1'' ?w))"
  let ?enoent = "uvException ENOENT ''open'' (Some [''srv'', ''app'', ''allure-reports'', ''run-1'', ''index.html'']) None"
  let ?enotdir = "uvException ENOTDIR ''mkdir'' (Some [''srv'', ''app'', ''allure-reports'', ''run-1'']) None"
  let ?f = "failing [Some no_space, Some no_space] ?w"
  let ?b = "world_of tree_blocked"
  have seg: "segment ''run-1''" by (simp add: segment_def)
  note c = C1_generateReport_path[OF seg]
  have pth: "path_string (cwd ?w @ reportPath ''run-1'') = ''/srv/app/allure-reports/run-1''" by code_simp
  have ok5: "fs_ok ?w 5" by (simp add: fs_ok_def world_of_def)
  have nb: "\<not> blocked (fs_root ?w) ''run-1''" by code_simp
  have inv: "invocation cli_unavailable ''run-1'' ?w = Some (Some (Error ''spawnSync /bin/sh ENOENT''), ?t)"
    by code_simp
  have nbt: "\<not> blocked ?t ''run-1''" by code_simp
  from inv nbt have all: "\<forall>x t. invocation cli_unavailable ''run-1'' ?w = Some (x, t) \<longrightarrow> \<not> blocked t ''run-1''"
    by simp
  from c[where cli=cli_unavailable and w="?w", THEN conjunct2, THEN conjunct1] ok5 nb all pth
  have r1: "fst (generateReport cli_unavailable ''run-1'' ?w) = Inr ''/srv/app/allure-reports/run-1''"
    by auto
  let ?tw = "generateReport_try cli_wiping ''run-1'' ?w"
  have "fst ?tw = Inl ?enoent" by code_simp
  then have tw: "?tw = (Inl ?enoent, snd ?tw)" by (metis prod.collapse)
  have ok2: "fs_ok (snd ?tw) 2" by code_simp
  have nb2: "\<not> blocked (fs_root (snd ?tw)) ''run-1''" by code_simp
  have m: "or_else (message ?enoent) ''Failed to generate report'' = message ?enoent"
    by (simp add: or_else_def uvException_def strerror_def)
  from c[where cli=cli_wiping and w="?w" and ?e0.0="?enoent" and ?w1.0="snd ?tw",
         THEN conjunct2, THEN conjunct2, THEN conjunct2, THEN conjunct2, THEN conjunct2, THEN conjunct1]
       tw ok2 nb2
  obtain w' where g2: "generateReport cli_wiping ''run-1'' ?w = (Inr (path_string (cwd ?w @ reportPath ''run-1'')), w')"
    and e2: "entry_resource w' ''run-1'' =
               Some (errorHtml (or_else (message ?enoent) ''Failed to generate report'') ''run-1'')"
    by blast
  from g2 e2 pth m have r2: "fst (generateReport cli_wiping ''run-1'' ?w) = Inr ''/srv/app/allure-reports/run-1''"
    "entry_resource (snd (generateReport cli_wiping ''run-1'' ?w)) ''run-1'' =
       Some (errorHtml (message ?enoent) ''run-1'')"
    by simp_all
  let ?gf = "generateReport cli_unavailable ''run-1'' ?f"
  have "fst ?gf = Inl no_space" by code_simp
  then have gf: "?gf = (Inl no_space, snd ?gf)" by (metis prod.collapse)
  have tf: "generateReport_try cli_unavailable ''run-1'' ?f =
              (Inl no_space, snd (generateReport_try cli_unavailable ''run-1'' ?f))"
    by code_simp
  have nbf: "\<not> blocked (fs_root (snd (generateReport_try cli_unavailable ''run-1'' ?f))) ''run-1''"
    by code_simp
  from c[where cli=cli_unavailable and w="?f" and e=no_space and w'="snd ?gf",
         THEN conjunct2, THEN conjunct2, THEN conjunct2, THEN conjunct2, THEN conjunct2, THEN conjunct2] gf
  obtain e0 w1 where "generateReport_try cli_unavailable ''run-1'' ?f = (Inl e0, w1)"
    "\<not> fs_ok w1 2 \<or> blocked (fs_root w1) ''run-1''" by blast
  with tf nbf have r3: "\<not> fs_ok (snd (generateReport_try cli_unavailable ''run-1'' ?f)) 2" by auto
  let ?gb = "generateReport cli_unavailable ''run-1'' ?b"
  have "fst ?gb = Inl ?enotdir" by code_simp
  then have gb: "?gb = (Inl ?enotdir, snd ?gb)" by (metis prod.collapse)
  have tb: "generateReport_try cli_unavailable ''run-1'' ?b =
              (Inl ?enotdir, snd (generateReport_try cli_unavailable ''run-1'' ?b))"
    by code_simp
  have okb: "fs_ok (snd (generateReport_try cli_unavailable ''run-1'' ?b)) 2" by code_simp
  from c[where cli=cli_unavailable and w="?b" and e="?enotdir" and w'="snd ?gb",
         THEN conjunct2, THEN conjunct2, THEN conjunct2, THEN conjunct2, THEN conjunct2, THEN conjunct2] gb
  obtain e0' w1' where "generateReport_try cli_unavailable ''run-1'' ?b = (Inl e0', w1')"
    "\<not> fs_ok w1' 2 \<or> blocked (fs_root w1') ''run-1''" by blast
  with tb okb have r4: "blocked (fs_root (snd (generateReport_try cli_unavailable ''run-1'' ?b))) ''run-1''"
    by auto
  from seg ok5 nb inv nbt r1 tw ok2 nb2 r2 gf r3 gb r4 show ?thesis by simp
qed




text \<open>
  C8. For every run id that is a segment: \<^verbatim>\<open>getReportUrl\<close> returns
  \<^verbatim>\<open>/allure-reports/<run id>/index.html\<close>, which is not empty and depends on the run id
  alone, exactly when the run's artifact directory exists, and the empty string otherwise;
  it changes nothing. When \<^verbatim>\<open>generateReport\<close> is called twice for the run id and returns,
  \<^verbatim>\<open>getReportUrl\<close> after each call returns that same non-empty URL, and both calls return
  the same non-empty path.
\<close>

theorem C8_report_url:
  assumes "segment rid"
  shows "getReportUrl rid w =
     (Inr (if get (reportPath rid) (fs_root w) \<noteq> None
           then ''/allure-reports/'' @ rid @ ''/index.html'' else []), w)
   \<and> ''/allure-reports/'' @ rid @ ''/index.html'' \<noteq> []
   \<and> (generateReport cli rid w = (Inr p1, w1) \<and> getReportUrl rid w1 = (u1, w2) \<and>
       generateReport cli' rid w2 = (Inr p2, w3) \<and> getReportUrl rid w3 = (u2, w4) \<longrightarrow>
         u1 = Inr (''/allure-reports/'' @ rid @ ''/index.html'') \<and> u2 = u1 \<and> p2 = p1 \<and> p1 \<noteq> [])"
proof (intro conjI impI)
  show "getReportUrl rid w =
     (Inr (if get (reportPath rid) (fs_root w) \<noteq> None
           then ''/allure-reports/'' @ rid @ ''/index.html'' else []), w)"
    by (rule getReportUrl_eq)
  show "''/allure-reports/'' @ rid @ ''/index.html'' \<noteq> []" by simp
next
  assume a: "generateReport cli rid w = (Inr p1, w1) \<and> getReportUrl rid w1 = (u1, w2) \<and>
       generateReport cli' rid w2 = (Inr p2, w3) \<and> getReportUrl rid w3 = (u2, w4)"
  then have g1: "generateReport cli rid w = (Inr p1, w1)" and r1: "getReportUrl rid w1 = (u1, w2)"
    and g2: "generateReport cli' rid w2 = (Inr p2, w3)" and r2: "getReportUrl rid w3 = (u2, w4)"
    by simp_all
  from generateReport_Inr[OF g1] have d1: "get (reportPath rid) (fs_root w1) \<noteq> None"
    and p1: "p1 = path_string (cwd w @ reportPath rid)" "p1 \<noteq> []"
    using is_dir_exists by blast+
  from r1 d1 have u1: "u1 = Inr (''/allure-reports/'' @ rid @ ''/index.html'')" and w2: "w2 = w1"
    by (simp_all add: getReportUrl_eq)
  from generateReport_Inr[OF g2] have d2: "get (reportPath rid) (fs_root w3) \<noteq> None"
    and p2: "p2 = path_string (cwd w2 @ reportPath rid)"
    using is_dir_exists by blast+
  from r2 d2 have u2: "u2 = Inr (''/allure-reports/'' @ rid @ ''/index.html'')"
    by (simp add: getReportUrl_eq)
  from steady_generateReport g1 have "cwd w1 = cwd w" by (auto simp: steady_def)
  with p1 p2 w2 have "p2 = p1" by simp
  with u1 u2 p1 show "u1 = Inr (''/allure-reports/'' @ rid @ ''/index.html'')" "u2 = u1" "p2 = p1" "p1 \<noteq> []"
    by simp_all
qed

theorem C8_report_url_witness:
  "generateReport cli_unavailable ''run-1'' (world_of tree_ready)
     = (Inr ''/srv/app/allure-reports/run-1'', snd (generateReport cli_unavailable ''run-1'' (world_of tree_ready)))
   \<and> generateReport cli_silent ''run-1'' (snd (generateReport cli_unavailable ''run-1'' (world_of tree_ready)))
     = (Inr ''/srv/app/allure-reports/run-1'',
        snd (generateReport cli_silent ''run-1'' (snd (generateReport cli_unavailable ''run-1'' (world_of tree_ready)))))
   \<and> fst (getReportUrl ''run-1'' (snd (generateReport cli_unavailable ''run-1'' (world_of tree_ready))))
     = Inr ''/allure-reports/run-1/index.html''
   \<and> fst (getReportUrl ''run-1''
        (snd (generateReport cli_silent ''run-1'' (snd (generateReport cli_unavailable ''run-1'' (world_of tree_ready))))))
     = Inr ''/allure-reports/run-1/index.html''
   \<and> segment ''run-1''"
proof -
  let ?g1 = "generateReport cli_unavailable ''run-1'' (world_of tree_ready)"
  let ?g2 = "generateReport cli_silent ''run-1'' (snd ?g1)"
  have "fst ?g1 = Inr ''/srv/app/allure-reports/run-1''" by code_simp
  then have g1: "?g1 = (Inr ''/srv/app/allure-reports/run-1'', snd ?g1)" by (metis prod.collapse)
  have "fst ?g2 = Inr ''/srv/app/allure-reports/run-1''" by code_simp
  then have g2: "?g2 = (Inr ''/srv/app/allure-reports/run-1'', snd ?g2)" by (metis prod.collapse)
  have r1: "getReportUrl ''run-1'' (snd ?g1) = (fst (getReportUrl ''run-1'' (snd ?g1)), snd ?g1)"
    by (simp add: getReportUrl_eq)
  have r2: "getReportUrl ''run-1'' (snd ?g2) = (fst (getReportUrl ''run-1'' (snd ?g2)), snd ?g2)"
    by (simp add: getReportUrl_eq)
  have seg: "segment ''run-1''" by (simp add: segment_def)
  from C8_report_url[OF seg, where cli=cli_unavailable and cli'=cli_silent
      and w="world_of tree_ready" and ?p1.0="''/srv/app/allure-reports/run-1''" and ?w1.0="snd ?g1"
      and ?u1.0="fst (getReportUrl ''run-1'' (snd ?g1))" and ?w2.0="snd ?g1"
      and ?p2.0="''/srv/app/allure-reports/run-1''" and ?w3.0="snd ?g2"
      and ?u2.0="fst (getReportUrl ''run-1'' (snd ?g2))" and ?w4.0="snd ?g2"]
    g1 g2 r1 r2
  have "fst (getReportUrl ''run-1'' (snd ?g1)) = Inr (''/allure-reports/'' @ ''run-1'' @ ''/index.html'')"
    and "fst (getReportUrl ''run-1'' (snd ?g2)) = fst (getReportUrl ''run-1'' (snd ?g1))"
    by blast+
  with g1 g2 seg show ?thesis by simp
qed

section \<open>Retention and enumeration\<close>

text \<open>
  C2, at a state the service reaches. The reports root holds the directory of a run last
  modified eight days ago, the directory of a run modified yesterday and the index
  directory \<^verbatim>\<open>by-project\<close>, last modified eight days ago, with one ledger in it.
  \<^verbatim>\<open>cleanupOldReports(7)\<close> returns without logging an error; it removes the old run and
  keeps the new one, and it removes the index directory with the ledger in it, so that the
  project's index reads as empty afterwards. The last two lines reach such a state with
  the service's own calls: the directories are created and an entry is appended at time
  0, and the cleanup runs eight days later.
\<close>

theorem C2_cleanup_removes_ledgers:
  "ledger (world_at (8 * day) tree_aged) ''p1'' = [entry_of ''run-old'' ''t0'']
   \<and> fst (cleanupOldReports 7 (world_at (8 * day) tree_aged)) = Inr ()
   \<and> LError \<notin> set (levels (snd (cleanupOldReports 7 (world_at (8 * day) tree_aged))))
   \<and> get (reportPath ''run-old'') (fs_root (snd (cleanupOldReports 7 (world_at (8 * day) tree_aged)))) = None
   \<and> get (reportPath ''run-new'') (fs_root (snd (cleanupOldReports 7 (world_at (8 * day) tree_aged)))) \<noteq> None
   \<and> get ALLURE_INDEX_DIR (fs_root (snd (cleanupOldReports 7 (world_at (8 * day) tree_aged)))) = None
   \<and> ledger (snd (cleanupOldReports 7 (world_at (8 * day) tree_aged))) ''p1'' = []
   \<and> fst (readProjectIndex ''p1'' (snd (cleanupOldReports 7 (world_at (8 * day) tree_aged)))) = Inr []
   \<and> ledger (snd (appendProjectIndexEntry ''p1'' (entry_of ''run-1'' ''t0'')
             (snd (ensureDirectories (world_at 0 (Dir (fresh 0) [])))))) ''p1''
     = [entry_of ''run-1'' ''t0'']
   \<and> ledger (snd (cleanupOldReports 7
        ((snd (appendProjectIndexEntry ''p1'' (entry_of ''run-1'' ''t0'')
             (snd (ensureDirectories (world_at 0 (Dir (fresh 0) []))))))\<lparr>clock := 8 * day\<rparr>))) ''p1''
     = []"
  by code_simp

text \<open>
  C10. \<^verbatim>\<open>getAllReports\<close> never throws and changes no file. When the reports root is a
  directory and no failure is injected into the listing and the \<^verbatim>\<open>statSync\<close> of each of
  its entries, it logs nothing and returns one record for every entry of the reports
  root, in the order of the listing: the entry's name as id, the path
  \<^verbatim>\<open>/allure-reports/<name>/index.html\<close> and the entry's creation time; when the index
  directory \<^verbatim>\<open>by-project\<close> exists, one of the records is the one for \<^verbatim>\<open>by-project\<close>.
  In every other case, that is when the reports root is not a directory or one of these
  calls meets a failure, it logs the error and returns the empty list.
\<close>

theorem C10_getAllReports:
  "\<exists>rs w'. getAllReports w = (Inr rs, w') \<and> fs_root w' = fs_root w \<and>
     (\<forall>st cs. get ALLURE_REPORTS_DIR (fs_root w) = Some (Dir st cs) \<and> fs_ok w (Suc (length cs)) \<longrightarrow>
        levels w' = levels w \<and>
        rs = map (report_of (fs_root w)) (sort (map fst cs)) \<and>
        map info_id rs = sort (map fst cs) \<and>
        (\<forall>r \<in> set rs.
           info_path r = ''/allure-reports/'' @ info_id r @ ''/index.html'' \<and>
           (\<exists>n. get (ALLURE_REPORTS_DIR @ [info_id r]) (fs_root w) = Some n \<and>
                info_createdAt r = birthtime (node_stats n))) \<and>
        (get ALLURE_INDEX_DIR (fs_root w) \<noteq> None \<longrightarrow>
           (\<exists>r \<in> set rs. info_id r = ''by-project'' \<and>
              info_path r = ''/allure-reports/by-project/index.html''))) \<and>
     (\<not> is_dir (get ALLURE_REPORTS_DIR (fs_root w)) \<or>
      (\<exists>st cs. get ALLURE_REPORTS_DIR (fs_root w) = Some (Dir st cs) \<and> \<not> fs_ok w (Suc (length cs))) \<longrightarrow>
        rs = [] \<and> levels w' = levels w @ [LError])"
proof (cases "\<exists>st cs. get ALLURE_REPORTS_DIR (fs_root w) = Some (Dir st cs) \<and> fs_ok w (Suc (length cs))")
  case True
  then obtain st cs where g: "get ALLURE_REPORTS_DIR (fs_root w) = Some (Dir st cs)"
    and ok: "fs_ok w (Suc (length cs))" by blast
  let ?rs = "map (report_of (fs_root w)) (sort (map fst cs))"
  let ?w' = "w\<lparr>faults := drop (Suc (length cs)) (faults w)\<rparr>"
  note eq = getAllReports_ok[OF g ok]
  have ids: "map info_id ?rs = sort (map fst cs)" by (simp add: report_of_def comp_def)
  have each: "\<forall>r \<in> set ?rs.
           info_path r = ''/allure-reports/'' @ info_id r @ ''/index.html'' \<and>
           (\<exists>n. get (ALLURE_REPORTS_DIR @ [info_id r]) (fs_root w) = Some n \<and>
                info_createdAt r = birthtime (node_stats n))"
  proof
    fix r assume "r \<in> set ?rs"
    then obtain nm where nm: "nm \<in> set (map fst cs)" "r = report_of (fs_root w) nm" by auto
    from child_exists[OF g nm(1)] nm(2)
    show "info_path r = ''/allure-reports/'' @ info_id r @ ''/index.html'' \<and>
           (\<exists>n. get (ALLURE_REPORTS_DIR @ [info_id r]) (fs_root w) = Some n \<and>
                info_createdAt r = birthtime (node_stats n))"
      by (auto simp: report_of_def)
  qed
  have idx: "get ALLURE_INDEX_DIR (fs_root w) \<noteq> None \<longrightarrow>
           (\<exists>r \<in> set ?rs. info_id r = ''by-project'' \<and>
              info_path r = ''/allure-reports/by-project/index.html'')"
  proof
    assume "get ALLURE_INDEX_DIR (fs_root w) \<noteq> None"
    with g have "map_of cs ''by-project'' \<noteq> None"
      by (auto simp: ALLURE_INDEX_DIR_def get_append split: option.splits)
    then have "''by-project'' \<in> fst ` set cs" by (simp add: map_of_eq_None_iff)
    then have "report_of (fs_root w) ''by-project'' \<in> set ?rs" by force
    then show "\<exists>r \<in> set ?rs. info_id r = ''by-project'' \<and>
              info_path r = ''/allure-reports/by-project/index.html''"
      by (rule bexI[rotated]) (simp add: report_of_def)
  qed
  have no: "\<not> (\<not> is_dir (get ALLURE_REPORTS_DIR (fs_root w)) \<or>
      (\<exists>st cs. get ALLURE_REPORTS_DIR (fs_root w) = Some (Dir st cs) \<and> \<not> fs_ok w (Suc (length cs))))"
    using g ok by (auto simp: is_dir_def)
  have lv: "levels ?w' = levels w" "fs_root ?w' = fs_root w" by (simp_all add: levels_def)
  have main: "\<forall>st' cs'. get ALLURE_REPORTS_DIR (fs_root w) = Some (Dir st' cs') \<and> fs_ok w (Suc (length cs')) \<longrightarrow>
        levels ?w' = levels w \<and>
        ?rs = map (report_of (fs_root w)) (sort (map fst cs')) \<and>
        map info_id ?rs = sort (map fst cs') \<and>
        (\<forall>r \<in> set ?rs.
           info_path r = ''/allure-reports/'' @ info_id r @ ''/index.html'' \<and>
           (\<exists>n. get (ALLURE_REPORTS_DIR @ [info_id r]) (fs_root w) = Some n \<and>
                info_createdAt r = birthtime (node_stats n))) \<and>
        (get ALLURE_INDEX_DIR (fs_root w) \<noteq> None \<longrightarrow>
           (\<exists>r \<in> set ?rs. info_id r = ''by-project'' \<and>
              info_path r = ''/allure-reports/by-project/index.html''))"
    using g lv(1) ids each idx by simp
  show ?thesis
    by (rule exI[of _ ?rs], rule exI[of _ ?w']) (use eq lv(2) main no in blast)
next
  case False
  then have bad: "\<not> is_dir (get ALLURE_REPORTS_DIR (fs_root w)) \<or>
      (\<exists>st cs. get ALLURE_REPORTS_DIR (fs_root w) = Some (Dir st cs) \<and> \<not> fs_ok w (Suc (length cs)))"
    by (auto simp: is_dir_def split: option.splits node.splits)
  from getAllReports_bad[OF bad] obtain w' where
    "getAllReports w = (Inr [], w')" "levels w' = levels w @ [LError]" "fs_root w' = fs_root w" by blast
  with False show ?thesis by blast
qed

theorem C10_getAllReports_witness:
  "get ALLURE_REPORTS_DIR (fs_root (world_at (8 * day) tree_aged)) =
     Some (Dir (fresh 0)
       [(''by-project'', Dir (fresh 0) [(''p1.json'', File (fresh 0) (JArray [entry_of ''run-old'' ''t0'']))]),
        (''run-old'', Dir (fresh 0) [(''index.html'', File (fresh 0) (NotJson ''old''))]),
        (''run-new'', Dir (fresh (7 * day)) [(''index.html'', File (fresh (7 * day)) (NotJson ''new''))])])
   \<and> fs_ok (world_at (8 * day) tree_aged) 4
   \<and> fst (getAllReports (world_at (8 * day) tree_aged)) =
       Inr [\<lparr>info_id = ''by-project'', info_path = ''/allure-reports/by-project/index.html'', info_createdAt = 0\<rparr>,
            \<lparr>info_id = ''run-new'', info_path = ''/allure-reports/run-new/index.html'', info_createdAt = 7 * day\<rparr>,
            \<lparr>info_id = ''run-old'', info_path = ''/allure-reports/run-old/index.html'', info_createdAt = 0\<rparr>]
   \<and> levels (snd (getAllReports (world_at (8 * day) tree_aged))) = []
   \<and> \<not> fs_ok (failing [None, Some disk_error] (world_at (8 * day) tree_aged)) 4
   \<and> fst (getAllReports (failing [None, Some disk_error] (world_at (8 * day) tree_aged))) = Inr []
   \<and> levels (snd (getAllReports (failing [None, Some disk_error] (world_at (8 * day) tree_aged)))) = [LError]
   \<and> \<not> is_dir (get ALLURE_REPORTS_DIR (fs_root (world_of tree_blocked)))
   \<and> fst (getAllReports (world_of tree_blocked)) = Inr []
   \<and> levels (snd (getAllReports (world_of tree_blocked))) = [LError]"
proof -
  let ?w = "world_at (8 * day) tree_aged"
  let ?f = "failing [None, Some disk_error] ?w"
  let ?b = "world_of tree_blocked"
  let ?cs = "[(''by-project'', Dir (fresh 0) [(''p1.json'', File (fresh 0) (JArray [entry_of ''run-old'' ''t0'']))]),
        (''run-old'', Dir (fresh 0) [(''index.html'', File (fresh 0) (NotJson ''old''))]),
        (''run-new'', Dir (fresh (7 * day)) [(''index.html'', File (fresh (7 * day)) (NotJson ''new''))])]"
  have g: "get ALLURE_REPORTS_DIR (fs_root ?w) = Some (Dir (fresh 0) ?cs)"
    by (simp add: world_at_def tree_aged_def ALLURE_REPORTS_DIR_def)
  have gf: "get ALLURE_REPORTS_DIR (fs_root ?f) = Some (Dir (fresh 0) ?cs)"
    by (simp add: failing_def world_at_def tree_aged_def ALLURE_REPORTS_DIR_def)
  have ok: "fs_ok ?w 4" by (simp add: fs_ok_def world_at_def)
  have bad: "\<not> fs_ok ?f 4" by (simp add: fs_ok_def failing_def world_at_def)
  have nd: "\<not> is_dir (get ALLURE_REPORTS_DIR (fs_root ?b))"
    by (simp add: world_of_def tree_blocked_def ALLURE_REPORTS_DIR_def is_dir_def)
  have l0: "levels ?w = []" "levels ?f = []" "levels ?b = []"
    by (simp_all add: levels_def world_at_def failing_def world_of_def)
  have recs: "map (report_of (fs_root ?w)) (sort (map fst ?cs)) =
       [\<lparr>info_id = ''by-project'', info_path = ''/allure-reports/by-project/index.html'', info_createdAt = 0\<rparr>,
        \<lparr>info_id = ''run-new'', info_path = ''/allure-reports/run-new/index.html'', info_createdAt = 7 * day\<rparr>,
        \<lparr>info_id = ''run-old'', info_path = ''/allure-reports/run-old/index.html'', info_createdAt = 0\<rparr>]"
    by code_simp
  have len: "Suc (length ?cs) = 4" by simp
  from C10_getAllReports[of ?w] obtain rs w' where
    e1: "getAllReports ?w = (Inr rs, w')" and
    a1: "\<forall>st cs. get ALLURE_REPORTS_DIR (fs_root ?w) = Some (Dir st cs) \<and> fs_ok ?w (Suc (length cs)) \<longrightarrow>
        levels w' = levels ?w \<and> rs = map (report_of (fs_root ?w)) (sort (map fst cs))"
    by blast
  from a1 g ok len have "levels w' = levels ?w \<and> rs = map (report_of (fs_root ?w)) (sort (map fst ?cs))"
    by metis
  with e1 recs l0 have r1: "fst (getAllReports ?w) = Inr
       [\<lparr>info_id = ''by-project'', info_path = ''/allure-reports/by-project/index.html'', info_createdAt = 0\<rparr>,
        \<lparr>info_id = ''run-new'', info_path = ''/allure-reports/run-new/index.html'', info_createdAt = 7 * day\<rparr>,
        \<lparr>info_id = ''run-old'', info_path = ''/allure-reports/run-old/index.html'', info_createdAt = 0\<rparr>]"
    and r1': "levels (snd (getAllReports ?w)) = []"
    by simp_all
  from C10_getAllReports[of ?f] obtain rs2 w2 where
    e2: "getAllReports ?f = (Inr rs2, w2)" and
    a2: "\<not> is_dir (get ALLURE_REPORTS_DIR (fs_root ?f)) \<or>
      (\<exists>st cs. get ALLURE_REPORTS_DIR (fs_root ?f) = Some (Dir st cs) \<and> \<not> fs_ok ?f (Suc (length cs))) \<longrightarrow>
        rs2 = [] \<and> levels w2 = levels ?f @ [LError]"
    by blast
  from gf bad len have "\<exists>st cs. get ALLURE_REPORTS_DIR (fs_root ?f) = Some (Dir st cs) \<and> \<not> fs_ok ?f (Suc (length cs))"
    by metis
  with a2 e2 l0 have r2: "fst (getAllReports ?f) = Inr []" "levels (snd (getAllReports ?f)) = [LError]"
    by simp_all
  from C10_getAllReports[of ?b] obtain rs3 w3 where
    e3: "getAllReports ?b = (Inr rs3, w3)" and
    a3: "\<not> is_dir (get ALLURE_REPORTS_DIR (fs_root ?b)) \<or>
      (\<exists>st cs. get ALLURE_REPORTS_DIR (fs_root ?b) = Some (Dir st cs) \<and> \<not> fs_ok ?b (Suc (length cs))) \<longrightarrow>
        rs3 = [] \<and> levels w3 = levels ?b @ [LError]"
    by blast
  from a3 nd e3 l0 have r3: "fst (getAllReports ?b) = Inr []" "levels (snd (getAllReports ?b)) = [LError]"
    by simp_all
  from g ok r1 r1' bad r2 nd r3 show ?thesis by simp
qed

section \<open>The selection flow and the waiter\<close>

text \<open>
  C3. An invocation of the handler sends at most one request that creates a run. When
  the script and its runs are fetched, the flow is three-way, on the run \<open>m\<close> that comes
  first when the runs are sorted by start time, latest first: if there are runs and \<open>m\<close> has
  a report URL, that URL is shown, and no run is created, no status is polled and no
  report is generated; else, if some run has no report URL, \<open>m\<close> is the most recent of
  those, and the report is generated for \<open>m\<close>, once, with no run created and no waiting;
  else there is no run at all, exactly one run is created, and the new run goes through
  the waiter first and is handed to generation when the wait ends without a rejected
  request.
\<close>

theorem C3_selection:
  "length (filter is_start (snd (handleImportScriptAndGenerateReport a sid pid))) \<le> 1
   \<and> (api_script a = Inr scr \<and> (truthy pid \<or> scr \<noteq> None) \<and> api_test_runs a = Inr runs \<and>
        spid = (if truthy pid then pid else the scr) \<and>
        m = hd (sort_key (\<lambda>r. - run_startedAt r) runs) \<longrightarrow>
      (runs \<noteq> [] \<longrightarrow> m \<in> set runs \<and> (\<forall>r \<in> set runs. run_startedAt r \<le> run_startedAt m))
      \<and> (runs \<noteq> [] \<and> truthy (executionReportUrl m) \<longrightarrow>
            handleImportScriptAndGenerateReport a sid pid =
              (None,
               [GetScript sid, GetTestRuns sid spid, SetSelectedReport (the (executionReportUrl m))]
               @ (if truthy spid then [SetSelectedProjectId (the spid)] else [])
               @ [SetActiveView Allure, LoadData])
            \<and> filter (\<lambda>e. is_start e \<or> is_wait e \<or> is_generate e)
                 (snd (handleImportScriptAndGenerateReport a sid pid)) = [])
      \<and> (\<not> (runs \<noteq> [] \<and> truthy (executionReportUrl m)) \<and>
          (\<exists>r \<in> set runs. \<not> truthy (executionReportUrl r)) \<longrightarrow>
            m \<in> set runs \<and> \<not> truthy (executionReportUrl m) \<and>
            (\<forall>r \<in> set runs. \<not> truthy (executionReportUrl r) \<longrightarrow> run_startedAt r \<le> run_startedAt m) \<and>
            snd (handleImportScriptAndGenerateReport a sid pid) =
              [GetScript sid, GetTestRuns sid spid] @ snd (generateAndShow a spid (run_id m)) \<and>
            filter (\<lambda>e. is_start e \<or> is_wait e) (snd (handleImportScriptAndGenerateReport a sid pid)) = [] \<and>
            filter is_generate (snd (handleImportScriptAndGenerateReport a sid pid)) = [PostGenerate (run_id m)])
      \<and> (\<not> (runs \<noteq> [] \<and> truthy (executionReportUrl m)) \<and>
          \<not> (\<exists>r \<in> set runs. \<not> truthy (executionReportUrl r)) \<longrightarrow>
            runs = [] \<and>
            filter is_start (snd (handleImportScriptAndGenerateReport a sid pid)) = [PostStart sid] \<and>
            (\<forall>rid. api_start a = Inr rid \<longrightarrow>
               snd (handleImportScriptAndGenerateReport a sid pid) =
                 [GetScript sid, GetTestRuns sid spid, PostStart sid] @ snd (waitForRun a rid 0)
                 @ (if fst (waitForRun a rid 0) = None then snd (generateAndShow a spid rid) else []))))"
proof (intro conjI impI)
  show "length (filter is_start (snd (handleImportScriptAndGenerateReport a sid pid))) \<le> 1"
    by (rule starts_le_1)
next
  assume h: "api_script a = Inr scr \<and> (truthy pid \<or> scr \<noteq> None) \<and> api_test_runs a = Inr runs \<and>
        spid = (if truthy pid then pid else the scr) \<and>
        m = hd (sort_key (\<lambda>r. - run_startedAt r) runs)"
  assume "runs \<noteq> []"
  from most_recent[OF this] h
  show "m \<in> set runs" "\<forall>r \<in> set runs. run_startedAt r \<le> run_startedAt m" by simp_all
next
  assume h: "api_script a = Inr scr \<and> (truthy pid \<or> scr \<noteq> None) \<and> api_test_runs a = Inr runs \<and>
        spid = (if truthy pid then pid else the scr) \<and>
        m = hd (sort_key (\<lambda>r. - run_startedAt r) runs)"
  assume c: "runs \<noteq> [] \<and> truthy (executionReportUrl m)"
  from h c show eq: "handleImportScriptAndGenerateReport a sid pid =
              (None,
               [GetScript sid, GetTestRuns sid spid, SetSelectedReport (the (executionReportUrl m))]
               @ (if truthy spid then [SetSelectedProjectId (the spid)] else [])
               @ [SetActiveView Allure, LoadData])"
    by (auto simp: handleImportScriptAndGenerateReport_def Let_def)
  show "filter (\<lambda>e. is_start e \<or> is_wait e \<or> is_generate e)
                 (snd (handleImportScriptAndGenerateReport a sid pid)) = []"
    unfolding eq by (simp add: is_start_def is_wait_def is_generate_def)
next
  assume h: "api_script a = Inr scr \<and> (truthy pid \<or> scr \<noteq> None) \<and> api_test_runs a = Inr runs \<and>
        spid = (if truthy pid then pid else the scr) \<and>
        m = hd (sort_key (\<lambda>r. - run_startedAt r) runs)"
  assume c: "\<not> (runs \<noteq> [] \<and> truthy (executionReportUrl m)) \<and>
          (\<exists>r \<in> set runs. \<not> truthy (executionReportUrl r))"
  then have ne: "runs \<noteq> []" by auto
  with c have nu: "\<not> truthy (executionReportUrl m)" by simp
  from most_recent[OF ne] h have mr: "m \<in> set runs" "\<forall>r \<in> set runs. run_startedAt r \<le> run_startedAt m"
    by simp_all
  show "m \<in> set runs" by (rule mr(1))
  show "\<not> truthy (executionReportUrl m)" by (rule nu)
  from mr(2) show "\<forall>r \<in> set runs. \<not> truthy (executionReportUrl r) \<longrightarrow> run_startedAt r \<le> run_startedAt m"
    by simp
  from h ne nu show eq: "snd (handleImportScriptAndGenerateReport a sid pid) =
              [GetScript sid, GetTestRuns sid spid] @ snd (generateAndShow a spid (run_id m))"
    by (auto simp: handleImportScriptAndGenerateReport_def Let_def split: prod.splits)
  show "filter (\<lambda>e. is_start e \<or> is_wait e) (snd (handleImportScriptAndGenerateReport a sid pid)) = []"
    unfolding eq using no_start_generate[of a spid "run_id m"] no_wait_generate[of a spid "run_id m"]
    by (auto simp: is_start_def is_wait_def filter_empty_conv)
  show "filter is_generate (snd (handleImportScriptAndGenerateReport a sid pid)) = [PostGenerate (run_id m)]"
    unfolding eq by (simp add: one_generate is_generate_def)
next
  assume h: "api_script a = Inr scr \<and> (truthy pid \<or> scr \<noteq> None) \<and> api_test_runs a = Inr runs \<and>
        spid = (if truthy pid then pid else the scr) \<and>
        m = hd (sort_key (\<lambda>r. - run_startedAt r) runs)"
  assume c: "\<not> (runs \<noteq> [] \<and> truthy (executionReportUrl m)) \<and>
          \<not> (\<exists>r \<in> set runs. \<not> truthy (executionReportUrl r))"
  show e: "runs = []"
  proof (rule ccontr)
    assume ne: "runs \<noteq> []"
    from most_recent[OF ne] h have "m \<in> set runs" by simp
    with c ne show False by auto
  qed
  have all: "\<forall>rid. api_start a = Inr rid \<longrightarrow>
               snd (handleImportScriptAndGenerateReport a sid pid) =
                 [GetScript sid, GetTestRuns sid spid, PostStart sid] @ snd (waitForRun a rid 0)
                 @ (if fst (waitForRun a rid 0) = None then snd (generateAndShow a spid rid) else [])"
    using h e
    by (auto simp: handleImportScriptAndGenerateReport_def Let_def split: prod.splits option.splits)
  then show "\<forall>rid. api_start a = Inr rid \<longrightarrow>
               snd (handleImportScriptAndGenerateReport a sid pid) =
                 [GetScript sid, GetTestRuns sid spid, PostStart sid] @ snd (waitForRun a rid 0)
                 @ (if fst (waitForRun a rid 0) = None then snd (generateAndShow a spid rid) else [])" .
  show "filter is_start (snd (handleImportScriptAndGenerateReport a sid pid)) = [PostStart sid]"
  proof (cases "api_start a")
    case (Inl x)
    with h e show ?thesis
      by (auto simp: handleImportScriptAndGenerateReport_def Let_def is_start_def)
  next
    case (Inr rid)
    with all have "snd (handleImportScriptAndGenerateReport a sid pid) =
                 [GetScript sid, GetTestRuns sid spid, PostStart sid] @ snd (waitForRun a rid 0)
                 @ (if fst (waitForRun a rid 0) = None then snd (generateAndShow a spid rid) else [])"
      by blast
    then show ?thesis
      using no_start_wait[of a rid 0] no_start_generate[of a spid rid]
      by (simp add: is_start_def)
  qed
qed

theorem C3_selection_witness:
  "handleImportScriptAndGenerateReport api_cached ''s1'' None =
     (None, [GetScript ''s1'', GetTestRuns ''s1'' (Some ''p1''),
             SetSelectedReport ''/allure-reports/run-2/index.html'',
             SetSelectedProjectId ''p1'', SetActiveView Allure, LoadData])
   \<and> filter is_generate (snd (handleImportScriptAndGenerateReport api_pending ''s1'' None))
       = [PostGenerate ''run-2'']
   \<and> filter (\<lambda>e. is_start e \<or> is_wait e) (snd (handleImportScriptAndGenerateReport api_pending ''s1'' None))
       = []
   \<and> filter is_start (snd (handleImportScriptAndGenerateReport api_passing ''s1'' None))
       = [PostStart ''s1'']"
proof -
  let ?u = "''/allure-reports/run-2/index.html''"
  let ?r1 = "[run_of ''run-1'' 10 None, run_of ''run-2'' 20 (Some ?u)]"
  let ?r2 = "[run_of ''run-1'' 10 (Some ''/allure-reports/run-1/index.html''), run_of ''run-2'' 20 None]"
  have nt: "\<not> truthy None" "truthy (Some ''p1'')" "truthy (Some ?u)" by (simp_all add: truthy_def)
  have m1: "run_of ''run-2'' 20 (Some ?u) = hd (sort_key (\<lambda>r. - run_startedAt r) ?r1)"
    by (simp add: run_of_def)
  have m2: "run_of ''run-2'' 20 None = hd (sort_key (\<lambda>r. - run_startedAt r) ?r2)"
    by (simp add: run_of_def)
  have h1: "api_script api_cached = Inr (Some (Some ''p1'')) \<and>
        (truthy None \<or> Some (Some ''p1'') \<noteq> None) \<and> api_test_runs api_cached = Inr ?r1 \<and>
        Some ''p1'' = (if truthy None then None else the (Some (Some ''p1''))) \<and>
        run_of ''run-2'' 20 (Some ?u) = hd (sort_key (\<lambda>r. - run_startedAt r) ?r1)"
    using m1 nt by (simp add: api_cached_def api_passing_def)
  have h2: "api_script api_pending = Inr (Some (Some ''p1'')) \<and>
        (truthy None \<or> Some (Some ''p1'') \<noteq> None) \<and> api_test_runs api_pending = Inr ?r2 \<and>
        Some ''p1'' = (if truthy None then None else the (Some (Some ''p1''))) \<and>
        run_of ''run-2'' 20 None = hd (sort_key (\<lambda>r. - run_startedAt r) ?r2)"
    using m2 nt by (simp add: api_pending_def api_passing_def)
  have h3: "api_script api_passing = Inr (Some (Some ''p1'')) \<and>
        (truthy None \<or> Some (Some ''p1'') \<noteq> None) \<and> api_test_runs api_passing = Inr [] \<and>
        Some ''p1'' = (if truthy None then None else the (Some (Some ''p1''))) \<and>
        hd (sort_key (\<lambda>r. - run_startedAt r) []) = hd (sort_key (\<lambda>r. - run_startedAt r) ([] :: TestRun list))"
    using nt by (simp add: api_passing_def)
  note b1 = C3_selection[where a=api_cached and sid="''s1''" and pid=None and runs="?r1"
      and scr="Some (Some ''p1'')" and spid="Some ''p1''" and m="run_of ''run-2'' 20 (Some ?u)",
      THEN conjunct2, THEN mp, OF h1, THEN conjunct2, THEN conjunct1]
  note b2 = C3_selection[where a=api_pending and sid="''s1''" and pid=None and runs="?r2"
      and scr="Some (Some ''p1'')" and spid="Some ''p1''" and m="run_of ''run-2'' 20 None",
      THEN conjunct2, THEN mp, OF h2, THEN conjunct2, THEN conjunct2, THEN conjunct1]
  note b3 = C3_selection[where a=api_passing and sid="''s1''" and pid=None and runs="[]"
      and scr="Some (Some ''p1'')" and spid="Some ''p1''"
      and m="hd (sort_key (\<lambda>r. - run_startedAt r) ([] :: TestRun list))",
      THEN conjunct2, THEN mp, OF h3, THEN conjunct2, THEN conjunct2, THEN conjunct2]
  have c1: "?r1 \<noteq> [] \<and> truthy (executionReportUrl (run_of ''run-2'' 20 (Some ?u)))"
    using nt by (simp add: run_of_def)
  have c2: "\<not> (?r2 \<noteq> [] \<and> truthy (executionReportUrl (run_of ''run-2'' 20 None))) \<and>
          (\<exists>r \<in> set ?r2. \<not> truthy (executionReportUrl r))"
    using nt by (simp add: run_of_def)
  have c3: "\<not> (([] :: TestRun list) \<noteq> [] \<and>
              truthy (executionReportUrl (hd (sort_key (\<lambda>r. - run_startedAt r) ([] :: TestRun list))))) \<and>
          \<not> (\<exists>r \<in> set ([] :: TestRun list). \<not> truthy (executionReportUrl r))"
    by simp
  from b1[THEN mp, OF c1] nt
  have r1: "handleImportScriptAndGenerateReport api_cached ''s1'' None =
     (None, [GetScript ''s1'', GetTestRuns ''s1'' (Some ''p1''), SetSelectedReport ?u,
             SetSelectedProjectId ''p1'', SetActiveView Allure, LoadData])"
    by (simp add: run_of_def)
  note k = b2[THEN mp, OF c2]
  from k have "filter is_generate (snd (handleImportScriptAndGenerateReport api_pending ''s1'' None))
       = [PostGenerate (run_id (run_of ''run-2'' 20 None))]" by blast
  then have r2: "filter is_generate (snd (handleImportScriptAndGenerateReport api_pending ''s1'' None))
       = [PostGenerate ''run-2'']" by (simp add: run_of_def)
  from k have r2': "filter (\<lambda>e. is_start e \<or> is_wait e)
       (snd (handleImportScriptAndGenerateReport api_pending ''s1'' None)) = []" by blast
  from b3[THEN mp, OF c3]
  have r3: "filter is_start (snd (handleImportScriptAndGenerateReport api_passing ''s1'' None)) = [PostStart ''s1'']"
    by blast
  from r1 r2 r2' r3 show ?thesis by blast
qed

text \<open>
  C4. The waiter makes at most 30 rounds, each a pause of one second followed by one
  status request. The terminal statuses are \<^verbatim>\<open>passed\<close>, \<^verbatim>\<open>failed\<close> and
  \<^verbatim>\<open>completed\<close>: when the request number \<open>j\<close> is the first to answer one of them, the
  wait ends after that request, with no error. When none of the 30 requests answers a
  terminal status, the wait ends after the thirtieth, with no error. After a wait that
  ended with no error the handler goes on to request the generation for the new run.
\<close>

theorem C4_waiter:
  "(\<exists>n \<le> 30. snd (waitForRun a rid 0) = polls n rid)
   \<and> (terminal st \<longleftrightarrow> st = ''passed'' \<or> st = ''failed'' \<or> st = ''completed'')
   \<and> (j < 30 \<and> (\<forall>i < j. \<exists>s. api_run_status a i = Inr s \<and> \<not> terminal s) \<and>
        api_run_status a j = Inr st \<and> terminal st \<longrightarrow>
          waitForRun a rid 0 = (None, polls (Suc j) rid))
   \<and> ((\<forall>i < 30. \<exists>s. api_run_status a i = Inr s \<and> \<not> terminal s) \<longrightarrow>
          waitForRun a rid 0 = (None, polls 30 rid))
   \<and> (api_script a = Inr scr \<and> (truthy pid \<or> scr \<noteq> None) \<and> api_test_runs a = Inr [] \<and>
        api_start a = Inr rid \<and> fst (waitForRun a rid 0) = None \<longrightarrow>
          (\<exists>evs. snd (handleImportScriptAndGenerateReport a sid pid) =
             [GetScript sid, GetTestRuns sid (if truthy pid then pid else the scr), PostStart sid]
             @ snd (waitForRun a rid 0) @ PostGenerate rid # evs))"
proof (intro conjI impI)
  from wait_polls[of 0 a rid] show "\<exists>n \<le> 30. snd (waitForRun a rid 0) = polls n rid"
    by (simp add: maxAttempts_def)
  show "terminal st \<longleftrightarrow> st = ''passed'' \<or> st = ''failed'' \<or> st = ''completed''"
    by (simp add: terminal_def)
next
  assume h: "j < 30 \<and> (\<forall>i < j. \<exists>s. api_run_status a i = Inr s \<and> \<not> terminal s) \<and>
        api_run_status a j = Inr st \<and> terminal st"
  then have "waitForRun a rid 0 = (None, polls (Suc (j - 0)) rid)"
    by (intro wait_stops[where s=st]) (auto simp: maxAttempts_def)
  then show "waitForRun a rid 0 = (None, polls (Suc j) rid)" by simp
next
  assume "\<forall>i < 30. \<exists>s. api_run_status a i = Inr s \<and> \<not> terminal s"
  then have "waitForRun a rid 0 = (None, polls (maxAttempts - 0) rid)"
    by (intro wait_ceiling) (auto simp: maxAttempts_def)
  then show "waitForRun a rid 0 = (None, polls 30 rid)" by (simp add: maxAttempts_def)
next
  assume h: "api_script a = Inr scr \<and> (truthy pid \<or> scr \<noteq> None) \<and> api_test_runs a = Inr [] \<and>
        api_start a = Inr rid \<and> fst (waitForRun a rid 0) = None"
  let ?spid = "if truthy pid then pid else the scr"
  obtain evs where g: "snd (generateAndShow a ?spid rid) = PostGenerate rid # evs"
    using generateAndShow_hd by blast
  obtain wevs where w: "waitForRun a rid 0 = (None, wevs)" using h by (cases "waitForRun a rid 0") auto
  obtain gr gevs where ge: "generateAndShow a ?spid rid = (gr, gevs)" by (cases "generateAndShow a ?spid rid")
  from h w ge have "snd (handleImportScriptAndGenerateReport a sid pid) =
      [GetScript sid, GetTestRuns sid ?spid, PostStart sid] @ wevs @ gevs"
    by (auto simp: handleImportScriptAndGenerateReport_def Let_def)
  with w g ge show "\<exists>evs. snd (handleImportScriptAndGenerateReport a sid pid) =
             [GetScript sid, GetTestRuns sid (if truthy pid then pid else the scr), PostStart sid]
             @ snd (waitForRun a rid 0) @ PostGenerate rid # evs"
    by auto
qed

theorem C4_waiter_witness:
  "api_run_status api_passing 0 = Inr ''running'' \<and> api_run_status api_passing 1 = Inr ''running''
   \<and> \<not> terminal ''running''
   \<and> api_run_status api_passing 2 = Inr ''passed'' \<and> terminal ''passed''
   \<and> waitForRun api_passing ''run-9'' 0 = (None, polls 3 ''run-9'')
   \<and> api_run_status api_slow 29 = Inr ''running''
   \<and> waitForRun api_slow ''run-9'' 0 = (None, polls 30 ''run-9'')
   \<and> (\<exists>evs. snd (handleImportScriptAndGenerateReport api_slow ''s1'' None) =
         [GetScript ''s1'', GetTestRuns ''s1'' (Some ''p1''), PostStart ''s1'']
         @ polls 30 ''run-9'' @ PostGenerate ''run-9'' # evs)"
proof -
  have p1: "\<forall>i < 2. \<exists>s. api_run_status api_passing i = Inr s \<and> \<not> terminal s"
    by (simp add: api_passing_def terminal_def)
  have p2: "api_run_status api_passing 2 = Inr ''passed''" "terminal ''passed''"
    by (simp_all add: api_passing_def terminal_def)
  have s1: "\<forall>i < 30. \<exists>s. api_run_status api_slow i = Inr s \<and> \<not> terminal s"
    by (simp add: api_slow_def api_passing_def terminal_def)
  have s2: "api_script api_slow = Inr (Some (Some ''p1''))" "api_test_runs api_slow = Inr []"
    "api_start api_slow = Inr ''run-9''"
    by (simp_all add: api_slow_def api_passing_def)
  have nt: "\<not> truthy None" by (simp add: truthy_def)
  have lt: "(2::nat) < 30" by simp
  note t3 = C4_waiter[where a=api_passing and rid="''run-9''" and j=2 and st="''passed''"
      and scr=None and pid=None and sid="[]", THEN conjunct2, THEN conjunct2, THEN conjunct1]
  from t3 lt p1 p2
  have w1: "waitForRun api_passing ''run-9'' 0 = (None, polls (Suc 2) ''run-9'')" by blast
  note c = C4_waiter[where a=api_slow and rid="''run-9''" and scr="Some (Some ''p1'')" and pid=None
      and sid="''s1''" and j=0 and st="[]"]
  note t4 = c[THEN conjunct2, THEN conjunct2, THEN conjunct2, THEN conjunct1]
  note t5 = c[THEN conjunct2, THEN conjunct2, THEN conjunct2, THEN conjunct2]
  from t4 s1 have w2: "waitForRun api_slow ''run-9'' 0 = (None, polls 30 ''run-9'')" by blast
  then have "fst (waitForRun api_slow ''run-9'' 0) = None" by simp
  with t5 s2 have "\<exists>evs. snd (handleImportScriptAndGenerateReport api_slow ''s1'' None) =
             [GetScript ''s1'', GetTestRuns ''s1'' (if truthy None then None else the (Some (Some ''p1''))), PostStart ''s1'']
             @ snd (waitForRun api_slow ''run-9'' 0) @ PostGenerate ''run-9'' # evs"
    by blast
  with w2 nt have "\<exists>evs. snd (handleImportScriptAndGenerateReport api_slow ''s1'' None) =
         [GetScript ''s1'', GetTestRuns ''s1'' (Some ''p1''), PostStart ''s1'']
         @ polls 30 ''run-9'' @ PostGenerate ''run-9'' # evs"
    by simp
  moreover have "api_run_status api_passing 0 = Inr ''running''" "api_run_status api_passing 1 = Inr ''running''"
    "\<not> terminal ''running''" "api_run_status api_slow 29 = Inr ''running''"
    by (simp_all add: api_slow_def api_passing_def terminal_def)
  ultimately show ?thesis using p2 w1 w2 by (simp add: numeral_3_eq_3)
qed

section \<open>The catalog\<close>



end
